theory Spec2Isabelle
  imports Complex_Main
begin

section \<open>System monitoring tool: a shallow embedding of Assignment1.c\<close>

text \<open>
  Conventions of the embedding.
  \<^item> \<open>long double\<close> and \<open>double\<close> values are real numbers. An operation on them
    gives its exact result rounded to the format of the operation; how the two formats
    round is the arithmetic of the host, an argument of every function that computes
    with them. A division by zero gives no number: it is a value of its own.
  \<^item> \<open>int\<close> values are integers, so the embedding follows C as long as no \<open>int\<close>
    overflows; a theorem whose inputs can reach the range of a C \<open>int\<close> says so in a
    hypothesis.
  \<^item> Everything the program reads from the host (the \<open>sysinfo\<close> call, the files under
    \<open>/proc\<close> and \<open>/sys\<close>) is an argument of the function that reads it, as the
    outcome of that read.
  \<^item> Everything the program writes is an event; a function that prints returns the list
    of its events in program order. Calls of \<open>fflush\<close> are not events.
  \<^item> \<open>exit(1)\<close> is the outcome \<open>Exit 1\<close>; a function that may call it returns an
    \<open>outcome\<close>. The outcome \<open>Undefined\<close> is an execution that C leaves undefined.
\<close>

subsection \<open>Output events and outcomes\<close>

text \<open>
  A piece of formatted text: a literal string, a \<open>%d\<close> or \<open>%lu\<close> integer, or a
  \<open>%.<n>Lf\<close> number with its number of decimals.
\<close>

datatype piece = Str string | IntNum int | Num nat real

text \<open>
  \<open>Out\<close> is a \<open>printf\<close> at the current cursor, \<open>Err\<close> a \<open>fprintf(stderr, ...)\<close>,
  \<open>At r c ps\<close> a \<open>printf\<close> whose format starts with the cursor address
  \<open>ESC [ r ; c H\<close> and goes on with \<open>ps\<close>, \<open>Sleep\<close> a call of \<open>usleep\<close>.
\<close>

datatype event = Out "piece list" | Err string | At int int "piece list" | Sleep nat

datatype 'a outcome = Exit int | Ret 'a | Undefined

definition nl :: string where
  "nl = [CHR 0x0A]"

subsection \<open>Floating-point arithmetic\<close>

text \<open>
  The arithmetic of the host: the function that rounds an exact result to a
  \<open>long double\<close>, and the one that rounds it to a \<open>double\<close>. The source does not fix
  them (they are those of the platform it is compiled for). The range of the exponents
  is not modelled: no result overflows.
\<close>

record arith =
  ld :: "real \<Rightarrow> real"
  dbl :: "real \<Rightarrow> real"

text \<open>An exact result that is zero is zero in every format; any other is rounded.\<close>

definition rounded :: "(real \<Rightarrow> real) \<Rightarrow> real \<Rightarrow> real" where
  "rounded r x = (if x = 0 then 0 else r x)"

text \<open>The operations \<open>+\<close>, \<open>-\<close> and \<open>*\<close> of \<open>long double\<close>.\<close>

definition fadd :: "arith \<Rightarrow> real \<Rightarrow> real \<Rightarrow> real" where
  "fadd fp a b = rounded (ld fp) (a + b)"

definition fsub :: "arith \<Rightarrow> real \<Rightarrow> real \<Rightarrow> real" where
  "fsub fp a b = rounded (ld fp) (a - b)"

definition fmul :: "arith \<Rightarrow> real \<Rightarrow> real \<Rightarrow> real" where
  "fmul fp a b = rounded (ld fp) (a * b)"

text \<open>
  The value of a \<open>long double\<close> expression: a number, or what a division by zero
  gives (an infinity or a NaN), which is no number.
\<close>

datatype long_double = Finite real | NotFinite

definition fdiv :: "arith \<Rightarrow> real \<Rightarrow> real \<Rightarrow> long_double" where
  "fdiv fp a b = (if b = 0 then NotFinite else Finite (rounded (ld fp) (a / b)))"

text \<open>The arithmetic that does not round.\<close>

definition exact_arith :: arith where
  "exact_arith = \<lparr>ld = (\<lambda>x. x), dbl = (\<lambda>x. x)\<rparr>"

text \<open>
  Rounding to a binary format with a significand of \<open>p\<close> bits, to the nearest value and
  to the even significand in a tie: \<open>binade x\<close> is the exponent \<open>e\<close> with
  \<open>2\<^sup>e \<le> |x| < 2\<^sup>e\<^sup>+\<^sup>1\<close>, and the values of the format around \<open>x\<close> are the multiples of
  \<open>2\<^sup>e\<^sup>-\<^sup>p\<^sup>+\<^sup>1\<close>.
\<close>

definition binade :: "real \<Rightarrow> int" where
  "binade x = \<lfloor>log 2 \<bar>x\<bar>\<rfloor>"

definition round_even :: "real \<Rightarrow> int" where
  "round_even y =
     (if y - of_int \<lfloor>y\<rfloor> < 1 / 2 then \<lfloor>y\<rfloor>
      else if 1 / 2 < y - of_int \<lfloor>y\<rfloor> then \<lfloor>y\<rfloor> + 1
      else if even \<lfloor>y\<rfloor> then \<lfloor>y\<rfloor> else \<lfloor>y\<rfloor> + 1)"

definition round_to :: "nat \<Rightarrow> real \<Rightarrow> real" where
  "round_to p x =
     of_int (round_even (x / 2 powr (of_int (binade x) - (real p - 1))))
       * 2 powr (of_int (binade x) - (real p - 1))"

text \<open>
  The arithmetic of the x86-64 System V platform: \<open>long double\<close> is the x87 extended
  format (a significand of 64 bits), \<open>double\<close> is IEEE binary64 (53 bits).
\<close>

definition x87_arith :: arith where
  "x87_arith = \<lparr>ld = round_to 64, dbl = round_to 53\<rparr>"

subsection \<open>CPU utilization\<close>

text \<open>The eight counters that \<open>fscanf\<close> stores from the first line of \<open>/proc/stat\<close>.\<close>

record proc_stat =
  user :: real
  nice :: real
  system :: real
  idle :: real
  iowait :: real
  irq :: real
  softirq :: real
  steal :: real

text \<open>
  One read of \<open>/proc/stat\<close>: \<open>fopen\<close> fails, or the counters are scanned and
  \<open>fclose\<close> succeeds (\<open>True\<close>) or fails (\<open>False\<close>). The result of \<open>fscanf\<close>
  is not checked by the source; a line from which it stores fewer than eight numbers
  leaves the others indeterminate in C and has no counterpart here.
\<close>

datatype stat_read = OpenFailed | Scanned proc_stat bool

text \<open>The four \<open>long double\<close> variables of \<open>main\<close> that the function updates by pointer.\<close>

record cpu_tracker =
  preTotalCPU :: real
  preIdleCPU :: real
  finalTotalCPU :: real
  finalIdleCPU :: real

definition currentTotalCPU :: "arith \<Rightarrow> proc_stat \<Rightarrow> real" where
  "currentTotalCPU fp s =
     fadd fp (fadd fp (fadd fp (fadd fp (fadd fp (fadd fp (fadd fp
       (user s) (nice s)) (system s)) (idle s)) (iowait s)) (irq s)) (softirq s)) (steal s)"

definition currentIdleCPU :: "arith \<Rightarrow> proc_stat \<Rightarrow> real" where
  "currentIdleCPU fp s = fadd fp (idle s) (iowait s)"

text \<open>The result is the events, the returned value and the updated variables.\<close>

definition calculate_cpu_utilization ::
  "arith \<Rightarrow> cpu_tracker \<Rightarrow> stat_read \<Rightarrow> event list \<times> long_double \<times> cpu_tracker" where
  "calculate_cpu_utilization fp tr rd =
     (case rd of
        OpenFailed \<Rightarrow> ([Err (''Error: Failed opening /proc/stat'' @ nl)], Finite 0, tr)
      | Scanned s close_ok \<Rightarrow>
          if \<not> close_ok then ([Err (''Error: Failed to close file'' @ nl)], Finite (- 1), tr)
          else if preTotalCPU tr = 0 \<and> preIdleCPU tr = 0
          then ([], Finite 0,
                tr\<lparr>preTotalCPU := currentTotalCPU fp s, preIdleCPU := currentIdleCPU fp s\<rparr>)
          else
            let U_initial = fsub fp (preTotalCPU tr) (preIdleCPU tr);
                tr1 = tr\<lparr>finalTotalCPU := currentTotalCPU fp s,
                         finalIdleCPU := currentIdleCPU fp s\<rparr>;
                U_final = fsub fp (finalTotalCPU tr1) (finalIdleCPU tr1);
                delta_total = fsub fp U_final U_initial;
                delta_idle = fsub fp (finalTotalCPU tr1) (preTotalCPU tr);
                tr2 = tr1\<lparr>preTotalCPU := currentTotalCPU fp s,
                          preIdleCPU := currentIdleCPU fp s\<rparr>
            in if delta_total = 0 \<or> delta_idle = 0 then ([], Finite 0, tr2)
               else (case fdiv fp delta_total delta_idle of
                       NotFinite \<Rightarrow> ([], NotFinite, tr2)
                     | Finite ratio \<Rightarrow> ([], Finite (fmul fp ratio 100), tr2)))"

text \<open>
  The values returned by successive calls, each on the variables the call before left:
  the tracker sampled over a sequence of reads.
\<close>

fun samples_of :: "arith \<Rightarrow> cpu_tracker \<Rightarrow> stat_read list \<Rightarrow> long_double list" where
  "samples_of fp tr [] = []"
| "samples_of fp tr (rd # rds) =
     (case calculate_cpu_utilization fp tr rd of (es, v, tr') \<Rightarrow> v # samples_of fp tr' rds)"

text \<open>The variables as \<open>main\<close> initialises them: all zero, the sentinel of the first call.\<close>

definition tracker0 :: cpu_tracker where
  "tracker0 = \<lparr>preTotalCPU = 0, preIdleCPU = 0, finalTotalCPU = 0, finalIdleCPU = 0\<rparr>"

subsection \<open>Command-line arguments\<close>

record ArgsInfo =
  memory_flag :: bool
  cpu_flag :: bool
  cores_flag :: bool
  samples :: int
  tdelay :: nat
  updated_sample :: bool
  updated_tdelay :: bool
  argc :: nat
  argv :: "string list"

text \<open>\<open>malloc\<close> is taken to succeed.\<close>

definition initializeArgument :: "nat \<Rightarrow> string list \<Rightarrow> ArgsInfo" where
  "initializeArgument n args =
     \<lparr>memory_flag = False, cpu_flag = False, cores_flag = False,
      samples = 20, tdelay = 500000,
      updated_sample = False, updated_tdelay = False,
      argc = n, argv = args\<rparr>"

text \<open>\<open>isspace\<close> and \<open>isdigit\<close> of the C locale.\<close>

definition isspace :: "char \<Rightarrow> bool" where
  "isspace c = (c \<in> set [CHR 0x20, CHR 0x09, CHR 0x0A, CHR 0x0B, CHR 0x0C, CHR 0x0D])"

definition isdigit :: "char \<Rightarrow> bool" where
  "isdigit c = (c \<in> set ''0123456789'')"

definition digit_value :: "char \<Rightarrow> int" where
  "digit_value c = int (of_char c) - 48"

fun removeWhiteSpace :: "string \<Rightarrow> string" where
  "removeWhiteSpace [] = []"
| "removeWhiteSpace (c # str) = (if isspace c then removeWhiteSpace str else c # str)"

text \<open>
  \<open>strtol(s, &endptr, 10)\<close> of the C library, as the C standard describes it: leading
  white space, an optional sign, then decimal digits; the value is clamped to the range
  of \<open>long\<close> (64 bits); with no digit the value is 0 and \<open>endptr\<close> is \<open>s\<close> itself.
  The result is the value and the string \<open>endptr\<close> points to.
\<close>

fun strtol_digits :: "int \<Rightarrow> string \<Rightarrow> int \<times> string" where
  "strtol_digits acc [] = (acc, [])"
| "strtol_digits acc (c # cs) =
     (if isdigit c then strtol_digits (acc * 10 + digit_value c) cs else (acc, c # cs))"

definition LONG_MAX :: int where
  "LONG_MAX = 9223372036854775807"

definition LONG_MIN :: int where
  "LONG_MIN = - 9223372036854775808"

definition strtol :: "string \<Rightarrow> int \<times> string" where
  "strtol s =
     (let s1 = removeWhiteSpace s;
          negative = (case s1 of [] \<Rightarrow> False | c # cs \<Rightarrow> c = CHR ''-'');
          s2 = (case s1 of [] \<Rightarrow> [] | c # cs \<Rightarrow> if c = CHR ''-'' \<or> c = CHR ''+'' then cs else s1)
      in case s2 of
           [] \<Rightarrow> (0, s)
         | d # ds \<Rightarrow>
             if isdigit d
             then (case strtol_digits 0 s2 of
                     (v, rest) \<Rightarrow>
                       (max LONG_MIN (min LONG_MAX (if negative then - v else v)), rest))
             else (0, s))"

text \<open>
  The conversion \<open>(int)value\<close> of a \<open>long\<close>: implementation-defined outside the range
  of \<open>int\<close>, where gcc and clang reduce modulo \<open>2 ^ 32\<close>.
\<close>

definition int_of_long :: "int \<Rightarrow> int" where
  "int_of_long v = (v + 2147483648) mod 4294967296 - 2147483648"

text \<open>The loop of \<open>isPositional\<close> over the characters of the argument.\<close>

fun all_digits :: "string \<Rightarrow> bool" where
  "all_digits [] = True"
| "all_digits (c # arg) = (if \<not> isdigit c then False else all_digits arg)"

text \<open>
  Reads \<open>argv[current_index]\<close>; the index is below the length of \<open>argv\<close> at every call
  the program makes.
\<close>

definition isPositional :: "ArgsInfo \<Rightarrow> nat \<Rightarrow> bool" where
  "isPositional argsInfo current_index = all_digits (argv argsInfo ! current_index)"

text \<open>
  The result is the events, the returned truth value and the updated structure. The
  structure is never \<open>NULL\<close>, and \<open>argv + 10\<close> is never \<open>NULL\<close>.
\<close>

definition isFlag :: "ArgsInfo \<Rightarrow> nat \<Rightarrow> event list \<times> bool \<times> ArgsInfo" where
  "isFlag argsInfo current_index =
     (let arg = argv argsInfo ! current_index in
      if length arg = 0 then ([], False, argsInfo)
      else if arg = ''--memory'' then ([], True, argsInfo\<lparr>memory_flag := True\<rparr>)
      else if arg = ''--cpu'' then ([], True, argsInfo\<lparr>cpu_flag := True\<rparr>)
      else if arg = ''--cores'' then ([], True, argsInfo\<lparr>cores_flag := True\<rparr>)
      else if take 10 arg = ''--samples='' then
        (let value_str = drop 10 arg in
         if value_str = []
         then ([Out [Str ''here''], Err (''Error: Missing value'' @ nl)], False, argsInfo)
         else if updated_sample argsInfo
         then ([Out [Str ''here''], Out [Str ''here2''],
                Err (''Error: cannot have multiple sample values'' @ nl)], False, argsInfo)
         else
           (case strtol (removeWhiteSpace value_str) of
              (val, endptr) \<Rightarrow>
                if endptr \<noteq> [] \<or> val \<le> 0
                then ([Out [Str ''here''], Out [Str ''here2''], Out [Str ''here3''],
                       Err (''Error: Invalid value for --samples'' @ nl)], False, argsInfo)
                else ([Out [Str ''here''], Out [Str ''here2''], Out [Str ''here3'']], True,
                      argsInfo\<lparr>samples := int_of_long val, updated_sample := True\<rparr>)))
      else if take 9 arg = ''--tdelay='' then
        (let value_str = drop 9 arg in
         if value_str = []
         then ([Err (''Error: Missing value'' @ nl)], False, argsInfo)
         else if updated_tdelay argsInfo
         then ([Err (''Error: cannot have multiple tdelay values'' @ nl)], False, argsInfo)
         else
           (case strtol (removeWhiteSpace value_str) of
              (val, endptr) \<Rightarrow>
                if endptr \<noteq> [] \<or> val \<le> 0
                then ([Err (''Error:Invalid value for tdelay'' @ nl)], False, argsInfo)
                else ([], True, argsInfo\<lparr>tdelay := nat val, updated_tdelay := True\<rparr>)))
      else ([], False, argsInfo))"

text \<open>The loop \<open>for (; current_index < argc; current_index++)\<close> over the flags.\<close>

function process_flags :: "nat \<Rightarrow> ArgsInfo \<Rightarrow> nat \<Rightarrow> event list \<times> int \<times> ArgsInfo" where
  "process_flags n argsInfo current_index =
     (if current_index < n
      then (case isFlag argsInfo current_index of
              (es, ok, argsInfo') \<Rightarrow>
                if \<not> ok then (es @ [Err (''Error: Unknown argument'' @ nl)], - 1, argsInfo')
                else (case process_flags n argsInfo' (Suc current_index) of
                        (es', rc, argsInfo'') \<Rightarrow> (es @ es', rc, argsInfo'')))
      else ([], 0, argsInfo))"
  by pat_completeness auto
termination
  by (relation "measure (\<lambda>(n, argsInfo, current_index). n - current_index)") auto

declare process_flags.simps [simp del]

text \<open>The defaulting of the three panel flags at the end of the function.\<close>

definition default_flags :: "ArgsInfo \<Rightarrow> ArgsInfo" where
  "default_flags argsInfo =
     (if \<not> cores_flag argsInfo \<and> \<not> cpu_flag argsInfo \<and> \<not> memory_flag argsInfo
      then argsInfo\<lparr>cores_flag := True, cpu_flag := True, memory_flag := True\<rparr>
      else argsInfo)"

text \<open>The result is the events, the returned status (0 or -1) and the updated structure.\<close>

definition processCommandLineArguments ::
  "nat \<Rightarrow> ArgsInfo \<Rightarrow> event list \<times> int \<times> ArgsInfo" where
  "processCommandLineArguments n argsInfo =
     (if n = 1
      then ([], 0, default_flags
              (argsInfo\<lparr>cores_flag := True, cpu_flag := True, memory_flag := True\<rparr>))
      else if n \<ge> 2 \<and> isPositional argsInfo 1 then
        (case strtol (argv argsInfo ! 1) of
           (val, endptr) \<Rightarrow>
             if endptr \<noteq> [] \<or> val \<le> 0
             then ([Err (''Error: invalid value for samples'' @ nl)], - 1, argsInfo)
             else
               (let argsInfo1 = argsInfo\<lparr>samples := int_of_long val, updated_sample := True\<rparr> in
                if n \<ge> 3 \<and> isPositional argsInfo1 2 then
                  (case strtol (argv argsInfo1 ! 2) of
                     (val2, endptr2) \<Rightarrow>
                       if endptr2 \<noteq> [] \<or> val2 \<le> 0
                       then ([Err (''Error: invalid value for tdelay'' @ nl)], - 1, argsInfo1)
                       else
                         (case process_flags n
                                 (argsInfo1\<lparr>tdelay := nat val2, updated_tdelay := True\<rparr>) 3 of
                            (es, rc, argsInfo2) \<Rightarrow>
                              if rc = - 1 then (es, - 1, argsInfo2)
                              else (es, 0, default_flags argsInfo2)))
                else
                  (case process_flags n argsInfo1 2 of
                     (es, rc, argsInfo2) \<Rightarrow>
                       if rc = - 1 then (es, - 1, argsInfo2)
                       else (es, 0, default_flags argsInfo2))))
      else
        (case process_flags n argsInfo 1 of
           (es, rc, argsInfo2) \<Rightarrow>
             if rc = - 1 then (es, - 1, argsInfo2)
             else (es, 0, default_flags argsInfo2)))"

subsection \<open>Memory, frequency and cores\<close>

text \<open>
  The fields of \<open>struct sysinfo\<close> that the program reads. A call of \<open>sysinfo\<close> is
  \<open>None\<close> when it returns -1, and the structure it fills otherwise.
\<close>

record sysinfo =
  totalram :: nat
  freeram :: nat
  mem_unit :: nat

definition GiB :: real where
  "GiB = 1024 * 1024 * 1024"

text \<open>
  The expression \<open>(info.totalram * info.mem_unit) / (1024.0 * 1024.0 * 1024.0)\<close> of
  \<open>get_total_memory\<close>, and the same with \<open>freeram\<close> in \<open>calculate_memory_used\<close>: the
  product is \<open>unsigned long\<close> (64 bits); it is converted to \<open>double\<close> and divided, in
  \<open>double\<close>, by the \<open>double\<close> constant, which is the number \<open>GiB\<close>.
\<close>

definition bytes_to_GiB :: "arith \<Rightarrow> nat \<Rightarrow> real" where
  "bytes_to_GiB fp n = rounded (dbl fp) (rounded (dbl fp) (real (n mod 2 ^ 64)) / GiB)"

definition get_total_memory :: "arith \<Rightarrow> sysinfo option \<Rightarrow> event list \<times> real outcome" where
  "get_total_memory fp si =
     (case si of
        None \<Rightarrow> ([Err (''Error: Cannot read system memory information'' @ nl)], Exit 1)
      | Some info \<Rightarrow>
          let total_memory = bytes_to_GiB fp (totalram info * mem_unit info)
          in (if total_memory < 0 then [Err (''Error:Total memory cannot be negative'' @ nl)]
              else [],
              Ret total_memory))"

text \<open>
  The first argument is the outcome of the function's own call of \<open>sysinfo\<close>, the second
  the outcome of the call inside \<open>get_total_memory\<close>.
\<close>

definition calculate_memory_used ::
  "arith \<Rightarrow> sysinfo option \<Rightarrow> sysinfo option \<Rightarrow> event list \<times> real outcome" where
  "calculate_memory_used fp si si_total =
     (case si of
        None \<Rightarrow> ([Err (''Error: Cannot read memory used file'' @ nl)], Ret 0)
      | Some info \<Rightarrow>
          let freeMemory = bytes_to_GiB fp (freeram info * mem_unit info)
          in (case get_total_memory fp si_total of
                (es, Exit code) \<Rightarrow> (es, Exit code)
              | (es, Undefined) \<Rightarrow> (es, Undefined)
              | (es, Ret total_memory) \<Rightarrow> (es, Ret (fsub fp total_memory freeMemory))))"

text \<open>
  One read of \<open>cpuinfo_max_freq\<close>: \<open>fopen\<close> fails, or \<open>fscanf\<close> stores a number, or
  \<open>fscanf\<close> stores none.
\<close>

datatype freq_read = FreqOpenFailed | FreqScanned real | FreqScanFailed

definition calculate_max_frequency ::
  "arith \<Rightarrow> freq_read \<Rightarrow> event list \<times> real outcome" where
  "calculate_max_frequency fp rd =
     (case rd of
        FreqOpenFailed \<Rightarrow> ([Err (''Error reading the file'' @ nl)], Ret 0)
      | FreqScanned max_freq \<Rightarrow> ([], Ret (rounded (ld fp) (max_freq / 1000000)))
      | FreqScanFailed \<Rightarrow>
          ([Err (''Error: failed to calculate max frequency'' @ nl)], Exit 1))"

text \<open>
  One read of \<open>/proc/cpuinfo\<close>: \<open>fopen\<close> fails, or \<open>fgets\<close> yields the given
  strings one after the other and \<open>fclose\<close> succeeds (\<open>True\<close>) or fails.
\<close>

datatype cpuinfo_read = CpuinfoOpenFailed | CpuinfoLines "string list" bool

fun count_processor :: "int \<Rightarrow> string list \<Rightarrow> int" where
  "count_processor cores [] = cores"
| "count_processor cores (input_string # rest) =
     count_processor (if take 9 input_string = ''processor'' then cores + 1 else cores) rest"

definition calculate_cores :: "cpuinfo_read \<Rightarrow> event list \<times> int" where
  "calculate_cores rd =
     (case rd of
        CpuinfoOpenFailed \<Rightarrow> ([Err (''Error reading the file'' @ nl)], - 1)
      | CpuinfoLines ls close_ok \<Rightarrow>
          if \<not> close_ok then ([Err (''Error: Failed to close file'' @ nl)], - 1)
          else ([], count_processor 0 ls))"

subsection \<open>Drawing\<close>

record CursorPosition =
  row :: int
  col :: int

definition save_position :: "int \<Rightarrow> int \<Rightarrow> CursorPosition" where
  "save_position r c = \<lparr>row = r, col = c\<rparr>"

definition change_line :: "int \<Rightarrow> event list" where
  "change_line num_lines = replicate (nat num_lines) (Out [Str nl])"

text \<open>The three bytes of the box-drawing character U+2500 in UTF-8.\<close>

definition hrule :: string where
  "hrule = [CHR 0xE2, CHR 0x94, CHR 0x80]"

text \<open>
  The result is the events, the returned position and the values left in
  \<open>*current_row\<close> and \<open>*current_column\<close>. The unit is a formatted text, since
  \<open>draw_memory_graph\<close> builds it with \<open>sprintf\<close>.
\<close>

definition draw_graph ::
  "string \<Rightarrow> piece list \<Rightarrow> int \<Rightarrow> string \<Rightarrow> int \<Rightarrow> int \<Rightarrow> int
     \<Rightarrow> event list \<times> CursorPosition \<times> int \<times> int" where
  "draw_graph label unit height baseline current_row current_column samples_arg =
     (let pos = save_position current_row (current_column + int (length label) + 1);
          current_row1 = current_row + 1;
          current_column1 = current_column + 8;
          current_row2 = current_row1 + height;
          samples1 = (if samples_arg < 20 then 20 else samples_arg)
      in ([At current_row current_column [Str (label @ nl)],
           At current_row1 current_column (Str '' '' # unit)]
          @ map (\<lambda>i. At (current_row1 + int i) current_column1 [Str (''|'' @ nl)])
              [0..<nat height]
          @ [At current_row2 (current_column1 - int (length baseline) - 2)
               [Str '' '', Str baseline]]
          @ map (\<lambda>j. At current_row2 (current_column1 + int j) [Str hrule])
              [0..<nat (samples1 + 1)]
          @ [Out [Str nl]],
          pos, current_row2 + 1, current_column1))"

text \<open>
  The argument \<open>si\<close> is the outcome of the \<open>sysinfo\<close> call of \<open>get_total_memory\<close>.
  The result carries the value stored in \<open>*scalefactor\<close> as its last component.
\<close>

definition draw_memory_graph ::
  "arith \<Rightarrow> int \<Rightarrow> int \<Rightarrow> int \<Rightarrow> sysinfo option
     \<Rightarrow> event list \<times> (CursorPosition \<times> int \<times> int \<times> real) outcome" where
  "draw_memory_graph fp current_row current_column samples_arg si =
     (case get_total_memory fp si of
        (es, Exit code) \<Rightarrow> (es, Exit code)
      | (es, Undefined) \<Rightarrow> (es, Undefined)
      | (es, Ret max_memory) \<Rightarrow>
          let height = 10;
              scalefactor = rounded (ld fp) (max_memory / real_of_int height)
          in (case draw_graph ''v Memory '' [Num 0 max_memory, Str '' GB''] height ''0 GB''
                     current_row current_column samples_arg of
                (es', pos, r, c) \<Rightarrow> (es @ es', Ret (pos, r, c, scalefactor))))"

definition draw_cpu_graph ::
  "int \<Rightarrow> int \<Rightarrow> int \<Rightarrow> event list \<times> CursorPosition \<times> int \<times> int" where
  "draw_cpu_graph start_row start_column samples_arg =
     draw_graph ''v CPU '' [Str ''100%''] 11 ''0%'' start_row start_column samples_arg"

text \<open>Division of \<open>int\<close> in C truncates towards zero.\<close>

definition c_div :: "int \<Rightarrow> int \<Rightarrow> int" where
  "c_div a b = (if (a < 0) = (b < 0) then \<bar>a\<bar> div \<bar>b\<bar> else - (\<bar>a\<bar> div \<bar>b\<bar>))"

definition box_top :: string where
  "box_top = ''+'' @ hrule @ hrule @ hrule @ ''+''"

definition box_middle :: string where
  "box_middle = ''|   |''"

text \<open>One of the three inner loops over \<open>col\<close>: the cells of one text line of a grid row.\<close>

definition box_line :: "int \<Rightarrow> int \<Rightarrow> int \<Rightarrow> int \<Rightarrow> string \<Rightarrow> event list" where
  "box_line coresNumber r line_row currentcol text =
     concat (map (\<lambda>c. if r * 4 + c < coresNumber
                       then [At line_row (currentcol + c * 6) [Str text]] else [])
               [0, 1, 2, 3])"

text \<open>The outer loop over \<open>row\<close>; the result carries the value left in \<open>*currentrow\<close>.\<close>

fun cores_rows :: "int \<Rightarrow> int \<Rightarrow> int \<Rightarrow> int list \<Rightarrow> event list \<times> int" where
  "cores_rows coresNumber currentcol currentrow [] = ([], currentrow)"
| "cores_rows coresNumber currentcol currentrow (r # rs) =
     (case cores_rows coresNumber currentcol (currentrow + 1) rs of
        (es, currentrow') \<Rightarrow>
          (box_line coresNumber r (currentrow + r * 2) currentcol box_top
           @ [Out [Str nl]]
           @ box_line coresNumber r (currentrow + r * 2 + 1) currentcol box_middle
           @ [Out [Str nl]]
           @ box_line coresNumber r (currentrow + r * 2 + 2) currentcol box_top
           @ [Out [Str nl]]
           @ es,
           currentrow'))"

text \<open>
  The result is the events, the returned position and the value left in \<open>*currentrow\<close>
  (\<open>*currentcol\<close> is not changed).
\<close>

definition coresGraph ::
  "int \<Rightarrow> int \<Rightarrow> int \<Rightarrow> real \<Rightarrow> event list \<times> CursorPosition \<times> int" where
  "coresGraph coresNumber currentcol currentrow frequency =
     (let currentrow1 = currentrow + 2;
          rows = c_div (coresNumber + 4 - 1) 4
      in (case cores_rows coresNumber currentcol (currentrow1 + 1) (map int [0..<nat rows]) of
            (es, currentrow2) \<Rightarrow>
              (At currentrow1 currentcol
                 [Str ''v Number of Cores: '', IntNum coresNumber, Str '' @ '',
                  Num 2 frequency, Str ('' GHz'' @ nl)]
               # es,
               save_position (currentrow2 + (rows * 2 + 2)) 1,
               currentrow2 + (rows * 2 + 2))))"

subsection \<open>The main function\<close>

text \<open>
  The local variables of \<open>main\<close> that the panels and the sampling loop use. The four
  \<open>long double\<close> variables passed to \<open>calculate_cpu_utilization\<close> are the field
  \<open>tracker\<close>.
\<close>

record main_vars =
  memory :: CursorPosition
  memory_heading :: CursorPosition
  cpu :: CursorPosition
  cpu_heading :: CursorPosition
  scaling_factor :: real
  tracker :: cpu_tracker
  current_row :: int
  current_column :: int

text \<open>
  What the host answers during one iteration of the sampling loop: the \<open>sysinfo\<close> call
  of \<open>calculate_memory_used\<close>, the \<open>sysinfo\<close> call of \<open>get_total_memory\<close> inside it,
  and the read of \<open>/proc/stat\<close>.
\<close>

record tick_reads =
  used_sysinfo :: "sysinfo option"
  total_sysinfo :: "sysinfo option"
  stat :: stat_read

text \<open>What the host answers during a whole run.\<close>

record host =
  arithmetic :: arith
  graph_sysinfo :: "sysinfo option"
  first_stat :: stat_read
  tick :: "nat \<Rightarrow> tick_reads"
  max_freq_file :: freq_read
  cpuinfo_file :: cpuinfo_read

text \<open>
  The conversion \<open>(int)x\<close> of a floating-point value truncates towards zero; C defines
  it only when \<open>x\<close> is a number and the truncated value is in the range of \<open>int\<close>.
\<close>

definition int_of_real :: "real \<Rightarrow> int" where
  "int_of_real x = (if 0 \<le> x then \<lfloor>x\<rfloor> else \<lceil>x\<rceil>)"

text \<open>
  The block \<open>if (argsInfo->memory_flag)\<close> of the loop body. The used memory is
  divided by the scale factor in \<open>long double\<close> and the quotient converted to \<open>int\<close>.
  The scale factor is zero only on a host that reports no memory, where the division
  gives no number; the quotient is modelled for the other hosts, and every theorem on the
  row of the glyph assumes a scale factor that is not zero.
\<close>

definition memory_tick ::
  "arith \<Rightarrow> main_vars \<Rightarrow> tick_reads \<Rightarrow> event list \<times> main_vars outcome" where
  "memory_tick fp v rd =
     (case calculate_memory_used fp (used_sysinfo rd) (total_sysinfo rd) of
        (es, Exit code) \<Rightarrow> (es, Exit code)
      | (es, Undefined) \<Rightarrow> (es, Undefined)
      | (es, Ret memory_used) \<Rightarrow>
          (es @
           [At (row (memory_heading v)) (col (memory_heading v)) [Str ''       ''],
            At (row (memory_heading v)) (col (memory_heading v))
              [Str '' '', Num 2 memory_used, Str '' '', Str ''GB''],
            At (row (memory v)
                  - int_of_real (rounded (ld fp) (memory_used / scaling_factor v)) - 1)
              (col (memory v)) [Str ''#'']],
           Ret (v\<lparr>memory := (memory v)\<lparr>col := col (memory v) + 1\<rparr>\<rparr>)))"

text \<open>
  The block \<open>if (argsInfo->cpu_flag)\<close> of the loop body. The utilization is divided by
  10 in \<open>long double\<close> and the quotient converted to \<open>int\<close>; for a utilization that
  is no number, C leaves the conversion undefined.
\<close>

definition cpu_tick ::
  "arith \<Rightarrow> main_vars \<Rightarrow> tick_reads \<Rightarrow> event list \<times> main_vars outcome" where
  "cpu_tick fp v rd =
     (case calculate_cpu_utilization fp (tracker v) (stat rd) of
        (es, NotFinite, tr) \<Rightarrow> (es, Undefined)
      | (es, Finite cpu_utilization, tr) \<Rightarrow>
          (es @
           [At (row (cpu_heading v)) (col (cpu_heading v))
              [Str '' '', Num 2 cpu_utilization, Str '' %          ''],
            At (row (cpu v) - int_of_real (rounded (ld fp) (cpu_utilization / 10)) - 1)
              (col (cpu v)) [Str '':'']],
           Ret (v\<lparr>tracker := tr, cpu := (cpu v)\<lparr>col := col (cpu v) + 1\<rparr>\<rparr>)))"

text \<open>
  One iteration of the loop. \<open>usleep\<close> takes an \<open>unsigned int\<close> (32 bits), to which the
  \<open>unsigned long\<close> delay is converted.
\<close>

definition sample_tick ::
  "arith \<Rightarrow> ArgsInfo \<Rightarrow> main_vars \<Rightarrow> tick_reads \<Rightarrow> event list \<times> main_vars outcome" where
  "sample_tick fp argsInfo v rd =
     (case (if memory_flag argsInfo then memory_tick fp v rd else ([], Ret v)) of
        (es, Exit code) \<Rightarrow> (es, Exit code)
      | (es, Undefined) \<Rightarrow> (es, Undefined)
      | (es, Ret v1) \<Rightarrow>
          (case (if cpu_flag argsInfo then cpu_tick fp v1 rd else ([], Ret v1)) of
             (es', Exit code) \<Rightarrow> (es @ es', Exit code)
           | (es', Undefined) \<Rightarrow> (es @ es', Undefined)
           | (es', Ret v2) \<Rightarrow>
               (es @ es' @ [Sleep (tdelay argsInfo mod 2 ^ 32)], Ret v2)))"

text \<open>
  The loop \<open>for (int i = 0; i < argsInfo->samples; i++)\<close>, over the host's answers of
  its iterations.
\<close>

fun sampling_loop ::
  "arith \<Rightarrow> ArgsInfo \<Rightarrow> main_vars \<Rightarrow> tick_reads list
     \<Rightarrow> event list \<times> main_vars outcome" where
  "sampling_loop fp argsInfo v [] = ([], Ret v)"
| "sampling_loop fp argsInfo v (rd # rds) =
     (case sample_tick fp argsInfo v rd of
        (es, Exit code) \<Rightarrow> (es, Exit code)
      | (es, Undefined) \<Rightarrow> (es, Undefined)
      | (es, Ret v') \<Rightarrow>
          (case sampling_loop fp argsInfo v' rds of (es', r) \<Rightarrow> (es @ es', r)))"

text \<open>
  The variables before the panels are drawn. The four positions are uninitialised in C;
  each is assigned before it is read when its panel is enabled, and never read otherwise.
\<close>

definition vars0 :: main_vars where
  "vars0 =
     \<lparr>memory = save_position 0 0, memory_heading = save_position 0 0,
      cpu = save_position 0 0, cpu_heading = save_position 0 0,
      scaling_factor = 0, tracker = tracker0, current_row = 1, current_column = 1\<rparr>"

text \<open>
  From \<open>int current_column = 1\<close> to the first call of \<open>calculate_cpu_utilization\<close>,
  before the loop.
\<close>

definition draw_panels ::
  "arith \<Rightarrow> ArgsInfo \<Rightarrow> sysinfo option \<Rightarrow> stat_read
     \<Rightarrow> event list \<times> main_vars outcome" where
  "draw_panels fp argsInfo si rd =
     (case (if memory_flag argsInfo
            then (case draw_memory_graph fp (current_row vars0 + 1) (current_column vars0)
                         (samples argsInfo) si of
                    (es, Exit code) \<Rightarrow> (es, Exit code)
                  | (es, Undefined) \<Rightarrow> (es, Undefined)
                  | (es, Ret (pos, r, c, scalefactor)) \<Rightarrow>
                      (es, Ret (vars0\<lparr>memory_heading := pos,
                                      memory := save_position (r - 1) (c + 1),
                                      scaling_factor := scalefactor,
                                      current_row := r, current_column := c\<rparr>)))
            else ([], Ret vars0)) of
        (es1, Exit code) \<Rightarrow> (es1, Exit code)
      | (es1, Undefined) \<Rightarrow> (es1, Undefined)
      | (es1, Ret v1) \<Rightarrow>
          (case (if cpu_flag argsInfo
                 then (case draw_cpu_graph (current_row v1 + 2) 1 (samples argsInfo) of
                         (es, pos, r, c) \<Rightarrow>
                           (change_line 2 @ es,
                            v1\<lparr>cpu_heading := pos, cpu := save_position (r - 1) (c + 1),
                               current_row := r, current_column := c\<rparr>))
                 else ([], v1)) of
             (es2, v2) \<Rightarrow>
               (case calculate_cpu_utilization fp (tracker v2) rd of
                  (es3, u, tr) \<Rightarrow> (es1 @ es2 @ es3, Ret (v2\<lparr>tracker := tr\<rparr>)))))"

text \<open>
  From \<open>ending_position = save_position(current_row, 1)\<close> after the loop to the end of
  the block \<open>if (argsInfo->cores_flag)\<close>; the result is \<open>ending_position\<close>. The
  \<open>long double\<close> frequency is stored in a \<open>double\<close>.
\<close>

definition draw_cores ::
  "arith \<Rightarrow> ArgsInfo \<Rightarrow> int \<Rightarrow> freq_read \<Rightarrow> cpuinfo_read
     \<Rightarrow> event list \<times> CursorPosition outcome" where
  "draw_cores fp argsInfo current_row_arg fr ci =
     (if cores_flag argsInfo
      then (case calculate_max_frequency fp fr of
              (es, Exit code) \<Rightarrow> (es, Exit code)
            | (es, Undefined) \<Rightarrow> (es, Undefined)
            | (es, Ret max_frequency) \<Rightarrow>
                (case calculate_cores ci of
                   (es', n) \<Rightarrow>
                     (case coresGraph n 1 (current_row_arg + 1)
                             (rounded (dbl fp) max_frequency) of
                        (es'', pos, r) \<Rightarrow> (es @ es' @ es'', Ret pos))))
      else ([], Ret (save_position current_row_arg 1)))"

definition banner :: "arith \<Rightarrow> ArgsInfo \<Rightarrow> event list" where
  "banner fp argsInfo =
     [Out [Str [CHR 0x1B, CHR ''c'']],
      Out [Str [CHR 0x1B, CHR ''['', CHR ''H'']],
      Out [Str ''Nbr of samples: '', IntNum (samples argsInfo), Str '' -- every '',
           IntNum (int (tdelay argsInfo)), Str '' microSecs ('',
           Num 6 (rounded (dbl fp) (rounded (dbl fp) (real (tdelay argsInfo)) / 1000000)),
           Str '' secs)'']]"

text \<open>The result is the events and the exit status: \<open>Ret 0\<close> is \<open>return 0\<close>.\<close>

definition main :: "string list \<Rightarrow> host \<Rightarrow> event list \<times> int outcome" where
  "main args h =
     (case processCommandLineArguments (length args) (initializeArgument (length args) args) of
        (es0, rc, argsInfo) \<Rightarrow>
          if rc = - 1 then (es0, Exit 1)
          else
            (case draw_panels (arithmetic h) argsInfo (graph_sysinfo h) (first_stat h) of
               (es1, Exit code) \<Rightarrow> (es0 @ banner (arithmetic h) argsInfo @ es1, Exit code)
             | (es1, Undefined) \<Rightarrow> (es0 @ banner (arithmetic h) argsInfo @ es1, Undefined)
             | (es1, Ret v) \<Rightarrow>
                 (case sampling_loop (arithmetic h) argsInfo v
                         (map (tick h) [0..<nat (samples argsInfo)]) of
                    (es2, Exit code) \<Rightarrow>
                      (es0 @ banner (arithmetic h) argsInfo @ es1 @ es2, Exit code)
                  | (es2, Undefined) \<Rightarrow>
                      (es0 @ banner (arithmetic h) argsInfo @ es1 @ es2, Undefined)
                  | (es2, Ret v') \<Rightarrow>
                      (case draw_cores (arithmetic h) argsInfo (current_row v')
                              (max_freq_file h) (cpuinfo_file h) of
                         (es3, Exit code) \<Rightarrow>
                           (es0 @ banner (arithmetic h) argsInfo @ es1 @ es2 @ es3, Exit code)
                       | (es3, Undefined) \<Rightarrow>
                           (es0 @ banner (arithmetic h) argsInfo @ es1 @ es2 @ es3, Undefined)
                       | (es3, Ret ending_position) \<Rightarrow>
                           (es0 @ banner (arithmetic h) argsInfo @ es1 @ es2 @ es3
                            @ [At (row ending_position) (col ending_position) []],
                            Ret 0)))))"

subsection \<open>Observations on the output\<close>

text \<open>
  The columns, in the order written, of the cursor-addressed writes whose whole text is
  the glyph \<open>g\<close>.
\<close>

fun glyph_cols :: "string \<Rightarrow> event list \<Rightarrow> int list" where
  "glyph_cols g [] = []"
| "glyph_cols g (At r c ps # es) =
     (if ps = [Str g] then c # glyph_cols g es else glyph_cols g es)"
| "glyph_cols g (e # es) = glyph_cols g es"

text \<open>The cursor-addressed writes of one character of the horizontal rule.\<close>

fun is_rule :: "event \<Rightarrow> bool" where
  "is_rule (At r c ps) = (ps = [Str hrule])"
| "is_rule e = False"

text \<open>A returned value that is a number of the closed range from \<open>lo\<close> to \<open>hi\<close>.\<close>

fun in_range :: "real \<Rightarrow> real \<Rightarrow> long_double \<Rightarrow> bool" where
  "in_range lo hi (Finite u) = (lo \<le> u \<and> u \<le> hi)"
| "in_range lo hi NotFinite = False"

text \<open>
  The total, idle and busy time of a snapshot as numbers, and snapshots whose idle and
  busy times never decrease.
\<close>

definition totalCPU :: "proc_stat \<Rightarrow> real" where
  "totalCPU s = user s + nice s + system s + idle s + iowait s + irq s + softirq s + steal s"

definition idleCPU :: "proc_stat \<Rightarrow> real" where
  "idleCPU s = idle s + iowait s"

definition busyCPU :: "proc_stat \<Rightarrow> real" where
  "busyCPU s = totalCPU s - idleCPU s"

fun steady :: "proc_stat list \<Rightarrow> bool" where
  "steady [] = True"
| "steady [s] = True"
| "steady (s # t # ss) =
     (idleCPU s \<le> idleCPU t \<and> busyCPU s \<le> busyCPU t \<and> steady (t # ss))"

text \<open>
  The numbers that the kernel writes in \<open>/proc/stat\<close>: counts of clock ticks, natural
  numbers, taken here to be below \<open>2\<^sup>6\<^sup>0\<close>.
\<close>

definition is_count :: "real \<Rightarrow> bool" where
  "is_count x = (0 \<le> x \<and> x < 2 ^ 60 \<and> x = of_int \<lfloor>x\<rfloor>)"

definition counters :: "proc_stat \<Rightarrow> bool" where
  "counters s =
     (is_count (user s) \<and> is_count (nice s) \<and> is_count (system s) \<and> is_count (idle s)
      \<and> is_count (iowait s) \<and> is_count (irq s) \<and> is_count (softirq s)
      \<and> is_count (steal s))"

subsection \<open>Example data\<close>

definition stat_a :: proc_stat where
  "stat_a = \<lparr>user = 200, nice = 0, system = 0, idle = 700, iowait = 100,
             irq = 0, softirq = 0, steal = 0\<rparr>"

definition stat_b :: proc_stat where
  "stat_b = \<lparr>user = 350, nice = 0, system = 0, idle = 750, iowait = 100,
             irq = 0, softirq = 0, steal = 0\<rparr>"

definition stat_c :: proc_stat where
  "stat_c = \<lparr>user = 310, nice = 0, system = 0, idle = 700, iowait = 90,
             irq = 0, softirq = 0, steal = 0\<rparr>"

definition stat_d :: proc_stat where
  "stat_d = \<lparr>user = 278, nice = 0, system = 0, idle = 722, iowait = 100,
             irq = 0, softirq = 0, steal = 0\<rparr>"

text \<open>
  After \<open>stat_a\<close>: a snapshot with the same total and more busy time, and one whose
  busy time grows by 21 while the total grows by 10.
\<close>

definition stat_e :: proc_stat where
  "stat_e = \<lparr>user = 300, nice = 0, system = 0, idle = 600, iowait = 100,
             irq = 0, softirq = 0, steal = 0\<rparr>"

definition stat_f :: proc_stat where
  "stat_f = \<lparr>user = 221, nice = 0, system = 0, idle = 700, iowait = 89,
             irq = 0, softirq = 0, steal = 0\<rparr>"

text \<open>A host with 8 GiB of memory, 2.5 GiB of it free.\<close>

definition sysinfo_8G :: sysinfo where
  "sysinfo_8G = \<lparr>totalram = 8589934592, freeram = 2684354560, mem_unit = 1\<rparr>"

text \<open>The configuration of a run without arguments: all panels, 20 samples.\<close>

definition cfg_all :: ArgsInfo where
  "cfg_all = (initializeArgument 1 [''prog''])
               \<lparr>cores_flag := True, cpu_flag := True, memory_flag := True\<rparr>"

text \<open>
  The variables of \<open>main\<close> at the start of the loop in that run, on the host above
  with \<open>stat_a\<close> as the first read of \<open>/proc/stat\<close>.
\<close>

definition vars_ex :: main_vars where
  "vars_ex =
     \<lparr>memory = \<lparr>row = 13, col = 10\<rparr>, memory_heading = \<lparr>row = 2, col = 11\<rparr>,
      cpu = \<lparr>row = 28, col = 10\<rparr>, cpu_heading = \<lparr>row = 16, col = 8\<rparr>,
      scaling_factor = 8 / 10,
      tracker = tracker0\<lparr>preTotalCPU := 1000, preIdleCPU := 800\<rparr>,
      current_row = 29, current_column = 9\<rparr>"

text \<open>The answers of one iteration: all reads succeed; a failing one of each kind.\<close>

definition tick_ok :: tick_reads where
  "tick_ok = \<lparr>used_sysinfo = Some sysinfo_8G, total_sysinfo = Some sysinfo_8G,
              stat = Scanned stat_d True\<rparr>"

definition tick_no_total :: tick_reads where
  "tick_no_total = \<lparr>used_sysinfo = Some sysinfo_8G, total_sysinfo = None,
                    stat = Scanned stat_d True\<rparr>"

definition tick_no_reads :: tick_reads where
  "tick_no_reads = \<lparr>used_sysinfo = None, total_sysinfo = None, stat = OpenFailed\<rparr>"

definition host_ok :: host where
  "host_ok = \<lparr>arithmetic = exact_arith,
              graph_sysinfo = Some sysinfo_8G, first_stat = Scanned stat_a True,
              tick = (\<lambda>i. tick_ok), max_freq_file = FreqScanned 3600000,
              cpuinfo_file = CpuinfoLines [''processor\<newline>'', ''model\<newline>''] True\<rparr>"

text \<open>
  The same host where, from the second iteration on, the \<open>sysinfo\<close> call inside
  \<open>get_total_memory\<close> fails; and the same host where the frequency file holds no number.
\<close>

definition host_no_total :: host where
  "host_no_total = host_ok\<lparr>tick := (\<lambda>i. if i = 0 then tick_ok else tick_no_total)\<rparr>"

definition host_no_freq :: host where
  "host_no_freq = host_ok\<lparr>max_freq_file := FreqScanFailed\<rparr>"

text \<open>
  A run \<open>prog 1 --cpu\<close> in the x87 arithmetic, where \<open>/proc/stat\<close> gives \<open>stat_a\<close>
  and then \<open>stat_f\<close>: the configuration, the variables at the start of the loop, the
  answers of the iteration, and the host.
\<close>

definition cfg_cpu :: ArgsInfo where
  "cfg_cpu = (initializeArgument 3 [''prog'', ''1'', ''--cpu''])
               \<lparr>cpu_flag := True, samples := 1, updated_sample := True\<rparr>"

definition vars_cpu :: main_vars where
  "vars_cpu =
     vars0\<lparr>cpu := \<lparr>row = 15, col = 10\<rparr>, cpu_heading := \<lparr>row = 3, col = 8\<rparr>,
           tracker := tracker0\<lparr>preTotalCPU := 1000, preIdleCPU := 800\<rparr>,
           current_row := 16, current_column := 9\<rparr>"

definition tick_f :: tick_reads where
  "tick_f = \<lparr>used_sysinfo = Some sysinfo_8G, total_sysinfo = Some sysinfo_8G,
             stat = Scanned stat_f True\<rparr>"

text \<open>
  The variables of \<open>main\<close> at the start of the loop in the run without arguments, in
  the x87 arithmetic: the scale factor is the \<open>long double\<close> nearest to 8 / 10.
\<close>

definition vars_x87 :: main_vars where
  "vars_x87 = vars_ex\<lparr>scaling_factor := 14757395258967641293 / 18446744073709551616\<rparr>"

definition host_x87 :: host where
  "host_x87 = host_ok\<lparr>arithmetic := x87_arith, tick := (\<lambda>i. tick_f)\<rparr>"

subsection \<open>The range of C integers\<close>

definition INT_MAX :: int where
  "INT_MAX = 2147483647"

text \<open>The values \<open>x\<close> for which C defines the conversion \<open>(int)x\<close>.\<close>

definition castable :: "real \<Rightarrow> bool" where
  "castable x = (- 2147483649 < x \<and> x < 2147483648)"

section \<open>Properties\<close>

lemmas stat_defs = stat_a_def stat_b_def stat_c_def stat_d_def stat_e_def stat_f_def
  currentTotalCPU_def currentIdleCPU_def totalCPU_def idleCPU_def busyCPU_def tracker0_def

lemmas ex_defs = cfg_all_def initializeArgument_def vars_ex_def tick_ok_def tick_no_total_def
  tick_no_reads_def sysinfo_8G_def host_ok_def stat_a_def stat_b_def stat_c_def stat_d_def
  tracker0_def currentTotalCPU_def currentIdleCPU_def

lemmas tick_defs = sample_tick_def memory_tick_def cpu_tick_def calculate_memory_used_def fdiv_def
  get_total_memory_def bytes_to_GiB_def calculate_cpu_utilization_def GiB_def
  int_of_real_def Let_def

lemmas fp_defs = fadd_def fsub_def fmul_def fdiv_def

lemmas arg_defs = processCommandLineArguments_def isPositional_def isFlag_def
  initializeArgument_def strtol_def isdigit_def digit_value_def isspace_def
  LONG_MAX_def LONG_MIN_def int_of_long_def nl_def default_flags_def Let_def
  process_flags.simps

subsection \<open>Floating-point arithmetic\<close>

lemma rounded_zero [simp]: "rounded r 0 = 0"
  by (simp add: rounded_def)

lemma fsub_self [simp]: "fsub fp a a = 0"
  by (simp add: fsub_def)

lemma fdiv_zero [simp]: "fdiv fp a 0 = NotFinite"
  by (simp add: fdiv_def)

lemma fdiv_nonzero: "b \<noteq> 0 \<Longrightarrow> fdiv fp a b = Finite (rounded (ld fp) (a / b))"
  by (simp add: fdiv_def)

lemma exact_arith_simps [simp]:
  "rounded (ld exact_arith) x = x"
  "rounded (dbl exact_arith) x = x"
  "fadd exact_arith a b = a + b"
  "fsub exact_arith a b = a - b"
  "fmul exact_arith a b = a * b"
  by (simp_all add: exact_arith_def rounded_def fp_defs)

lemma fdiv_exact: "b \<noteq> 0 \<Longrightarrow> fdiv exact_arith a b = Finite (a / b)"
  by (simp add: fdiv_def)

lemma currentCPU_exact:
  "currentTotalCPU exact_arith s = totalCPU s"
  "currentIdleCPU exact_arith s = idleCPU s"
  by (simp_all add: currentTotalCPU_def currentIdleCPU_def totalCPU_def idleCPU_def)

lemma x87_arith_simps [simp]:
  "ld x87_arith = round_to 64"
  "dbl x87_arith = round_to 53"
  by (simp_all add: x87_arith_def)

text \<open>The exponent of a number, from the two powers of 2 around it.\<close>

lemma binade_eq:
  assumes "2 powr of_int e \<le> \<bar>x\<bar>" and "\<bar>x\<bar> < 2 powr (of_int e + 1)"
  shows "binade x = e"
proof -
  have "0 < \<bar>x\<bar>" using assms(1) powr_gt_zero [of 2 "of_int e"] by linarith
  then show ?thesis
    unfolding binade_def using assms floor_log_eq_powr_iff [of "\<bar>x\<bar>" 2 e] by simp
qed

lemma round_to_eval:
  assumes "2 powr of_int e \<le> \<bar>x\<bar>" and "\<bar>x\<bar> < 2 powr (of_int e + 1)"
  shows "round_to p x =
           of_int (round_even (x / 2 powr (of_int e - (real p - 1))))
             * 2 powr (of_int e - (real p - 1))"
  using binade_eq [OF assms] by (simp add: round_to_def)

lemma round_even_of_int: "round_even (of_int m) = m"
  by (simp add: round_even_def)

lemma binade_of_int:
  assumes "n \<noteq> 0" and "\<bar>n\<bar> < 2 ^ p"
  shows "0 \<le> binade (of_int n) \<and> binade (of_int n) \<le> int p - 1"
proof -
  have a: "1 \<le> \<bar>real_of_int n\<bar>" using assms(1) by linarith
  have "0 \<le> log 2 \<bar>real_of_int n\<bar>" using a by simp
  then have lo: "0 \<le> binade (of_int n)" by (simp add: binade_def)
  have "\<bar>real_of_int n\<bar> < 2 ^ p"
    using assms(2) by (metis of_int_abs of_int_less_numeral_power_cancel_iff)
  then have "log 2 \<bar>real_of_int n\<bar> < log 2 (2 ^ p)"
    using a by (subst log_less_cancel_iff) simp_all
  then have "log 2 \<bar>real_of_int n\<bar> < real p" by (simp add: log_nat_power)
  then have "\<lfloor>log 2 \<bar>real_of_int n\<bar>\<rfloor> < int p" by linarith
  then show ?thesis using lo by (simp add: binade_def)
qed

text \<open>An integer that fits the significand is a value of the format.\<close>

lemma round_to_of_int:
  assumes "\<bar>n\<bar> < 2 ^ p"
  shows "rounded (round_to p) (of_int n) = of_int n"
proof (cases "n = 0")
  case True
  then show ?thesis by simp
next
  case False
  define e where "e = binade (of_int n)"
  have e: "0 \<le> e" "e \<le> int p - 1"
    using binade_of_int [OF False assms] by (simp_all add: e_def)
  define k where "k = nat (int p - 1 - e)"
  have "real_of_int e - (real p - 1) = - real k" using e by (simp add: k_def)
  then have u: "2 powr (real_of_int e - (real p - 1)) = 1 / 2 ^ k"
    by (simp add: powr_minus powr_realpow inverse_eq_divide)
  have "real_of_int n / (1 / 2 ^ k) = of_int (n * 2 ^ k)" by simp
  then have "round_even (real_of_int n / (1 / 2 ^ k)) = n * 2 ^ k"
    using round_even_of_int by metis
  then have "round_to p (of_int n) = of_int n"
    unfolding round_to_def e_def [symmetric] u by simp
  then show ?thesis using False by (simp add: rounded_def)
qed

lemma round_to_numeral:
  "(numeral k :: int) < 2 ^ p \<Longrightarrow> rounded (round_to p) (numeral k) = numeral k"
  using round_to_of_int [of "numeral k" p] by simp

text \<open>Rounding to the nearest integer is monotone at the integers.\<close>

lemma round_even_le: "y \<le> of_int m \<Longrightarrow> round_even y \<le> m"
proof -
  assume a: "y \<le> of_int m"
  have f: "\<lfloor>y\<rfloor> \<le> m" using a by linarith
  have "\<lfloor>y\<rfloor> + 1 \<le> m" if "y - of_int \<lfloor>y\<rfloor> \<noteq> 0"
  proof -
    have "of_int \<lfloor>y\<rfloor> < y" using that by linarith
    then have "real_of_int \<lfloor>y\<rfloor> < of_int m" using a by linarith
    then show ?thesis by linarith
  qed
  then show ?thesis using f unfolding round_even_def by (auto split: if_splits)
qed

lemma round_even_ge: "of_int m \<le> y \<Longrightarrow> m \<le> round_even y"
proof -
  assume "of_int m \<le> y"
  then have "m \<le> \<lfloor>y\<rfloor>" by (simp add: le_floor_iff)
  then show ?thesis unfolding round_even_def by (auto split: if_splits)
qed

text \<open>
  Rounding keeps a positive number positive and below every integer of the format above
  it.
\<close>

lemma round_to_bounds:
  assumes x: "0 < x" and c: "x \<le> of_int c" and p: "c < 2 ^ p"
  shows "0 < round_to p x \<and> round_to p x \<le> of_int c"
proof -
  define e where "e = binade x"
  have e: "2 powr of_int e \<le> x" "x < 2 powr (of_int e + 1)"
    using x floor_log_eq_powr_iff [of x 2 e] by (simp_all add: e_def binade_def)
  have "x < 2 ^ p"
  proof -
    have "real_of_int c < 2 ^ p" using p by (metis of_int_less_numeral_power_cancel_iff)
    with c show ?thesis by linarith
  qed
  then have "2 powr of_int e < 2 powr real p" using e(1) by (simp add: powr_realpow)
  then have "real_of_int e < real p" by simp
  then have ep: "e \<le> int p - 1" by linarith
  define k where "k = nat (int p - 1 - e)"
  have ke: "real_of_int e - (real p - 1) = - real k" using ep by (simp add: k_def)
  then have u: "2 powr (real_of_int e - (real p - 1)) = 1 / 2 ^ k"
    by (simp add: powr_minus powr_realpow inverse_eq_divide)
  have r: "round_to p x = of_int (round_even (x * 2 ^ k)) / 2 ^ k"
    unfolding round_to_def e_def [symmetric] u by simp
  have "x * 2 ^ k \<le> of_int (c * 2 ^ k)" using c by simp
  then have hi: "round_even (x * 2 ^ k) \<le> c * 2 ^ k" by (rule round_even_le)
  have "2 powr of_int e * 2 ^ k = 2 powr (of_int e + real k)"
    by (simp add: powr_add powr_realpow)
  also have "of_int e + real k = real p - 1" using ke by simp
  finally have "2 powr (real p - 1) = 2 powr of_int e * 2 ^ k" by simp
  moreover have "2 powr of_int e * 2 ^ k \<le> x * 2 ^ k"
    using e(1) by (intro mult_right_mono) simp_all
  moreover have "(1::real) \<le> 2 powr (real p - 1)"
  proof -
    have "0 < real_of_int c" using x c by linarith
    then have "1 \<le> c" by linarith
    with p have "p \<noteq> 0" by (cases p) auto
    then show ?thesis by (simp add: ge_one_powr_ge_zero)
  qed
  ultimately have "of_int 1 \<le> x * 2 ^ k" by linarith
  then have lo: "1 \<le> round_even (x * 2 ^ k)" by (rule round_even_ge)
  have "real_of_int (round_even (x * 2 ^ k)) \<le> of_int (c * 2 ^ k)" using hi by linarith
  then have "real_of_int (round_even (x * 2 ^ k)) / 2 ^ k \<le> of_int c"
    by (simp add: divide_le_eq)
  moreover have "0 < real_of_int (round_even (x * 2 ^ k)) / 2 ^ k" using lo by simp
  ultimately show ?thesis unfolding r by simp
qed


lemma x87_three_quarters: "rounded (round_to 64) (3 / 4) = 3 / 4"
  unfolding rounded_def
  by (subst round_to_eval [where e = "- 1"]) (simp_all add: round_even_def powr_minus)

lemma x87_int_ops:
  "\<bar>a + b\<bar> < 2 ^ 64 \<Longrightarrow> fadd x87_arith (of_int a) (of_int b) = of_int (a + b)"
  "\<bar>a - b\<bar> < 2 ^ 64 \<Longrightarrow> fsub x87_arith (of_int a) (of_int b) = of_int (a - b)"
  using round_to_of_int [of "a + b" 64] round_to_of_int [of "a - b" 64]
  by (simp_all add: fadd_def fsub_def)

subsection \<open>CPU utilization\<close>

lemma calculate_cpu_utilization_stores:
  "preTotalCPU (snd (snd (calculate_cpu_utilization fp tr (Scanned s True))))
     = currentTotalCPU fp s
   \<and> preIdleCPU (snd (snd (calculate_cpu_utilization fp tr (Scanned s True))))
     = currentIdleCPU fp s"
  by (simp add: calculate_cpu_utilization_def Let_def split: long_double.splits)

lemma calculate_cpu_utilization_sentinel:
  "preTotalCPU tr = 0 \<Longrightarrow> preIdleCPU tr = 0 \<Longrightarrow>
   calculate_cpu_utilization fp tr (Scanned s True) =
     ([], Finite 0,
      tr\<lparr>preTotalCPU := currentTotalCPU fp s, preIdleCPU := currentIdleCPU fp s\<rparr>)"
  by (simp add: calculate_cpu_utilization_def)

lemma calculate_cpu_utilization_degenerate:
  "fsub fp (currentTotalCPU fp s) (preTotalCPU tr) = 0
     \<or> fsub fp (fsub fp (currentTotalCPU fp s) (currentIdleCPU fp s))
          (fsub fp (preTotalCPU tr) (preIdleCPU tr)) = 0 \<Longrightarrow>
   fst (snd (calculate_cpu_utilization fp tr (Scanned s True))) = Finite 0"
  by (auto simp add: calculate_cpu_utilization_def Let_def)

text \<open>The function never divides by zero: what it returns is a number.\<close>

lemma calculate_cpu_utilization_number:
  "\<exists>u. fst (snd (calculate_cpu_utilization fp tr rd)) = Finite u"
  by (cases rd) (simp_all add: calculate_cpu_utilization_def Let_def fdiv_def)

lemma calculate_cpu_utilization_general:
  assumes "\<not> (preTotalCPU tr = 0 \<and> preIdleCPU tr = 0)"
    and "fsub fp (currentTotalCPU fp s) (preTotalCPU tr) \<noteq> 0"
    and "fsub fp (fsub fp (currentTotalCPU fp s) (currentIdleCPU fp s))
           (fsub fp (preTotalCPU tr) (preIdleCPU tr)) \<noteq> 0"
  shows "fst (snd (calculate_cpu_utilization fp tr (Scanned s True))) =
           Finite (fmul fp
             (rounded (ld fp)
                (fsub fp (fsub fp (currentTotalCPU fp s) (currentIdleCPU fp s))
                   (fsub fp (preTotalCPU tr) (preIdleCPU tr))
                 / fsub fp (currentTotalCPU fp s) (preTotalCPU tr))) 100)"
proof -
  have "\<not> (preTotalCPU tr = 0 \<and> preIdleCPU tr = 0)" by (rule assms(1))
  then show ?thesis
    using assms(2,3) by (auto simp add: calculate_cpu_utilization_def Let_def fdiv_def)
qed

lemma ratio_range:
  fixes b i :: real
  assumes "0 \<le> b" and "0 \<le> i" and "b + i \<noteq> 0"
  shows "0 \<le> b / (b + i) * 100 \<and> b / (b + i) * 100 \<le> 100"
proof -
  from assms have pos: "0 < b + i" by simp
  have le1: "b / (b + i) \<le> 1" using pos assms by (simp add: divide_le_eq)
  have ge0: "0 \<le> b / (b + i)" using pos assms by simp
  have "b / (b + i) * 100 \<le> 1 * 100" using le1 by (intro mult_right_mono) simp_all
  moreover have "0 \<le> b / (b + i) * 100" using ge0 by (intro mult_nonneg_nonneg) simp_all
  ultimately show ?thesis by simp
qed

lemma calculate_cpu_utilization_range:
  assumes i: "preIdleCPU tr \<le> idleCPU s"
    and b: "preTotalCPU tr - preIdleCPU tr \<le> busyCPU s"
  shows "in_range 0 100 (fst (snd (calculate_cpu_utilization exact_arith tr (Scanned s True))))"
proof (cases "(preTotalCPU tr = 0 \<and> preIdleCPU tr = 0)
              \<or> totalCPU s - preTotalCPU tr = 0
              \<or> busyCPU s - (preTotalCPU tr - preIdleCPU tr) = 0")
  case True
  then have "fst (snd (calculate_cpu_utilization exact_arith tr (Scanned s True))) = Finite 0"
    using calculate_cpu_utilization_sentinel [of tr exact_arith s]
      calculate_cpu_utilization_degenerate [of exact_arith s tr]
    by (auto simp add: currentCPU_exact busyCPU_def)
  then show ?thesis by simp
next
  case False
  define bd where "bd = busyCPU s - (preTotalCPU tr - preIdleCPU tr)"
  define idl where "idl = idleCPU s - preIdleCPU tr"
  have td: "totalCPU s - preTotalCPU tr = bd + idl"
    by (simp add: bd_def idl_def busyCPU_def)
  have v: "fst (snd (calculate_cpu_utilization exact_arith tr (Scanned s True))) =
             Finite (bd / (bd + idl) * 100)"
    using False td calculate_cpu_utilization_general [of tr exact_arith s]
    by (simp add: currentCPU_exact bd_def busyCPU_def)
  have "0 \<le> bd" "0 \<le> idl" using i b by (simp_all add: bd_def idl_def)
  moreover have "bd + idl \<noteq> 0" using False td by simp
  ultimately have "0 \<le> bd / (bd + idl) * 100 \<and> bd / (bd + idl) * 100 \<le> 100"
    by (rule ratio_range)
  then show ?thesis using v by simp
qed

lemma samples_of_steady:
  "steady (p # ss) \<Longrightarrow> preTotalCPU tr = totalCPU p \<Longrightarrow> preIdleCPU tr = idleCPU p \<Longrightarrow>
   \<forall>v \<in> set (samples_of exact_arith tr (map (\<lambda>s. Scanned s True) ss)). in_range 0 100 v"
proof (induction ss arbitrary: p tr)
  case Nil
  then show ?case by simp
next
  case (Cons s ss)
  obtain es v tr' where
    c: "calculate_cpu_utilization exact_arith tr (Scanned s True) = (es, v, tr')"
    by (cases "calculate_cpu_utilization exact_arith tr (Scanned s True)") auto
  have st: "preTotalCPU tr' = totalCPU s" "preIdleCPU tr' = idleCPU s"
    using calculate_cpu_utilization_stores [of exact_arith tr s] c
    by (simp_all add: currentCPU_exact)
  have "preIdleCPU tr \<le> idleCPU s" "preTotalCPU tr - preIdleCPU tr \<le> busyCPU s"
    using Cons.prems by (simp_all add: busyCPU_def)
  then have "in_range 0 100 v"
    using calculate_cpu_utilization_range [of tr s] c by simp
  moreover have "\<forall>v \<in> set (samples_of exact_arith tr' (map (\<lambda>s. Scanned s True) ss)).
                   in_range 0 100 v"
    using Cons.IH [of s tr'] Cons.prems(1) st by simp
  ultimately show ?case using c by simp
qed

text \<open>
  In the x87 arithmetic the sums and differences of counters are exact, so that the
  deltas the function computes are the deltas of the snapshots.
\<close>

lemma is_count_int: "is_count x \<Longrightarrow> \<exists>n. x = of_int n \<and> 0 \<le> n \<and> n < 2 ^ 60"
proof -
  assume a: "is_count x"
  then have "x = of_int \<lfloor>x\<rfloor>" "0 \<le> x" "x < 2 ^ 60" by (simp_all add: is_count_def)
  moreover from this have "0 \<le> \<lfloor>x\<rfloor>" "\<lfloor>x\<rfloor> < 2 ^ 60"
    by (simp_all add: floor_less_iff)
  ultimately show ?thesis by blast
qed

lemma x87_counters:
  assumes "counters s"
  shows "\<exists>T I. currentTotalCPU x87_arith s = of_int T \<and> totalCPU s = of_int T
               \<and> currentIdleCPU x87_arith s = of_int I \<and> idleCPU s = of_int I
               \<and> 0 \<le> I \<and> I \<le> T \<and> T < 2 ^ 63"
proof -
  from assms have k: "is_count (user s)" "is_count (nice s)" "is_count (system s)"
    "is_count (idle s)" "is_count (iowait s)" "is_count (irq s)" "is_count (softirq s)"
    "is_count (steal s)"
    by (simp_all add: counters_def)
  from is_count_int [OF k(1)] obtain a where a: "user s = of_int a" "0 \<le> a" "a < 2 ^ 60"
    by blast
  from is_count_int [OF k(2)] obtain b where b: "nice s = of_int b" "0 \<le> b" "b < 2 ^ 60"
    by blast
  from is_count_int [OF k(3)] obtain c where c: "system s = of_int c" "0 \<le> c" "c < 2 ^ 60"
    by blast
  from is_count_int [OF k(4)] obtain d where d: "idle s = of_int d" "0 \<le> d" "d < 2 ^ 60"
    by blast
  from is_count_int [OF k(5)] obtain e where e: "iowait s = of_int e" "0 \<le> e" "e < 2 ^ 60"
    by blast
  from is_count_int [OF k(6)] obtain f where f: "irq s = of_int f" "0 \<le> f" "f < 2 ^ 60"
    by blast
  from is_count_int [OF k(7)] obtain g where g: "softirq s = of_int g" "0 \<le> g" "g < 2 ^ 60"
    by blast
  from is_count_int [OF k(8)] obtain h where h: "steal s = of_int h" "0 \<le> h" "h < 2 ^ 60"
    by blast
  note v = a(1) b(1) c(1) d(1) e(1) f(1) g(1) h(1)
  note r = a(2,3) b(2,3) c(2,3) d(2,3) e(2,3) f(2,3) g(2,3) h(2,3)
  have t: "currentTotalCPU x87_arith s = of_int (a + b + c + d + e + f + g + h)"
    unfolding currentTotalCPU_def v using r
    by (simp add: x87_int_ops(1) del: of_int_add)
  have i: "currentIdleCPU x87_arith s = of_int (d + e)"
    unfolding currentIdleCPU_def v using r by (simp add: x87_int_ops(1) del: of_int_add)
  have "totalCPU s = of_int (a + b + c + d + e + f + g + h)" "idleCPU s = of_int (d + e)"
    by (simp_all add: totalCPU_def idleCPU_def v)
  moreover have "0 \<le> d + e" "d + e \<le> a + b + c + d + e + f + g + h"
    "a + b + c + d + e + f + g + h < 2 ^ 63"
    using r by simp_all
  ultimately show ?thesis using t i by blast
qed

lemma x87_deltas:
  assumes tr: "preTotalCPU tr = of_int T'" "preIdleCPU tr = of_int I'"
      "0 \<le> I'" "I' \<le> T'" "T' < 2 ^ 63"
    and s: "counters s"
  shows "\<exists>bd td.
           fsub x87_arith (currentTotalCPU x87_arith s) (preTotalCPU tr) = of_int td
           \<and> fsub x87_arith (fsub x87_arith (currentTotalCPU x87_arith s)
                                (currentIdleCPU x87_arith s))
                (fsub x87_arith (preTotalCPU tr) (preIdleCPU tr)) = of_int bd
           \<and> of_int td = totalCPU s - preTotalCPU tr
           \<and> of_int bd = busyCPU s - (preTotalCPU tr - preIdleCPU tr)"
proof -
  from x87_counters [OF s] obtain T I where
    c: "currentTotalCPU x87_arith s = of_int T" "totalCPU s = of_int T"
       "currentIdleCPU x87_arith s = of_int I" "idleCPU s = of_int I"
    and r: "0 \<le> I" "I \<le> T" "T < 2 ^ 63"
    by blast
  have u1: "fsub x87_arith (of_int T) (of_int I) = of_int (T - I)"
    using r by (intro x87_int_ops(2)) simp
  have u2: "fsub x87_arith (of_int T') (of_int I') = of_int (T' - I')"
    using tr(3,4,5) by (intro x87_int_ops(2)) simp
  have u3: "fsub x87_arith (of_int (T - I)) (of_int (T' - I')) = of_int ((T - I) - (T' - I'))"
    using r tr(3,4,5) by (intro x87_int_ops(2)) simp
  have u4: "fsub x87_arith (of_int T) (of_int T') = of_int (T - T')"
    using r tr(3,4,5) by (intro x87_int_ops(2)) simp
  have d1: "fsub x87_arith (currentTotalCPU x87_arith s) (preTotalCPU tr) = of_int (T - T')"
    unfolding c(1) tr(1) by (rule u4)
  have d2: "fsub x87_arith (fsub x87_arith (currentTotalCPU x87_arith s)
                               (currentIdleCPU x87_arith s))
              (fsub x87_arith (preTotalCPU tr) (preIdleCPU tr))
            = of_int ((T - I) - (T' - I'))"
    unfolding c(1,3) tr(1,2) u1 u2 by (rule u3)
  have "real_of_int (T - T') = totalCPU s - preTotalCPU tr"
    "real_of_int ((T - I) - (T' - I')) = busyCPU s - (preTotalCPU tr - preIdleCPU tr)"
    by (simp_all add: c(2,4) tr(1,2) busyCPU_def)
  with d1 d2 show ?thesis by blast
qed

lemma x87_utilization_range:
  assumes tr: "preTotalCPU tr = of_int T'" "preIdleCPU tr = of_int I'"
      "0 \<le> I'" "I' \<le> T'" "T' < 2 ^ 63"
    and s: "counters s"
    and i: "preIdleCPU tr \<le> idleCPU s"
    and b: "preTotalCPU tr - preIdleCPU tr \<le> busyCPU s"
  shows "in_range 0 100 (fst (snd (calculate_cpu_utilization x87_arith tr (Scanned s True))))"
proof -
  from x87_deltas [OF tr s] obtain bd td where
    d1: "fsub x87_arith (currentTotalCPU x87_arith s) (preTotalCPU tr) = of_int td"
    and d2: "fsub x87_arith (fsub x87_arith (currentTotalCPU x87_arith s)
                               (currentIdleCPU x87_arith s))
              (fsub x87_arith (preTotalCPU tr) (preIdleCPU tr)) = of_int bd"
    and e: "of_int td = totalCPU s - preTotalCPU tr"
       "of_int bd = busyCPU s - (preTotalCPU tr - preIdleCPU tr)"
    by blast
  have "0 \<le> real_of_int bd" using b e(2) by simp
  then have bb: "0 \<le> bd" by simp
  have "real_of_int bd \<le> of_int td" using i unfolding e by (simp add: busyCPU_def)
  then have bt: "bd \<le> td" by simp
  show ?thesis
  proof (cases "(preTotalCPU tr = 0 \<and> preIdleCPU tr = 0) \<or> bd = 0 \<or> td = 0")
    case True
    then have "fst (snd (calculate_cpu_utilization x87_arith tr (Scanned s True))) = Finite 0"
      using calculate_cpu_utilization_sentinel [of tr x87_arith s]
        calculate_cpu_utilization_degenerate [of x87_arith s tr]
      unfolding d1 d2 by auto
    then show ?thesis by simp
  next
    case False
    then have pos: "0 < bd" "0 < td" using bb bt by simp_all
    define q where "q = round_to 64 (of_int bd / of_int td)"
    have "0 < real_of_int bd / of_int td" using pos by simp
    moreover have "real_of_int bd / of_int td \<le> of_int 1" using pos bt by simp
    ultimately have q: "0 < q" "q \<le> 1"
      using round_to_bounds [of "of_int bd / of_int td" 1 64] by (simp_all add: q_def)
    have "0 < q * 100" "q * 100 \<le> of_int 100" using q by simp_all
    then have p: "0 < round_to 64 (q * 100)" "round_to 64 (q * 100) \<le> 100"
      using round_to_bounds [of "q * 100" 100 64] by simp_all
    have "fst (snd (calculate_cpu_utilization x87_arith tr (Scanned s True))) =
            Finite (fmul x87_arith (rounded (ld x87_arith) (of_int bd / of_int td)) 100)"
      using False pos calculate_cpu_utilization_general [of tr x87_arith s]
      unfolding d1 d2 by simp
    also have "rounded (ld x87_arith) (of_int bd / of_int td) = q"
      using pos by (simp add: rounded_def q_def)
    also have "fmul x87_arith q 100 = round_to 64 (q * 100)"
      using q by (simp add: fmul_def rounded_def)
    finally show ?thesis using p by simp
  qed
qed

text \<open>
  With a total delta of 200 and an idle delta of 50 between two snapshots of counters, the
  quotient 150 / 200 and its product with 100 are values of the format: the x87
  arithmetic returns 75.
\<close>

lemma x87_example:
  assumes p: "counters p" and s: "counters s"
    and tr: "preTotalCPU tr = totalCPU p" "preIdleCPU tr = idleCPU p"
    and n: "\<not> (preTotalCPU tr = 0 \<and> preIdleCPU tr = 0)"
    and d: "totalCPU s - totalCPU p = 200" "idleCPU s - idleCPU p = 50"
  shows "fst (snd (calculate_cpu_utilization x87_arith tr (Scanned s True))) = Finite 75"
proof -
  from x87_counters [OF p] obtain T' I' where
    t: "totalCPU p = of_int T'" "idleCPU p = of_int I'" "0 \<le> I'" "I' \<le> T'" "T' < 2 ^ 63"
    by blast
  have i: "preTotalCPU tr = of_int T'" "preIdleCPU tr = of_int I'" using tr t by simp_all
  from x87_deltas [OF i t(3,4,5) s] obtain bd td where
    d1: "fsub x87_arith (currentTotalCPU x87_arith s) (preTotalCPU tr) = of_int td"
    and d2: "fsub x87_arith (fsub x87_arith (currentTotalCPU x87_arith s)
                               (currentIdleCPU x87_arith s))
              (fsub x87_arith (preTotalCPU tr) (preIdleCPU tr)) = of_int bd"
    and e: "of_int td = totalCPU s - preTotalCPU tr"
       "of_int bd = busyCPU s - (preTotalCPU tr - preIdleCPU tr)"
    by blast
  have "real_of_int td = 200" using e(1) d(1) tr(1) by simp
  then have td: "td = 200" by linarith
  have "real_of_int bd = 150" using e(2) d tr by (simp add: busyCPU_def)
  then have bd: "bd = 150" by linarith
  have "fst (snd (calculate_cpu_utilization x87_arith tr (Scanned s True))) =
          Finite (fmul x87_arith (rounded (ld x87_arith) (of_int bd / of_int td)) 100)"
    using n calculate_cpu_utilization_general [of tr x87_arith s]
    unfolding d1 d2 by (simp add: td bd)
  then show ?thesis
    by (simp add: td bd x87_three_quarters fmul_def round_to_numeral)
qed

lemma samples_of_steady_x87:
  "steady (p # ss) \<Longrightarrow> counters p \<Longrightarrow> \<forall>s \<in> set ss. counters s \<Longrightarrow>
   preTotalCPU tr = totalCPU p \<Longrightarrow> preIdleCPU tr = idleCPU p \<Longrightarrow>
   \<forall>v \<in> set (samples_of x87_arith tr (map (\<lambda>s. Scanned s True) ss)). in_range 0 100 v"
proof (induction ss arbitrary: p tr)
  case Nil
  then show ?case by simp
next
  case (Cons s ss)
  obtain es v tr' where
    c: "calculate_cpu_utilization x87_arith tr (Scanned s True) = (es, v, tr')"
    by (cases "calculate_cpu_utilization x87_arith tr (Scanned s True)") auto
  have cs: "counters s" using Cons.prems(3) by simp
  from x87_counters [OF cs] have e: "currentTotalCPU x87_arith s = totalCPU s"
    "currentIdleCPU x87_arith s = idleCPU s" by auto
  have st: "preTotalCPU tr' = totalCPU s" "preIdleCPU tr' = idleCPU s"
    using calculate_cpu_utilization_stores [of x87_arith tr s] c e by simp_all
  from x87_counters [OF Cons.prems(2)] obtain T' I' where
    p: "totalCPU p = of_int T'" "idleCPU p = of_int I'" "0 \<le> I'" "I' \<le> T'" "T' < 2 ^ 63"
    by blast
  have "preIdleCPU tr \<le> idleCPU s" "preTotalCPU tr - preIdleCPU tr \<le> busyCPU s"
    using Cons.prems by (simp_all add: busyCPU_def)
  then have "in_range 0 100 v"
    using x87_utilization_range [of tr T' I' s] Cons.prems(4,5) p cs c by simp
  moreover have "\<forall>v \<in> set (samples_of x87_arith tr' (map (\<lambda>s. Scanned s True) ss)).
                   in_range 0 100 v"
    using Cons.IH [of s tr'] Cons.prems(1,3) cs st by simp
  ultimately show ?case using c by simp
qed

text \<open>The example snapshots in the x87 arithmetic, where their sums are exact.\<close>

lemma x87_snapshots:
  "currentTotalCPU x87_arith stat_a = 1000" "currentIdleCPU x87_arith stat_a = 800"
  "currentTotalCPU x87_arith stat_b = 1200" "currentIdleCPU x87_arith stat_b = 850"
  "currentTotalCPU x87_arith stat_f = 1010" "currentIdleCPU x87_arith stat_f = 789"
  by (simp_all add: stat_a_def stat_b_def stat_f_def currentTotalCPU_def currentIdleCPU_def
      fadd_def round_to_numeral)

text \<open>
  C1. When the variables hold a previous snapshot (they are not both zero) and neither
  the total delta nor the busy delta of the new snapshot is zero, the function returns
  the busy delta divided by the total delta, times 100. In the arithmetic that does not
  round, that is the number the formula denotes, and 75 for a total delta of 200 and an
  idle delta of 50. In every arithmetic it is the formula computed in that arithmetic;
  in the x87 arithmetic, between two snapshots of counters, it is 75 for those deltas.
\<close>

theorem calculate_cpu_utilization_formula:
  assumes "\<not> (preTotalCPU tr = 0 \<and> preIdleCPU tr = 0)"
    and "currentTotalCPU exact_arith s - preTotalCPU tr \<noteq> 0"
    and "(currentTotalCPU exact_arith s - currentIdleCPU exact_arith s)
           - (preTotalCPU tr - preIdleCPU tr) \<noteq> 0"
  shows "fst (snd (calculate_cpu_utilization exact_arith tr (Scanned s True))) =
           Finite (((currentTotalCPU exact_arith s - currentIdleCPU exact_arith s)
                      - (preTotalCPU tr - preIdleCPU tr))
                   / (currentTotalCPU exact_arith s - preTotalCPU tr) * 100)
         \<and> (currentTotalCPU exact_arith s - preTotalCPU tr = 200
              \<and> currentIdleCPU exact_arith s - preIdleCPU tr = 50
              \<longrightarrow> fst (snd (calculate_cpu_utilization exact_arith tr (Scanned s True)))
                    = Finite 75)
         \<and> (fsub fp (currentTotalCPU fp s) (preTotalCPU tr) \<noteq> 0
              \<and> fsub fp (fsub fp (currentTotalCPU fp s) (currentIdleCPU fp s))
                    (fsub fp (preTotalCPU tr) (preIdleCPU tr)) \<noteq> 0
              \<longrightarrow> fst (snd (calculate_cpu_utilization fp tr (Scanned s True))) =
                    Finite (fmul fp
                      (rounded (ld fp)
                         (fsub fp (fsub fp (currentTotalCPU fp s) (currentIdleCPU fp s))
                            (fsub fp (preTotalCPU tr) (preIdleCPU tr))
                          / fsub fp (currentTotalCPU fp s) (preTotalCPU tr))) 100))
         \<and> (counters p \<and> counters s
              \<and> preTotalCPU tr = totalCPU p \<and> preIdleCPU tr = idleCPU p
              \<and> totalCPU s - totalCPU p = 200 \<and> idleCPU s - idleCPU p = 50
              \<longrightarrow> fst (snd (calculate_cpu_utilization x87_arith tr (Scanned s True)))
                    = Finite 75)"
proof -
  have formula: "fst (snd (calculate_cpu_utilization exact_arith tr (Scanned s True))) =
           Finite (((currentTotalCPU exact_arith s - currentIdleCPU exact_arith s)
                      - (preTotalCPU tr - preIdleCPU tr))
                   / (currentTotalCPU exact_arith s - preTotalCPU tr) * 100)"
    using assms calculate_cpu_utilization_general [of tr exact_arith s] by simp
  have "((currentTotalCPU exact_arith s - currentIdleCPU exact_arith s)
           - (preTotalCPU tr - preIdleCPU tr))
          / (currentTotalCPU exact_arith s - preTotalCPU tr) * 100 = 75"
    if t: "currentTotalCPU exact_arith s - preTotalCPU tr = 200"
      and i: "currentIdleCPU exact_arith s - preIdleCPU tr = 50"
  proof -
    have "(currentTotalCPU exact_arith s - currentIdleCPU exact_arith s)
            - (preTotalCPU tr - preIdleCPU tr) = 150"
      using t i by simp
    then show ?thesis using t by simp
  qed
  with formula calculate_cpu_utilization_general [OF assms(1), of fp s]
    x87_example [of p s tr, OF _ _ _ _ assms(1)]
  show ?thesis by simp
qed

text \<open>
  The snapshot \<open>stat_b\<close> after \<open>stat_a\<close>: 75 in the arithmetic that does not round,
  and 75 in the x87 arithmetic.
\<close>

theorem calculate_cpu_utilization_formula_witness:
  "\<not> (preTotalCPU (tracker0\<lparr>preTotalCPU := 1000, preIdleCPU := 800\<rparr>) = 0
        \<and> preIdleCPU (tracker0\<lparr>preTotalCPU := 1000, preIdleCPU := 800\<rparr>) = 0)
   \<and> currentTotalCPU exact_arith stat_b
        - preTotalCPU (tracker0\<lparr>preTotalCPU := 1000, preIdleCPU := 800\<rparr>) = 200
   \<and> currentIdleCPU exact_arith stat_b
        - preIdleCPU (tracker0\<lparr>preTotalCPU := 1000, preIdleCPU := 800\<rparr>) = 50
   \<and> (currentTotalCPU exact_arith stat_b - currentIdleCPU exact_arith stat_b)
        - (preTotalCPU (tracker0\<lparr>preTotalCPU := 1000, preIdleCPU := 800\<rparr>)
           - preIdleCPU (tracker0\<lparr>preTotalCPU := 1000, preIdleCPU := 800\<rparr>)) = 150
   \<and> fst (snd (calculate_cpu_utilization exact_arith
         (tracker0\<lparr>preTotalCPU := 1000, preIdleCPU := 800\<rparr>) (Scanned stat_b True)))
       = Finite 75
   \<and> fsub x87_arith (currentTotalCPU x87_arith stat_b)
        (preTotalCPU (tracker0\<lparr>preTotalCPU := 1000, preIdleCPU := 800\<rparr>)) = 200
   \<and> fsub x87_arith (fsub x87_arith (currentTotalCPU x87_arith stat_b)
                         (currentIdleCPU x87_arith stat_b))
        (fsub x87_arith (preTotalCPU (tracker0\<lparr>preTotalCPU := 1000, preIdleCPU := 800\<rparr>))
           (preIdleCPU (tracker0\<lparr>preTotalCPU := 1000, preIdleCPU := 800\<rparr>))) = 150
   \<and> counters stat_a \<and> counters stat_b
   \<and> preTotalCPU (tracker0\<lparr>preTotalCPU := 1000, preIdleCPU := 800\<rparr>) = totalCPU stat_a
   \<and> preIdleCPU (tracker0\<lparr>preTotalCPU := 1000, preIdleCPU := 800\<rparr>) = idleCPU stat_a
   \<and> totalCPU stat_b - totalCPU stat_a = 200 \<and> idleCPU stat_b - idleCPU stat_a = 50
   \<and> fst (snd (calculate_cpu_utilization x87_arith
         (tracker0\<lparr>preTotalCPU := 1000, preIdleCPU := 800\<rparr>) (Scanned stat_b True)))
       = Finite 75"
proof -
  have c: "counters stat_a" "counters stat_b"
    by (simp_all add: counters_def is_count_def stat_a_def stat_b_def)
  show ?thesis
    using calculate_cpu_utilization_formula
      [of "tracker0\<lparr>preTotalCPU := 1000, preIdleCPU := 800\<rparr>" stat_b x87_arith stat_a] c
    by (simp add: stat_defs fadd_def fsub_def fmul_def round_to_numeral x87_three_quarters)
qed

text \<open>
  C2, as the code has it. The function has no clamp. Over a sequence of snapshots that
  are all read successfully and whose idle time (idle + iowait) and busy time (total
  minus idle time) never decrease from one snapshot to the next, every value returned,
  starting from the zeroed variables, is a number between 0 and 100: in the arithmetic
  that does not round, and in the x87 arithmetic when the snapshots are counters.
\<close>

theorem samples_in_range_when_steady:
  assumes "steady ss"
  shows "(\<forall>v \<in> set (samples_of exact_arith tracker0 (map (\<lambda>s. Scanned s True) ss)).
            in_range 0 100 v)
         \<and> ((\<forall>s \<in> set ss. counters s) \<longrightarrow>
            (\<forall>v \<in> set (samples_of x87_arith tracker0 (map (\<lambda>s. Scanned s True) ss)).
               in_range 0 100 v))"
proof (cases ss)
  case Nil
  then show ?thesis by simp
next
  case (Cons s ss')
  have c: "calculate_cpu_utilization exact_arith tracker0 (Scanned s True) =
     ([], Finite 0, tracker0\<lparr>preTotalCPU := totalCPU s, preIdleCPU := idleCPU s\<rparr>)"
    using calculate_cpu_utilization_sentinel [of tracker0 exact_arith s]
    by (simp add: tracker0_def currentCPU_exact)
  have "\<forall>v \<in> set (samples_of exact_arith
           (tracker0\<lparr>preTotalCPU := totalCPU s, preIdleCPU := idleCPU s\<rparr>)
           (map (\<lambda>s. Scanned s True) ss')). in_range 0 100 v"
    using assms Cons by (intro samples_of_steady [of s]) simp_all
  then have a: "\<forall>v \<in> set (samples_of exact_arith tracker0 (map (\<lambda>s. Scanned s True) ss)).
                  in_range 0 100 v"
    using Cons c by simp
  have b: "\<forall>v \<in> set (samples_of x87_arith tracker0 (map (\<lambda>s. Scanned s True) ss)).
             in_range 0 100 v"
    if k: "\<forall>s \<in> set ss. counters s"
  proof -
    from x87_counters [of s] k Cons have e: "currentTotalCPU x87_arith s = totalCPU s"
      "currentIdleCPU x87_arith s = idleCPU s" by auto
    have x: "calculate_cpu_utilization x87_arith tracker0 (Scanned s True) =
       ([], Finite 0, tracker0\<lparr>preTotalCPU := totalCPU s, preIdleCPU := idleCPU s\<rparr>)"
      using calculate_cpu_utilization_sentinel [of tracker0 x87_arith s] e
      by (simp add: tracker0_def)
    have "\<forall>v \<in> set (samples_of x87_arith
             (tracker0\<lparr>preTotalCPU := totalCPU s, preIdleCPU := idleCPU s\<rparr>)
             (map (\<lambda>s. Scanned s True) ss')). in_range 0 100 v"
      using assms k Cons by (intro samples_of_steady_x87 [of s]) simp_all
    then show ?thesis using Cons x by simp
  qed
  from a b show ?thesis by blast
qed

theorem samples_in_range_when_steady_witness:
  "steady [stat_a, stat_b]
   \<and> samples_of exact_arith tracker0 [Scanned stat_a True, Scanned stat_b True]
       = [Finite 0, Finite 75]
   \<and> in_range 0 100
       (samples_of exact_arith tracker0 [Scanned stat_a True, Scanned stat_b True] ! 1)
   \<and> counters stat_a \<and> counters stat_b
   \<and> samples_of x87_arith tracker0 [Scanned stat_a True, Scanned stat_b True]
       = [Finite 0, Finite 75]
   \<and> in_range 0 100
       (samples_of x87_arith tracker0 [Scanned stat_a True, Scanned stat_b True] ! 1)"
proof -
  have s: "steady [stat_a, stat_b]" by (simp add: stat_defs)
  have k: "counters stat_a" "counters stat_b"
    by (simp_all add: counters_def is_count_def stat_a_def stat_b_def)
  have v: "samples_of exact_arith tracker0 [Scanned stat_a True, Scanned stat_b True]
             = [Finite 0, Finite 75]"
    by (simp add: calculate_cpu_utilization_def Let_def stat_defs fdiv_exact)
  have w: "samples_of x87_arith tracker0 [Scanned stat_a True, Scanned stat_b True]
             = [Finite 0, Finite 75]"
    by (simp add: calculate_cpu_utilization_def Let_def stat_defs fp_defs round_to_numeral
        x87_three_quarters)
  note t = samples_in_range_when_steady [OF s]
  from t have "\<forall>v \<in> set (samples_of exact_arith tracker0
                             [Scanned stat_a True, Scanned stat_b True]).
                 in_range 0 100 v" by simp
  then have a: "in_range 0 100
      (samples_of exact_arith tracker0 [Scanned stat_a True, Scanned stat_b True] ! 1)"
    using v by simp
  from t k have "\<forall>v \<in> set (samples_of x87_arith tracker0
                             [Scanned stat_a True, Scanned stat_b True]).
                 in_range 0 100 v" by simp
  then have b: "in_range 0 100
      (samples_of x87_arith tracker0 [Scanned stat_a True, Scanned stat_b True] ! 1)"
    using w by simp
  from s v a k w b show ?thesis by simp
qed

text \<open>
  C2 as stated fails: when iowait drops by 10 between two snapshots while the total
  grows by 100, the second call returns 110, in the arithmetic that does not round and
  in the x87 arithmetic.
\<close>

theorem samples_not_clamped_counterexample:
  "samples_of exact_arith tracker0 [Scanned stat_a True, Scanned stat_c True]
     = [Finite 0, Finite 110]
   \<and> \<not> in_range 0 100
         (samples_of exact_arith tracker0 [Scanned stat_a True, Scanned stat_c True] ! 1)
   \<and> samples_of x87_arith tracker0 [Scanned stat_a True, Scanned stat_c True]
     = [Finite 0, Finite 110]
   \<and> \<not> in_range 0 100
         (samples_of x87_arith tracker0 [Scanned stat_a True, Scanned stat_c True] ! 1)"
proof -
  have "round_to 64 (11 / 10) = 10145709240540253389 / 9223372036854775808"
    by (subst round_to_eval [where e = 0]) (simp_all add: round_even_def powr_minus)
  then have q: "fdiv x87_arith 110 100 = Finite (10145709240540253389 / 9223372036854775808)"
    by (simp add: fdiv_def rounded_def)
  have "round_to 64 (10145709240540253389 / 9223372036854775808 * 100) = 110"
    by (subst round_to_eval [where e = 6]) (simp_all add: round_even_def powr_minus)
  then have p: "fmul x87_arith (10145709240540253389 / 9223372036854775808) 100 = 110"
    by (simp add: fmul_def rounded_def)
  have "samples_of x87_arith tracker0 [Scanned stat_a True, Scanned stat_c True]
          = [Finite 0, Finite 110]"
    by (simp add: calculate_cpu_utilization_def Let_def stat_defs fadd_def fsub_def
        round_to_numeral q p)
  then show ?thesis
    by (simp add: calculate_cpu_utilization_def Let_def stat_defs fdiv_exact)
qed

text \<open>
  C3. With both variables zero (the first call) the function stores the snapshot and
  returns 0; whenever the total delta or the busy delta is zero it returns 0; a second
  call on the counters of the first returns 0 again. That holds in every arithmetic.
  A division by zero would give no number; what the function returns is never that: the
  test of the two deltas comes before the division.
\<close>

theorem first_call_and_zero_delta_return_zero:
  "(preTotalCPU tr = 0 \<and> preIdleCPU tr = 0 \<longrightarrow>
      calculate_cpu_utilization fp tr (Scanned s True) =
        ([], Finite 0,
         tr\<lparr>preTotalCPU := currentTotalCPU fp s, preIdleCPU := currentIdleCPU fp s\<rparr>))
   \<and> (fsub fp (currentTotalCPU fp s) (preTotalCPU tr) = 0
        \<or> fsub fp (fsub fp (currentTotalCPU fp s) (currentIdleCPU fp s))
             (fsub fp (preTotalCPU tr) (preIdleCPU tr)) = 0 \<longrightarrow>
      fst (snd (calculate_cpu_utilization fp tr (Scanned s True))) = Finite 0)
   \<and> samples_of fp tracker0 [Scanned s True, Scanned s True] = [Finite 0, Finite 0]
   \<and> fdiv fp x 0 = NotFinite
   \<and> fst (snd (calculate_cpu_utilization fp tr rd)) \<noteq> NotFinite"
proof -
  have "samples_of fp tracker0 [Scanned s True, Scanned s True] = [Finite 0, Finite 0]"
    by (simp add: calculate_cpu_utilization_def Let_def tracker0_def)
  moreover have "fst (snd (calculate_cpu_utilization fp tr rd)) \<noteq> NotFinite"
    using calculate_cpu_utilization_number [of fp tr rd] by auto
  ultimately show ?thesis
    using calculate_cpu_utilization_sentinel [of tr fp s]
      calculate_cpu_utilization_degenerate [of fp s tr]
    by simp
qed

text \<open>
  The first call on \<open>stat_a\<close>; then \<open>stat_a\<close> again, where both deltas are zero; and
  then \<open>stat_e\<close>, where the total delta is zero and the busy delta is 100.
\<close>

theorem first_call_and_zero_delta_return_zero_witness:
  "preTotalCPU tracker0 = 0 \<and> preIdleCPU tracker0 = 0
   \<and> calculate_cpu_utilization exact_arith tracker0 (Scanned stat_a True) =
       ([], Finite 0, tracker0\<lparr>preTotalCPU := 1000, preIdleCPU := 800\<rparr>)
   \<and> fsub exact_arith (currentTotalCPU exact_arith stat_a)
        (preTotalCPU (tracker0\<lparr>preTotalCPU := 1000, preIdleCPU := 800\<rparr>)) = 0
   \<and> fst (snd (calculate_cpu_utilization exact_arith
        (tracker0\<lparr>preTotalCPU := 1000, preIdleCPU := 800\<rparr>) (Scanned stat_a True))) = Finite 0
   \<and> fsub exact_arith (currentTotalCPU exact_arith stat_e)
        (preTotalCPU (tracker0\<lparr>preTotalCPU := 1000, preIdleCPU := 800\<rparr>)) = 0
   \<and> fsub exact_arith
        (fsub exact_arith (currentTotalCPU exact_arith stat_e) (currentIdleCPU exact_arith stat_e))
        (fsub exact_arith (preTotalCPU (tracker0\<lparr>preTotalCPU := 1000, preIdleCPU := 800\<rparr>))
           (preIdleCPU (tracker0\<lparr>preTotalCPU := 1000, preIdleCPU := 800\<rparr>))) = 100
   \<and> fst (snd (calculate_cpu_utilization exact_arith
        (tracker0\<lparr>preTotalCPU := 1000, preIdleCPU := 800\<rparr>) (Scanned stat_e True))) = Finite 0"
  using first_call_and_zero_delta_return_zero [of tracker0 exact_arith stat_a]
    first_call_and_zero_delta_return_zero
      [of "tracker0\<lparr>preTotalCPU := 1000, preIdleCPU := 800\<rparr>" exact_arith stat_a]
    first_call_and_zero_delta_return_zero
      [of "tracker0\<lparr>preTotalCPU := 1000, preIdleCPU := 800\<rparr>" exact_arith stat_e]
  by (simp add: stat_defs)

subsection \<open>The argument parser\<close>

lemma parse_positional:
  "processCommandLineArguments 3 (initializeArgument 3 [''prog'', ''30'', ''1000000'']) =
     ([], 0,
      \<lparr>memory_flag = True, cpu_flag = True, cores_flag = True, samples = 30,
       tdelay = 1000000, updated_sample = True, updated_tdelay = True, argc = 3,
       argv = [''prog'', ''30'', ''1000000'']\<rparr>)"
  by (simp add: arg_defs)

lemma parse_cpu_samples:
  "processCommandLineArguments 3 (initializeArgument 3 [''prog'', ''--cpu'', ''--samples=5'']) =
     ([Out [Str ''here''], Out [Str ''here2''], Out [Str ''here3'']], 0,
      \<lparr>memory_flag = False, cpu_flag = True, cores_flag = False, samples = 5,
       tdelay = 500000, updated_sample = True, updated_tdelay = False, argc = 3,
       argv = [''prog'', ''--cpu'', ''--samples=5'']\<rparr>)"
  by (simp add: arg_defs)

lemma parse_duplicate:
  "processCommandLineArguments 3
     (initializeArgument 3 [''prog'', ''--samples=5'', ''--samples=5'']) =
     ([Out [Str ''here''], Out [Str ''here2''], Out [Str ''here3''],
       Out [Str ''here''], Out [Str ''here2''],
       Err (''Error: cannot have multiple sample values'' @ nl),
       Err (''Error: Unknown argument'' @ nl)], - 1,
      \<lparr>memory_flag = False, cpu_flag = False, cores_flag = False, samples = 5,
       tdelay = 500000, updated_sample = True, updated_tdelay = False, argc = 3,
       argv = [''prog'', ''--samples=5'', ''--samples=5'']\<rparr>)"
  by (simp add: arg_defs)

lemma parse_unknown:
  "processCommandLineArguments 3 (initializeArgument 3 [''prog'', ''--'', ''cpu'']) =
     ([Err (''Error: Unknown argument'' @ nl)], - 1,
      initializeArgument 3 [''prog'', ''--'', ''cpu''])"
  by (simp add: arg_defs)

lemma main_rejects:
  "length args = n \<Longrightarrow>
   processCommandLineArguments n (initializeArgument n args) = (es, - 1, a) \<Longrightarrow>
   main args h = (es, Exit 1)"
  by (auto simp add: main_def)

text \<open>
  C7. \<open>prog 30 1000000\<close> gives 30 samples, a delay of 1000000 and the three panels;
  \<open>prog --cpu --samples=5\<close> gives the CPU panel alone, 5 samples and the default delay
  of 500000; \<open>prog --samples=5 --samples=5\<close> is rejected with the message about
  multiple sample values and \<open>prog -- cpu\<close> with the message about an unknown
  argument, both with exit status 1, whatever the host answers.
\<close>

theorem argument_parser_examples:
  "processCommandLineArguments 3 (initializeArgument 3 [''prog'', ''30'', ''1000000'']) =
     ([], 0,
      \<lparr>memory_flag = True, cpu_flag = True, cores_flag = True, samples = 30,
       tdelay = 1000000, updated_sample = True, updated_tdelay = True, argc = 3,
       argv = [''prog'', ''30'', ''1000000'']\<rparr>)
   \<and> processCommandLineArguments 3
         (initializeArgument 3 [''prog'', ''--cpu'', ''--samples=5'']) =
     ([Out [Str ''here''], Out [Str ''here2''], Out [Str ''here3'']], 0,
      \<lparr>memory_flag = False, cpu_flag = True, cores_flag = False, samples = 5,
       tdelay = 500000, updated_sample = True, updated_tdelay = False, argc = 3,
       argv = [''prog'', ''--cpu'', ''--samples=5'']\<rparr>)
   \<and> main [''prog'', ''--samples=5'', ''--samples=5''] h =
     ([Out [Str ''here''], Out [Str ''here2''], Out [Str ''here3''],
       Out [Str ''here''], Out [Str ''here2''],
       Err (''Error: cannot have multiple sample values'' @ nl),
       Err (''Error: Unknown argument'' @ nl)], Exit 1)
   \<and> main [''prog'', ''--'', ''cpu''] h' =
     ([Err (''Error: Unknown argument'' @ nl)], Exit 1)"
proof -
  have "main [''prog'', ''--samples=5'', ''--samples=5''] h =
     ([Out [Str ''here''], Out [Str ''here2''], Out [Str ''here3''],
       Out [Str ''here''], Out [Str ''here2''],
       Err (''Error: cannot have multiple sample values'' @ nl),
       Err (''Error: Unknown argument'' @ nl)], Exit 1)"
    by (rule main_rejects [OF _ parse_duplicate]) simp
  moreover have "main [''prog'', ''--'', ''cpu''] h' =
     ([Err (''Error: Unknown argument'' @ nl)], Exit 1)"
    by (rule main_rejects [OF _ parse_unknown]) simp
  ultimately show ?thesis
    using parse_positional parse_cpu_samples by simp
qed

theorem argument_parser_examples_witness:
  "main [''prog'', ''--samples=5'', ''--samples=5''] host_ok =
     ([Out [Str ''here''], Out [Str ''here2''], Out [Str ''here3''],
       Out [Str ''here''], Out [Str ''here2''],
       Err (''Error: cannot have multiple sample values'' @ nl),
       Err (''Error: Unknown argument'' @ nl)], Exit 1)
   \<and> main [''prog'', ''--'', ''cpu''] host_ok =
     ([Err (''Error: Unknown argument'' @ nl)], Exit 1)"
  using argument_parser_examples [of host_ok host_ok] by blast

lemma isFlag_samples_value:
  assumes "argv a ! i = ''--samples='' @ v" and "v \<noteq> []"
  shows "isFlag a i =
     (if updated_sample a
      then ([Out [Str ''here''], Out [Str ''here2''],
             Err (''Error: cannot have multiple sample values'' @ nl)], False, a)
      else if snd (strtol (removeWhiteSpace v)) \<noteq> [] \<or> fst (strtol (removeWhiteSpace v)) \<le> 0
      then ([Out [Str ''here''], Out [Str ''here2''], Out [Str ''here3''],
             Err (''Error: Invalid value for --samples'' @ nl)], False, a)
      else ([Out [Str ''here''], Out [Str ''here2''], Out [Str ''here3'']], True,
            a\<lparr>samples := int_of_long (fst (strtol (removeWhiteSpace v))),
               updated_sample := True\<rparr>))"
  using assms by (simp add: isFlag_def Let_def split: prod.splits)

lemma main_output_starts_with_parser_output:
  "\<exists>rest. fst (main args h) =
     fst (processCommandLineArguments (length args) (initializeArgument (length args) args)) @ rest"
  by (auto simp add: main_def split: prod.splits outcome.splits)

text \<open>
  C10, as the code has it. For an argument \<open>--samples=\<close> followed by a non-empty
  value, \<open>isFlag\<close> first writes \<open>here\<close> and \<open>here2\<close> to standard output; it writes
  \<open>here3\<close> exactly when no sample count was set before; and when the value is accepted
  its whole output is \<open>here\<close>, \<open>here2\<close>, \<open>here3\<close>. What the parser writes is the
  beginning of what \<open>main\<close> writes, ahead of the display.
\<close>

theorem isFlag_samples_debug_output:
  assumes "i < length (argv a)" and "argv a ! i = ''--samples='' @ v" and "v \<noteq> []"
  shows "take 2 (fst (isFlag a i)) = [Out [Str ''here''], Out [Str ''here2'']]
         \<and> (Out [Str ''here3''] \<in> set (fst (isFlag a i))) = (\<not> updated_sample a)
         \<and> (fst (snd (isFlag a i)) \<longrightarrow>
              fst (isFlag a i) = [Out [Str ''here''], Out [Str ''here2''], Out [Str ''here3'']])
         \<and> (\<exists>rest. fst (main args h) =
               fst (processCommandLineArguments (length args)
                      (initializeArgument (length args) args)) @ rest)"
  using isFlag_samples_value [OF assms(2,3)] main_output_starts_with_parser_output [of args h]
  by simp

theorem isFlag_samples_debug_output_witness:
  "1 < length (argv (initializeArgument 2 [''prog'', ''--samples=5'']))
   \<and> argv (initializeArgument 2 [''prog'', ''--samples=5'']) ! 1 = ''--samples='' @ ''5''
   \<and> ''5'' \<noteq> []
   \<and> fst (snd (isFlag (initializeArgument 2 [''prog'', ''--samples=5'']) 1))
   \<and> fst (isFlag (initializeArgument 2 [''prog'', ''--samples=5'']) 1) =
       [Out [Str ''here''], Out [Str ''here2''], Out [Str ''here3'']]
   \<and> (\<exists>rest. fst (main [''prog'', ''--cpu'', ''--samples=5''] host_ok) =
         [Out [Str ''here''], Out [Str ''here2''], Out [Str ''here3'']] @ rest)"
proof -
  have h: "1 < length (argv (initializeArgument 2 [''prog'', ''--samples=5'']))"
    "argv (initializeArgument 2 [''prog'', ''--samples=5'']) ! 1 = ''--samples='' @ ''5''"
    "''5'' \<noteq> []"
    by (simp_all add: initializeArgument_def)
  have ok: "fst (snd (isFlag (initializeArgument 2 [''prog'', ''--samples=5'']) 1))"
    by (simp add: arg_defs)
  have l: "length [''prog'', ''--cpu'', ''--samples=5''] = 3" by simp
  note t = isFlag_samples_debug_output [OF h, of "[''prog'', ''--cpu'', ''--samples=5'']" host_ok,
      unfolded l parse_cpu_samples fst_conv]
  from t ok h show ?thesis by blast
qed

text \<open>
  C10 as stated fails: on the second \<open>--samples=5\<close> of a command line the sample
  count is already set, and \<open>isFlag\<close> returns after \<open>here2\<close> without writing
  \<open>here3\<close>.
\<close>

theorem isFlag_samples_debug_output_counterexample:
  "fst (isFlag
     (\<lparr>memory_flag = False, cpu_flag = False, cores_flag = False, samples = 5,
       tdelay = 500000, updated_sample = True, updated_tdelay = False, argc = 3,
       argv = [''prog'', ''--samples=5'', ''--samples=5'']\<rparr>) 2) =
     [Out [Str ''here''], Out [Str ''here2''],
      Err (''Error: cannot have multiple sample values'' @ nl)]
   \<and> Out [Str ''here3''] \<notin> set (fst (isFlag
     (\<lparr>memory_flag = False, cpu_flag = False, cores_flag = False, samples = 5,
       tdelay = 500000, updated_sample = True, updated_tdelay = False, argc = 3,
       argv = [''prog'', ''--samples=5'', ''--samples=5'']\<rparr>) 2))"
  by (simp add: arg_defs)

subsection \<open>The axes\<close>

lemma filter_is_rule_other:
  "\<forall>x \<in> set xs. ps x \<noteq> [Str hrule] \<Longrightarrow>
   filter is_rule (map (\<lambda>x. At (r x) (c x) (ps x)) xs) = []"
  by (induction xs) simp_all

lemma filter_is_rule_cells:
  "filter is_rule (map (\<lambda>j. At r (c j) [Str hrule]) xs) = map (\<lambda>j. At r (c j) [Str hrule]) xs"
  by (induction xs) simp_all

lemma label_not_hrule: "label @ nl \<noteq> hrule"
proof
  assume "label @ nl = hrule"
  then have "last (label @ nl) = last hrule" by simp
  then show False by (simp add: nl_def hrule_def)
qed

lemma draw_graph_rule:
  "filter is_rule (fst (draw_graph label unit height baseline r0 c0 n)) =
     map (\<lambda>j. At (r0 + 1 + height) (c0 + 8 + int j) [Str hrule])
       [0..<nat (max n 20 + 1)]"
proof -
  have bars: "filter is_rule
      (map (\<lambda>i. At (r0 + 1 + int i) (c0 + 8) [Str (''|'' @ nl)])
         [0..<nat height]) = []"
    by (rule filter_is_rule_other) (simp add: nl_def hrule_def)
  have m: "(if n < 20 then 20 else n) = max n 20" by simp
  show ?thesis
    unfolding draw_graph_def Let_def fst_conv m
    by (simp add: bars filter_is_rule_cells [unfolded hrule_def] label_not_hrule [unfolded hrule_def] hrule_def del: upt_Suc)
qed

text \<open>
  C9, as the code has it. For a sample count \<open>n\<close> below the largest \<open>int\<close>,
  \<open>draw_graph\<close> draws a horizontal rule of \<open>max n 20 + 1\<close> characters: one in the
  column of the vertical axis and one in each of the \<open>max n 20\<close> columns to its right,
  all in the row below the axis.
\<close>

theorem draw_graph_rule_length:
  assumes "n < INT_MAX"
  shows "length (filter is_rule
            (fst (draw_graph label unit height baseline r0 c0 n))) =
           nat (max n 20) + 1
         \<and> filter is_rule
             (fst (draw_graph label unit height baseline r0 c0 n)) =
           map (\<lambda>j. At (r0 + 1 + height) (c0 + 8 + int j) [Str hrule])
             [0..<nat (max n 20) + 1]"
proof -
  have "nat (max n 20 + 1) = nat (max n 20) + 1" by simp
  then show ?thesis by (simp add: draw_graph_rule del: upt_Suc)
qed

theorem draw_graph_rule_length_witness:
  "5 < INT_MAX
   \<and> length (filter is_rule (fst (draw_cpu_graph 3 1 5))) = 21
   \<and> 30 < INT_MAX
   \<and> length (filter is_rule (fst (draw_cpu_graph 3 1 30))) = 31"
  using draw_graph_rule_length [of 5 "''v CPU ''" "[Str ''100%'']" 11 "''0%''" 3 1]
    draw_graph_rule_length [of 30 "''v CPU ''" "[Str ''100%'']" 11 "''0%''" 3 1]
  by (simp add: draw_cpu_graph_def INT_MAX_def)

text \<open>
  C9 as stated fails: for 5 samples the rule has 21 characters, not 20.
\<close>

theorem draw_graph_rule_length_counterexample:
  "length (filter is_rule (fst (draw_graph ''v CPU '' [Str ''100%''] 11 ''0%'' 3 1 5))) = 21
   \<and> length (filter is_rule (fst (draw_graph ''v CPU '' [Str ''100%''] 11 ''0%'' 3 1 5)))
       \<noteq> nat (max 5 20)"
  by (simp add: draw_graph_rule)


subsection \<open>The sampling loop\<close>

lemma glyph_cols_append: "glyph_cols g (xs @ ys) = glyph_cols g xs @ glyph_cols g ys"
  by (induction g xs rule: glyph_cols.induct) simp_all

lemma bytes_to_GiB_exact:
  "bytes_to_GiB exact_arith n = real (n mod 2 ^ 64) / GiB"
  "0 \<le> bytes_to_GiB exact_arith n"
  by (simp_all add: bytes_to_GiB_def GiB_def)

lemma get_total_memory_cases:
  "get_total_memory fp None =
     ([Err (''Error: Cannot read system memory information'' @ nl)], Exit 1)"
  "get_total_memory fp (Some info) =
     (if bytes_to_GiB fp (totalram info * mem_unit info) < 0
      then [Err (''Error:Total memory cannot be negative'' @ nl)] else [],
      Ret (bytes_to_GiB fp (totalram info * mem_unit info)))"
  by (simp_all add: get_total_memory_def Let_def)

lemma calculate_memory_used_cases:
  "calculate_memory_used fp None si_total =
     ([Err (''Error: Cannot read memory used file'' @ nl)], Ret 0)"
  "calculate_memory_used fp (Some info) None =
     ([Err (''Error: Cannot read system memory information'' @ nl)], Exit 1)"
  "calculate_memory_used fp (Some info) (Some info') =
     (if bytes_to_GiB fp (totalram info' * mem_unit info') < 0
      then [Err (''Error:Total memory cannot be negative'' @ nl)] else [],
      Ret (fsub fp (bytes_to_GiB fp (totalram info' * mem_unit info'))
             (bytes_to_GiB fp (freeram info * mem_unit info))))"
  by (simp_all add: calculate_memory_used_def get_total_memory_cases Let_def)

lemma calculate_memory_used_exact:
  "calculate_memory_used exact_arith (Some info) (Some info') =
     ([], Ret (real ((totalram info' * mem_unit info') mod 2 ^ 64) / GiB
              - real ((freeram info * mem_unit info) mod 2 ^ 64) / GiB))"
  using bytes_to_GiB_exact(2) [of "totalram info' * mem_unit info'"]
  by (simp add: calculate_memory_used_cases bytes_to_GiB_exact(1))

lemma calculate_memory_used_events:
  "calculate_memory_used fp si si_total = (es, r) \<Longrightarrow> glyph_cols g es = []"
  by (cases si; cases si_total) (auto simp add: calculate_memory_used_cases)

lemma calculate_memory_used_exit:
  "(\<exists>es. calculate_memory_used fp si si_total = (es, Exit code)) =
     (si \<noteq> None \<and> si_total = None \<and> code = 1)"
  by (cases si; cases si_total) (auto simp add: calculate_memory_used_cases)

lemma calculate_memory_used_defined:
  "snd (calculate_memory_used fp si si_total) \<noteq> Undefined"
  by (cases si; cases si_total) (auto simp add: calculate_memory_used_cases)

lemma calculate_cpu_utilization_events:
  "glyph_cols g (fst (calculate_cpu_utilization fp tr rd)) = []"
  by (cases rd) (simp_all add: calculate_cpu_utilization_def Let_def fdiv_def)

lemma memory_tick_Ret:
  assumes "calculate_memory_used fp (used_sysinfo rd) (total_sysinfo rd) = (es0, Ret u)"
  shows "memory_tick fp v rd =
     (es0 @
      [At (row (memory_heading v)) (col (memory_heading v)) [Str ''       ''],
       At (row (memory_heading v)) (col (memory_heading v))
         [Str '' '', Num 2 u, Str '' '', Str ''GB''],
       At (row (memory v) - int_of_real (rounded (ld fp) (u / scaling_factor v)) - 1)
         (col (memory v)) [Str ''#'']],
      Ret (v\<lparr>memory := (memory v)\<lparr>col := col (memory v) + 1\<rparr>\<rparr>))"
  using assms by (simp add: memory_tick_def)

lemma memory_tick_Exit:
  assumes "calculate_memory_used fp (used_sysinfo rd) (total_sysinfo rd) = (es0, Exit code)"
  shows "memory_tick fp v rd = (es0, Exit code)"
  using assms by (simp add: memory_tick_def)

lemma memory_tick_glyphs:
  "memory_tick fp v rd = (es, r) \<Longrightarrow>
   glyph_cols ''#'' es = (case r of Ret v' \<Rightarrow> [col (memory v)] | _ \<Rightarrow> [])
   \<and> glyph_cols '':'' es = []
   \<and> r \<noteq> Undefined
   \<and> (case r of Ret v' \<Rightarrow> v' = v\<lparr>memory := (memory v)\<lparr>col := col (memory v) + 1\<rparr>\<rparr>
        | _ \<Rightarrow> True)"
proof -
  assume m: "memory_tick fp v rd = (es, r)"
  obtain es0 r0 where
    c: "calculate_memory_used fp (used_sysinfo rd) (total_sysinfo rd) = (es0, r0)"
    by (cases "calculate_memory_used fp (used_sysinfo rd) (total_sysinfo rd)") auto
  note g = calculate_memory_used_events [OF c]
  show ?thesis
  proof (cases r0)
    case (Exit code)
    with c m memory_tick_Exit [of fp rd es0 code v] g show ?thesis by auto
  next
    case (Ret u)
    with c m memory_tick_Ret [of fp rd es0 u v] g show ?thesis
      by (auto simp add: glyph_cols_append)
  next
    case Undefined
    with c calculate_memory_used_defined [of fp "used_sysinfo rd" "total_sysinfo rd"]
    show ?thesis by simp
  qed
qed

text \<open>
  The CPU block always completes: the value it plots is a number, since
  \<open>calculate_cpu_utilization\<close> never divides by zero.
\<close>

lemma cpu_tick_Ret:
  assumes "calculate_cpu_utilization fp (tracker v) (stat rd) = (es0, Finite u, tr)"
  shows "cpu_tick fp v rd =
     (es0 @
      [At (row (cpu_heading v)) (col (cpu_heading v))
         [Str '' '', Num 2 u, Str '' %          ''],
       At (row (cpu v) - int_of_real (rounded (ld fp) (u / 10)) - 1) (col (cpu v)) [Str '':'']],
      Ret (v\<lparr>tracker := tr, cpu := (cpu v)\<lparr>col := col (cpu v) + 1\<rparr>\<rparr>))"
  using assms by (simp add: cpu_tick_def)

lemma calculate_cpu_utilization_result:
  "\<exists>es0 u tr. calculate_cpu_utilization fp tr0 rd = (es0, Finite u, tr)"
  using calculate_cpu_utilization_number [of fp tr0 rd]
  by (cases "calculate_cpu_utilization fp tr0 rd") auto

lemma cpu_tick_glyphs:
  "cpu_tick fp v rd = (es, r) \<Longrightarrow>
   glyph_cols '':'' es = [col (cpu v)] \<and> glyph_cols ''#'' es = []
   \<and> r = Ret (v\<lparr>tracker := snd (snd (calculate_cpu_utilization fp (tracker v) (stat rd))),
                 cpu := (cpu v)\<lparr>col := col (cpu v) + 1\<rparr>\<rparr>)"
proof -
  assume t: "cpu_tick fp v rd = (es, r)"
  from calculate_cpu_utilization_result [of fp "tracker v" "stat rd"] obtain es0 u tr
    where c: "calculate_cpu_utilization fp (tracker v) (stat rd) = (es0, Finite u, tr)"
    by blast
  have "glyph_cols g es0 = []" for g
    using calculate_cpu_utilization_events [of g fp "tracker v" "stat rd"] c by simp
  then show ?thesis using t cpu_tick_Ret [OF c] c by (auto simp add: glyph_cols_append)
qed

lemma memory_tick_cases:
  "used_sysinfo rd = None \<Longrightarrow>
   memory_tick fp v rd =
     ([Err (''Error: Cannot read memory used file'' @ nl),
       At (row (memory_heading v)) (col (memory_heading v)) [Str ''       ''],
       At (row (memory_heading v)) (col (memory_heading v))
         [Str '' '', Num 2 0, Str '' '', Str ''GB''],
       At (row (memory v) - 1) (col (memory v)) [Str ''#'']],
      Ret (v\<lparr>memory := (memory v)\<lparr>col := col (memory v) + 1\<rparr>\<rparr>))"
  "used_sysinfo rd = Some info \<Longrightarrow> total_sysinfo rd = None \<Longrightarrow>
   memory_tick fp v rd =
     ([Err (''Error: Cannot read system memory information'' @ nl)], Exit 1)"
  by (simp_all add: memory_tick_def calculate_memory_used_cases int_of_real_def)

lemma cpu_part_Ret:
  "\<exists>es2 v2. (if cpu_flag cfg then cpu_tick fp v1 rd else ([], Ret v1)) = (es2, Ret v2)"
  using cpu_tick_glyphs [of fp v1 rd] by (cases "cpu_tick fp v1 rd") auto

lemma sample_tick_Exit:
  "(snd (sample_tick fp cfg v rd) = Exit code) =
     (memory_flag cfg \<and> used_sysinfo rd \<noteq> None \<and> total_sysinfo rd = None \<and> code = 1)"
proof -
  note cr = cpu_part_Ret [of cfg fp _ rd]
  show ?thesis
  proof (cases "memory_flag cfg")
    case False
    from cr [of v] obtain es2 v2 where
      "(if cpu_flag cfg then cpu_tick fp v rd else ([], Ret v)) = (es2, Ret v2)" by blast
    with False show ?thesis by (simp add: sample_tick_def)
  next
    case True
    obtain es0 r0 where
      c: "calculate_memory_used fp (used_sysinfo rd) (total_sysinfo rd) = (es0, r0)"
      by (cases "calculate_memory_used fp (used_sysinfo rd) (total_sysinfo rd)") auto
    show ?thesis
    proof (cases r0)
      case (Exit code')
      with c have m: "memory_tick fp v rd = (es0, Exit code')" by (simp add: memory_tick_Exit)
      from c Exit calculate_memory_used_exit [of fp "used_sysinfo rd" "total_sysinfo rd" code']
      have "used_sysinfo rd \<noteq> None \<and> total_sysinfo rd = None \<and> code' = 1" by auto
      with True m show ?thesis by (auto simp add: sample_tick_def)
    next
      case (Ret u)
      define v1 where "v1 = v\<lparr>memory := (memory v)\<lparr>col := col (memory v) + 1\<rparr>\<rparr>"
      from Ret c have m: "memory_tick fp v rd = (fst (memory_tick fp v rd), Ret v1)"
        by (simp add: memory_tick_Ret v1_def)
      from cr [of v1] obtain es2 v2 where
        k: "(if cpu_flag cfg then cpu_tick fp v1 rd else ([], Ret v1)) = (es2, Ret v2)" by blast
      from c Ret calculate_memory_used_exit [of fp "used_sysinfo rd" "total_sysinfo rd" 1]
      have "\<not> (used_sysinfo rd \<noteq> None \<and> total_sysinfo rd = None)" by auto
      with True k show ?thesis
        by (subst sample_tick_def, subst m) auto
    next
      case Undefined
      with c calculate_memory_used_defined [of fp "used_sysinfo rd" "total_sysinfo rd"]
      show ?thesis by simp
    qed
  qed
qed

lemma sample_tick_defined:
  "snd (sample_tick fp cfg v rd) \<noteq> Undefined"
proof -
  note cr = cpu_part_Ret [of cfg fp _ rd]
  obtain es1 r1 where
    m: "(if memory_flag cfg then memory_tick fp v rd else ([], Ret v)) = (es1, r1)"
    by (cases "if memory_flag cfg then memory_tick fp v rd else ([], Ret v)") auto
  have d: "r1 \<noteq> Undefined"
    using m memory_tick_glyphs [of fp v rd es1 r1] by (cases "memory_flag cfg") auto
  show ?thesis
  proof (cases r1)
    case (Exit code)
    with m show ?thesis by (simp add: sample_tick_def)
  next
    case (Ret v1)
    from cr [of v1] obtain es2 v2 where
      "(if cpu_flag cfg then cpu_tick fp v1 rd else ([], Ret v1)) = (es2, Ret v2)" by blast
    with m Ret show ?thesis by (simp add: sample_tick_def)
  next
    case Undefined
    with d show ?thesis by simp
  qed
qed

lemma sample_tick_total:
  "(\<exists>es v'. sample_tick fp cfg v rd = (es, Ret v'))
   \<or> (\<exists>es. sample_tick fp cfg v rd = (es, Exit 1))"
proof (cases "snd (sample_tick fp cfg v rd)")
  case (Exit code)
  then have "code = 1" using sample_tick_Exit [of fp cfg v rd code] by simp
  with Exit show ?thesis by (cases "sample_tick fp cfg v rd") auto
next
  case (Ret v')
  then show ?thesis by (cases "sample_tick fp cfg v rd") auto
next
  case Undefined
  then show ?thesis using sample_tick_defined [of fp cfg v rd] by simp
qed

lemma sample_tick_glyphs_Exit:
  assumes "sample_tick fp cfg v rd = (es, Exit code)"
  shows "glyph_cols g es = []"
proof -
  note cr = cpu_part_Ret [of cfg fp _ rd]
  obtain es1 r1 where
    m: "(if memory_flag cfg then memory_tick fp v rd else ([], Ret v)) = (es1, r1)"
    by (cases "if memory_flag cfg then memory_tick fp v rd else ([], Ret v)") auto
  have "r1 = Exit code \<and> es = es1"
  proof (cases r1)
    case (Exit code')
    with m assms show ?thesis by (simp add: sample_tick_def)
  next
    case (Ret v1)
    from cr [of v1] obtain es2 v2 where
      "(if cpu_flag cfg then cpu_tick fp v1 rd else ([], Ret v1)) = (es2, Ret v2)" by blast
    with m Ret assms show ?thesis by (simp add: sample_tick_def)
  next
    case Undefined
    with m assms show ?thesis by (simp add: sample_tick_def)
  qed
  with m have mf: "memory_flag cfg" and mt: "memory_tick fp v rd = (es, Exit code)"
    by (auto split: if_splits)
  from mt show ?thesis
    using calculate_memory_used_events [of fp "used_sysinfo rd" "total_sysinfo rd" es]
    by (auto simp add: memory_tick_def split: prod.splits outcome.splits)
qed

lemma sample_tick_glyphs_Ret:
  assumes "sample_tick fp cfg v rd = (es, Ret v')"
  shows "glyph_cols ''#'' es = (if memory_flag cfg then [col (memory v)] else [])
       \<and> glyph_cols '':'' es = (if cpu_flag cfg then [col (cpu v)] else [])
       \<and> memory v' = (if memory_flag cfg then (memory v)\<lparr>col := col (memory v) + 1\<rparr> else memory v)
       \<and> cpu v' = (if cpu_flag cfg then (cpu v)\<lparr>col := col (cpu v) + 1\<rparr> else cpu v)"
proof -
  obtain es1 r1 where
    m: "(if memory_flag cfg then memory_tick fp v rd else ([], Ret v)) = (es1, r1)"
    by (cases "if memory_flag cfg then memory_tick fp v rd else ([], Ret v)") auto
  with assms obtain v1 where r1: "r1 = Ret v1"
    by (cases r1) (auto simp add: sample_tick_def)
  obtain es2 r2 where
    c: "(if cpu_flag cfg then cpu_tick fp v1 rd else ([], Ret v1)) = (es2, r2)"
    by (cases "if cpu_flag cfg then cpu_tick fp v1 rd else ([], Ret v1)") auto
  with assms m r1 obtain v2 where r2: "r2 = Ret v2"
    by (cases r2) (auto simp add: sample_tick_def)
  from assms m r1 c r2 have es: "es = es1 @ es2 @ [Sleep (tdelay cfg mod 2 ^ 32)]"
    and v': "v' = v2"
    by (simp_all add: sample_tick_def)
  have m1: "glyph_cols ''#'' es1 = (if memory_flag cfg then [col (memory v)] else [])
       \<and> glyph_cols '':'' es1 = []
       \<and> v1 = (if memory_flag cfg then v\<lparr>memory := (memory v)\<lparr>col := col (memory v) + 1\<rparr>\<rparr> else v)"
  proof (cases "memory_flag cfg")
    case True
    with m r1 memory_tick_glyphs [of fp v rd es1 "Ret v1"] show ?thesis by simp
  next
    case False
    with m r1 show ?thesis by simp
  qed
  have c1: "glyph_cols '':'' es2 = (if cpu_flag cfg then [col (cpu v1)] else [])
       \<and> glyph_cols ''#'' es2 = []
       \<and> memory v2 = memory v1
       \<and> cpu v2 = (if cpu_flag cfg then (cpu v1)\<lparr>col := col (cpu v1) + 1\<rparr> else cpu v1)"
  proof (cases "cpu_flag cfg")
    case True
    with c r2 cpu_tick_glyphs [of fp v1 rd es2 "Ret v2"] show ?thesis by simp
  next
    case False
    with c r2 show ?thesis by auto
  qed
  from m1 c1 show ?thesis unfolding es v' by (auto simp add: glyph_cols_append)
qed

lemma consecutive_Cons:
  "c # map (\<lambda>k. (c + 1) + int k) [0..<n] = map (\<lambda>k. c + int k) [0..<Suc n]"
proof -
  have "[0..<Suc n] = 0 # map Suc [0..<n]"
    by (simp add: upt_conv_Cons map_Suc_upt del: upt_Suc)
  then have "map (\<lambda>k. c + int k) [0..<Suc n] = c # map (\<lambda>k. c + int (Suc k)) [0..<n]"
    by (simp add: comp_def del: upt_Suc)
  then show ?thesis by (simp add: add.assoc add.commute)
qed

lemma sampling_loop_glyphs:
  "\<exists>n \<le> length rds.
     glyph_cols ''#'' (fst (sampling_loop fp cfg v rds)) =
       (if memory_flag cfg then map (\<lambda>k. col (memory v) + int k) [0..<n] else [])
     \<and> glyph_cols '':'' (fst (sampling_loop fp cfg v rds)) =
       (if cpu_flag cfg then map (\<lambda>k. col (cpu v) + int k) [0..<n] else [])
     \<and> (\<forall>v'. snd (sampling_loop fp cfg v rds) = Ret v' \<longrightarrow> n = length rds)"
proof (induction rds arbitrary: v)
  case Nil
  show ?case by simp
next
  case (Cons rd rds)
  from sample_tick_total [of fp cfg v rd] show ?case
  proof
    assume "\<exists>es v1. sample_tick fp cfg v rd = (es, Ret v1)"
    then obtain es v1 where t: "sample_tick fp cfg v rd = (es, Ret v1)" by blast
    note g = sample_tick_glyphs_Ret [OF t]
    from Cons.IH [of v1] obtain n where n: "n \<le> length rds"
      and gm: "glyph_cols ''#'' (fst (sampling_loop fp cfg v1 rds)) =
         (if memory_flag cfg then map (\<lambda>k. col (memory v1) + int k) [0..<n] else [])"
      and gc: "glyph_cols '':'' (fst (sampling_loop fp cfg v1 rds)) =
         (if cpu_flag cfg then map (\<lambda>k. col (cpu v1) + int k) [0..<n] else [])"
      and full: "\<forall>v'. snd (sampling_loop fp cfg v1 rds) = Ret v' \<longrightarrow> n = length rds"
      by blast
    have loop: "sampling_loop fp cfg v (rd # rds) =
        (es @ fst (sampling_loop fp cfg v1 rds), snd (sampling_loop fp cfg v1 rds))"
      using t by (simp split: prod.splits)
    have "glyph_cols ''#'' (fst (sampling_loop fp cfg v (rd # rds))) =
       (if memory_flag cfg then map (\<lambda>k. col (memory v) + int k) [0..<Suc n] else [])"
      unfolding loop fst_conv glyph_cols_append gm using g
      by (simp add: consecutive_Cons del: upt_Suc)
    moreover have "glyph_cols '':'' (fst (sampling_loop fp cfg v (rd # rds))) =
       (if cpu_flag cfg then map (\<lambda>k. col (cpu v) + int k) [0..<Suc n] else [])"
      unfolding loop fst_conv glyph_cols_append gc using g
      by (simp add: consecutive_Cons del: upt_Suc)
    moreover have "\<forall>v'. snd (sampling_loop fp cfg v (rd # rds)) = Ret v' \<longrightarrow> Suc n = length (rd # rds)"
      unfolding loop using full by simp
    moreover have "Suc n \<le> length (rd # rds)" using n by simp
    ultimately show ?thesis by blast
  next
    assume "\<exists>es. sample_tick fp cfg v rd = (es, Exit 1)"
    then obtain es where t: "sample_tick fp cfg v rd = (es, Exit 1)" by blast
    have loop: "sampling_loop fp cfg v (rd # rds) = (es, Exit 1)" using t by simp
    have "glyph_cols ''#'' es = []" "glyph_cols '':'' es = []"
      using sample_tick_glyphs_Exit [OF t] by simp_all
    then show ?thesis unfolding loop by (intro exI [of _ 0]) simp
  qed
qed

lemma sampling_loop_returns:
  "\<forall>rd \<in> set rds. \<not> (memory_flag cfg \<and> used_sysinfo rd \<noteq> None \<and> total_sysinfo rd = None)
   \<Longrightarrow> \<exists>es v'. sampling_loop fp cfg v rds = (es, Ret v')"
proof (induction rds arbitrary: v)
  case Nil
  show ?case by simp
next
  case (Cons rd rds)
  have "snd (sample_tick fp cfg v rd) \<noteq> Exit 1"
    using Cons.prems sample_tick_Exit [of fp cfg v rd 1] by simp
  with sample_tick_total [of fp cfg v rd]
  obtain es v1 where t: "sample_tick fp cfg v rd = (es, Ret v1)" by auto
  from Cons.IH [of v1] Cons.prems obtain es' v' where "sampling_loop fp cfg v1 rds = (es', Ret v')"
    by auto
  with t show ?case by simp
qed

lemma sample_tick_memory_events:
  assumes "memory_flag cfg" and "memory_tick fp v rd = (es1, Ret v1)"
  shows "set es1 \<subseteq> set (fst (sample_tick fp cfg v rd))"
proof -
  from cpu_part_Ret [of cfg fp v1 rd] obtain es2 v2 where
    "(if cpu_flag cfg then cpu_tick fp v1 rd else ([], Ret v1)) = (es2, Ret v2)" by blast
  with assms show ?thesis by (auto simp add: sample_tick_def)
qed

lemma sample_tick_cpu_events:
  assumes "cpu_flag cfg" and "sample_tick fp cfg v rd = (es, Ret v')"
    and u: "fst (snd (calculate_cpu_utilization fp (tracker v) (stat rd))) = Finite u"
  shows "At (row (cpu v) - int_of_real (rounded (ld fp) (u / 10)) - 1)
           (col (cpu v)) [Str '':''] \<in> set es"
proof -
  obtain es1 r1 where
    m: "(if memory_flag cfg then memory_tick fp v rd else ([], Ret v)) = (es1, r1)"
    by (cases "if memory_flag cfg then memory_tick fp v rd else ([], Ret v)") auto
  with assms obtain v1 where r1: "r1 = Ret v1"
    by (cases r1) (auto simp add: sample_tick_def)
  have v1: "tracker v1 = tracker v \<and> cpu v1 = cpu v"
  proof (cases "memory_flag cfg")
    case True
    with m r1 memory_tick_glyphs [of fp v rd es1 "Ret v1"] show ?thesis by simp
  next
    case False
    with m r1 show ?thesis by simp
  qed
  from cpu_part_Ret [of cfg fp v1 rd] obtain es2 v2 where
    k: "(if cpu_flag cfg then cpu_tick fp v1 rd else ([], Ret v1)) = (es2, Ret v2)" by blast
  from assms(1,2) m r1 k have "set es2 \<subseteq> set es" and c: "cpu_tick fp v1 rd = (es2, Ret v2)"
    by (auto simp add: sample_tick_def)
  moreover obtain es0 tr where
    "calculate_cpu_utilization fp (tracker v1) (stat rd) = (es0, Finite u, tr)"
    using u v1 by (cases "calculate_cpu_utilization fp (tracker v1) (stat rd)") auto
  then have "At (row (cpu v1) - int_of_real (rounded (ld fp) (u / 10)) - 1)
           (col (cpu v1)) [Str '':''] \<in> set es2"
    using c cpu_tick_Ret [of fp v1 rd es0 u tr] by auto
  ultimately show ?thesis using v1 by auto
qed

lemma int_of_real_truncates:
  "(0 \<le> x \<longrightarrow> real_of_int (int_of_real x) \<le> x \<and> x < real_of_int (int_of_real x) + 1)
   \<and> (x \<le> 0 \<longrightarrow> x \<le> real_of_int (int_of_real x) \<and> real_of_int (int_of_real x) - 1 < x)"
  unfolding int_of_real_def by (auto; linarith)

lemma draw_memory_graph_scale:
  "draw_memory_graph fp r c n si = (es, Ret (pos, r', c', sf)) \<Longrightarrow>
   \<exists>es0 m. get_total_memory fp si = (es0, Ret m) \<and> sf = rounded (ld fp) (m / 10)"
  by (auto simp add: draw_memory_graph_def Let_def split: prod.splits outcome.splits)

lemma sample_tick_memory_glyph:
  assumes t: "sample_tick fp cfg v rd = (es, Ret v')" and f: "memory_flag cfg"
    and c: "calculate_memory_used fp (used_sysinfo rd) (total_sysinfo rd) = (es0, Ret u)"
  shows "At (row (memory v) - int_of_real (rounded (ld fp) (u / scaling_factor v)) - 1)
           (col (memory v)) [Str ''#''] \<in> set es"
proof -
  note m = memory_tick_Ret [OF c, of v]
  have "At (row (memory v) - int_of_real (rounded (ld fp) (u / scaling_factor v)) - 1)
          (col (memory v)) [Str ''#''] \<in> set (fst (memory_tick fp v rd))"
    unfolding m by simp
  moreover have "set (fst (memory_tick fp v rd)) \<subseteq> set (fst (sample_tick fp cfg v rd))"
    using sample_tick_memory_events [OF f, of fp v rd "fst (memory_tick fp v rd)"] m by simp
  ultimately show ?thesis using t by auto
qed

text \<open>
  The example variables are those \<open>main\<close> has at the start of the loop, and one
  iteration on them writes the two readouts and the two glyphs.
\<close>

lemma draw_panels_vars_ex:
  "snd (draw_panels exact_arith cfg_all (Some sysinfo_8G) (Scanned stat_a True)) = Ret vars_ex"
  by (simp add: draw_panels_def cfg_all_def initializeArgument_def draw_memory_graph_def
      get_total_memory_cases draw_cpu_graph_def draw_graph_def Let_def vars0_def
      save_position_def sysinfo_8G_def bytes_to_GiB_def GiB_def vars_ex_def
      calculate_cpu_utilization_def
      tracker0_def stat_a_def currentTotalCPU_def currentIdleCPU_def
      split: prod.splits)

lemma draw_memory_graph_8G:
  "snd (draw_memory_graph exact_arith 2 1 20 (Some sysinfo_8G)) = Ret (\<lparr>row = 2, col = 11\<rparr>, 14, 9, 8 / 10)"
  by (simp add: draw_memory_graph_def get_total_memory_cases draw_graph_def Let_def
      save_position_def sysinfo_8G_def bytes_to_GiB_def GiB_def)

lemma tick_ok_events:
  "sample_tick exact_arith cfg_all vars_ex tick_ok =
     ([At 2 11 [Str ''       ''],
       At 2 11 [Str '' '', Num 2 (11 / 2), Str '' '', Str ''GB''],
       At 6 10 [Str ''#''],
       At 16 8 [Str '' '', Num 2 78, Str '' %          ''],
       At 20 10 [Str '':''],
       Sleep 500000],
      Ret (vars_ex\<lparr>memory := \<lparr>row = 13, col = 11\<rparr>, cpu := \<lparr>row = 28, col = 11\<rparr>,
                   tracker := \<lparr>preTotalCPU = 1100, preIdleCPU = 822,
                               finalTotalCPU = 1100, finalIdleCPU = 822\<rparr>\<rparr>))"
  by (simp add: ex_defs tick_defs)

lemma sampling_loop_stops_at_exit:
  "sampling_loop exact_arith cfg_all vars_ex [tick_no_total, tick_ok] =
     ([Err (''Error: Cannot read system memory information'' @ nl)], Exit 1)"
  by (simp add: ex_defs tick_defs)

text \<open>
  The stages of \<open>main\<close>: an exit in the loop or in the cores block is the exit of
  the program.
\<close>

lemma main_exits_in_loop:
  assumes "length args = n"
    and "processCommandLineArguments n (initializeArgument n args) = (es0, 0, cfg)"
    and "draw_panels (arithmetic h) cfg (graph_sysinfo h) (first_stat h) = (es1, Ret v)"
    and "sampling_loop (arithmetic h) cfg v (map (tick h) [0..<nat (samples cfg)]) = (es2, Exit code)"
  shows "main args h = (es0 @ banner (arithmetic h) cfg @ es1 @ es2, Exit code)"
  using assms by (auto simp add: main_def)

lemma main_exits_in_cores:
  assumes "length args = n"
    and "processCommandLineArguments n (initializeArgument n args) = (es0, 0, cfg)"
    and "draw_panels (arithmetic h) cfg (graph_sysinfo h) (first_stat h) = (es1, Ret v)"
    and "sampling_loop (arithmetic h) cfg v (map (tick h) [0..<nat (samples cfg)]) = (es2, Ret v')"
    and "draw_cores (arithmetic h) cfg (current_row v') (max_freq_file h) (cpuinfo_file h) = (es3, Exit code)"
  shows "main args h = (es0 @ banner (arithmetic h) cfg @ es1 @ es2 @ es3, Exit code)"
  using assms by (auto simp add: main_def)

lemma draw_panels_no_graph:
  "\<not> memory_flag cfg \<Longrightarrow> \<not> cpu_flag cfg \<Longrightarrow>
   draw_panels fp cfg si rd =
     (fst (calculate_cpu_utilization fp tracker0 rd),
      Ret (vars0\<lparr>tracker := snd (snd (calculate_cpu_utilization fp tracker0 rd))\<rparr>))"
  by (simp add: draw_panels_def vars0_def split: prod.splits)

lemma draw_panels_returns:
  "\<exists>es v. draw_panels fp cfg (Some info) rd = (es, Ret v)"
  by (simp add: draw_panels_def draw_memory_graph_def get_total_memory_cases Let_def
      split: prod.splits)

lemma sample_tick_no_graph:
  "\<not> memory_flag cfg \<Longrightarrow> \<not> cpu_flag cfg \<Longrightarrow>
   sample_tick fp cfg v rd = ([Sleep (tdelay cfg mod 2 ^ 32)], Ret v)"
  by (simp add: sample_tick_def)

lemma parse_two_memory:
  "processCommandLineArguments 3 (initializeArgument 3 [''prog'', ''2'', ''--memory'']) =
     ([], 0,
      \<lparr>memory_flag = True, cpu_flag = False, cores_flag = False, samples = 2,
       tdelay = 500000, updated_sample = True, updated_tdelay = False, argc = 3,
       argv = [''prog'', ''2'', ''--memory'']\<rparr>)"
  by (simp add: arg_defs)

lemma main_one_sample_cores:
  "processCommandLineArguments 3 (initializeArgument 3 [''prog'', ''1'', ''--cores'']) =
     ([], 0,
      \<lparr>memory_flag = False, cpu_flag = False, cores_flag = True, samples = 1,
       tdelay = 500000, updated_sample = True, updated_tdelay = False, argc = 3,
       argv = [''prog'', ''1'', ''--cores'']\<rparr>)"
  by (simp add: arg_defs)

text \<open>
  Outside the loop, \<open>main\<close> writes no \<open>#\<close> and no \<open>:\<close> as the whole text of a
  cursor-addressed write, and both panels start at column 10.
\<close>

lemma glyph_cols_map_other:
  "\<forall>x \<in> set xs. ps x \<noteq> [Str g] \<Longrightarrow>
   glyph_cols g (map (\<lambda>x. At (r x) (c x) (ps x)) xs) = []"
  by (induction xs) simp_all

lemma isFlag_no_glyphs: "glyph_cols g (fst (isFlag a i)) = []"
  unfolding isFlag_def Let_def
  by (simp split: prod.splits if_splits)

lemma process_flags_no_glyphs: "glyph_cols g (fst (process_flags n a i)) = []"
proof (induction n a i rule: process_flags.induct)
  case (1 n a i)
  show ?case
  proof (cases "i < n")
    case False
    then show ?thesis by (simp add: process_flags.simps [of n a i])
  next
    case True
    obtain es ok a' where f: "isFlag a i = (es, ok, a')"
      by (cases "isFlag a i") auto
    have g: "glyph_cols g es = []" using isFlag_no_glyphs [of g a i] f by simp
    show ?thesis
    proof (cases ok)
      case False
      with True f g show ?thesis
        by (simp add: process_flags.simps [of n a i] glyph_cols_append)
    next
      case ok: True
      have "glyph_cols g (fst (process_flags n a' (Suc i))) = []"
        using "1.IH" [OF True f [symmetric]] ok by simp
      with True f g ok show ?thesis
        by (auto simp add: process_flags.simps [of n a i] glyph_cols_append split: prod.splits)
    qed
  qed
qed

lemma parser_no_glyphs: "glyph_cols g (fst (processCommandLineArguments n a)) = []"
proof -
  have p: "glyph_cols g (fst (case process_flags n b i of
             (es, rc, a2) \<Rightarrow> if rc = - 1 then (es, - 1, a2) else (es, 0, default_flags a2))) = []"
    for b i
    using process_flags_no_glyphs [of g n b i] by (auto split: prod.splits)
  show ?thesis
    unfolding processCommandLineArguments_def Let_def
    by (simp add: p split: prod.splits)
qed

lemma draw_graph_no_glyphs:
  assumes "g \<noteq> label @ nl" and "Str '' '' # unit \<noteq> [Str g]" and "g \<noteq> ''|'' @ nl"
    and "g \<noteq> hrule"
  shows "glyph_cols g (fst (draw_graph label unit height baseline r0 c0 n)) = []"
proof -
  have bars: "glyph_cols g
      (map (\<lambda>i. At (r0 + 1 + int i) (c0 + 8) [Str (''|'' @ nl)]) [0..<nat height]) = []"
    by (rule glyph_cols_map_other) (use assms(3) in auto)
  have cells: "glyph_cols g
      (map (\<lambda>j. At (r0 + 1 + height) (c0 + 8 + int j) [Str hrule]) xs) = []" for xs
    by (rule glyph_cols_map_other) (use assms(4) in auto)
  show ?thesis
    unfolding draw_graph_def Let_def fst_conv
    using assms(1,2) by (simp add: glyph_cols_append bars bars [simplified] cells del: upt_Suc)
qed

lemma draw_memory_graph_no_glyphs:
  assumes "g = ''#'' \<or> g = '':''"
  shows "glyph_cols g (fst (draw_memory_graph fp r0 c0 n si)) = []"
proof -
  have "glyph_cols g (fst (draw_graph ''v Memory '' [Num 0 m, Str '' GB''] 10 ''0 GB'' r0 c0 n)) = []"
    for m
    by (rule draw_graph_no_glyphs) (use assms in \<open>auto simp add: nl_def hrule_def\<close>)
  then show ?thesis
    by (cases si)
      (simp_all add: draw_memory_graph_def get_total_memory_cases Let_def glyph_cols_append
        case_prod_beta)
qed

lemma draw_cpu_graph_no_glyphs:
  assumes "g = ''#'' \<or> g = '':''"
  shows "glyph_cols g (fst (draw_cpu_graph r0 c0 n)) = []"
  unfolding draw_cpu_graph_def
  by (rule draw_graph_no_glyphs) (use assms in \<open>auto simp add: nl_def hrule_def\<close>)

lemma draw_graph_column: "snd (snd (snd (draw_graph label unit height baseline r0 c0 n))) = c0 + 8"
  by (simp add: draw_graph_def Let_def)

lemma glyph_cols_replicate_Out: "glyph_cols g (replicate k (Out ps)) = []"
  by (induction k) simp_all

lemma change_line_no_glyphs: "glyph_cols g (change_line k) = []"
  by (simp add: change_line_def glyph_cols_replicate_Out)

lemma draw_panels_no_glyphs:
  assumes "g = ''#'' \<or> g = '':''"
  shows "glyph_cols g (fst (draw_panels fp cfg si rd)) = []"
proof -
  note m = draw_memory_graph_no_glyphs [OF assms]
  note c = draw_cpu_graph_no_glyphs [OF assms]
  have u: "glyph_cols g (fst (calculate_cpu_utilization fp tr rd)) = []" for tr
    by (rule calculate_cpu_utilization_events)
  obtain es1 r1 where d: "draw_memory_graph fp (current_row vars0 + 1) (current_column vars0)
      (samples cfg) si = (es1, r1)"
    by (cases "draw_memory_graph fp (current_row vars0 + 1) (current_column vars0) (samples cfg) si")
      auto
  have e1: "glyph_cols g es1 = []"
    using m [of fp "current_row vars0 + 1" "current_column vars0" "samples cfg" si] d by simp
  show ?thesis
    unfolding draw_panels_def d
    using e1 c u
    by (cases r1)
      (simp_all add: glyph_cols_append change_line_no_glyphs case_prod_beta)
qed

lemma draw_memory_graph_defined:
  "snd (draw_memory_graph fp r0 c0 n si) \<noteq> Undefined"
  by (cases si)
    (simp_all add: draw_memory_graph_def get_total_memory_cases Let_def case_prod_beta)

lemma draw_panels_defined:
  "snd (draw_panels fp cfg si rd) \<noteq> Undefined"
  using draw_memory_graph_defined [of fp "current_row vars0 + 1" "current_column vars0"
      "samples cfg" si]
  by (auto simp add: draw_panels_def case_prod_beta split: outcome.splits)

lemma sampling_loop_defined:
  "snd (sampling_loop fp cfg v rds) \<noteq> Undefined"
proof (induction rds arbitrary: v)
  case Nil
  show ?case by simp
next
  case (Cons rd rds)
  from sample_tick_total [of fp cfg v rd] show ?case
  proof
    assume "\<exists>es v1. sample_tick fp cfg v rd = (es, Ret v1)"
    then obtain es v1 where "sample_tick fp cfg v rd = (es, Ret v1)" by blast
    then show ?thesis using Cons.IH [of v1] by (simp add: case_prod_beta)
  next
    assume "\<exists>es. sample_tick fp cfg v rd = (es, Exit 1)"
    then show ?thesis by auto
  qed
qed

lemma draw_cores_defined:
  "snd (draw_cores fp cfg r0 fr ci) \<noteq> Undefined"
  by (cases fr) (simp_all add: draw_cores_def calculate_max_frequency_def case_prod_beta)

lemma draw_panels_columns:
  assumes "draw_panels fp cfg si rd = (es, Ret v)"
  shows "(memory_flag cfg \<longrightarrow> col (memory v) = 10) \<and> (cpu_flag cfg \<longrightarrow> col (cpu v) = 10)"
  using assms
  by (auto simp add: draw_panels_def draw_memory_graph_def draw_cpu_graph_def draw_graph_def
      Let_def vars0_def save_position_def case_prod_beta
      split: outcome.splits if_splits prod.splits)

lemma box_line_no_glyphs:
  "text \<noteq> g \<Longrightarrow> glyph_cols g (box_line n r line_row c0 text) = []"
  by (simp add: box_line_def)

lemma cores_rows_no_glyphs:
  assumes "g = ''#'' \<or> g = '':''"
  shows "glyph_cols g (fst (cores_rows n c0 r0 rs)) = []"
proof (induction rs arbitrary: r0)
  case Nil
  show ?case by simp
next
  case (Cons r rs)
  have t: "box_top \<noteq> g" "box_middle \<noteq> g"
    using assms by (auto simp add: box_top_def box_middle_def hrule_def)
  show ?case
    using Cons [of "r0 + 1"]
    by (simp add: case_prod_beta glyph_cols_append box_line_no_glyphs [OF t(1)]
        box_line_no_glyphs [OF t(2)])
qed

lemma draw_cores_no_glyphs:
  assumes "g = ''#'' \<or> g = '':''"
  shows "glyph_cols g (fst (draw_cores fp cfg r0 fr ci)) = []"
proof -
  have f: "glyph_cols g (fst (calculate_max_frequency fp fr)) = []"
    by (cases fr) (simp_all add: calculate_max_frequency_def)
  have k: "glyph_cols g (fst (calculate_cores ci)) = []"
    by (cases ci) (simp_all add: calculate_cores_def)
  have c: "glyph_cols g (fst (coresGraph n c0 r1 x)) = []" for n c0 r1 x
    by (simp add: coresGraph_def Let_def case_prod_beta cores_rows_no_glyphs [OF assms])
  obtain es r where m: "calculate_max_frequency fp fr = (es, r)"
    by (cases "calculate_max_frequency fp fr") auto
  show ?thesis
    unfolding draw_cores_def m
    using f k c m
    by (cases r) (simp_all add: glyph_cols_append case_prod_beta)
qed

lemma glyph_cols_banner: "glyph_cols g (banner fp cfg) = []"
  by (simp add: banner_def)

lemma main_glyphs:
  assumes g: "g = ''#'' \<or> g = '':''"
    and p: "processCommandLineArguments (length args) (initializeArgument (length args) args) =
      (es0, rc, cfg)"
  shows "glyph_cols g (fst (main args h)) =
     (if rc = - 1 then []
      else case draw_panels (arithmetic h) cfg (graph_sysinfo h) (first_stat h) of
             (es1, Ret v) \<Rightarrow>
               glyph_cols g (fst (sampling_loop (arithmetic h) cfg v
                                    (map (tick h) [0..<nat (samples cfg)])))
           | _ \<Rightarrow> [])"
proof -
  have e0: "glyph_cols g es0 = []"
    using parser_no_glyphs [of g "length args" "initializeArgument (length args) args"] p
    by simp
  obtain es1 r1 where
    d: "draw_panels (arithmetic h) cfg (graph_sysinfo h) (first_stat h) = (es1, r1)"
    by (cases "draw_panels (arithmetic h) cfg (graph_sysinfo h) (first_stat h)") auto
  have e1: "glyph_cols g es1 = []"
    using draw_panels_no_glyphs [OF g, of "arithmetic h" cfg "graph_sysinfo h" "first_stat h"] d
    by simp
  note e3 = draw_cores_no_glyphs [OF g, of "arithmetic h" cfg]
  show ?thesis
  proof (cases r1)
    case (Exit code)
    with p d e0 e1 show ?thesis
      by (simp add: main_def glyph_cols_append glyph_cols_banner)
  next
    case Undefined
    with p d e0 e1 show ?thesis
      by (simp add: main_def glyph_cols_append glyph_cols_banner)
  next
    case (Ret v)
    obtain es2 r2 where
      l: "sampling_loop (arithmetic h) cfg v (map (tick h) [0..<nat (samples cfg)]) = (es2, r2)"
      by (cases "sampling_loop (arithmetic h) cfg v (map (tick h) [0..<nat (samples cfg)])")
        auto
    show ?thesis
    proof (cases r2)
      case Exit
      with p d Ret l e0 e1 show ?thesis
        by (simp add: main_def glyph_cols_append glyph_cols_banner)
    next
      case Undefined
      with p d Ret l e0 e1 show ?thesis
        by (simp add: main_def glyph_cols_append glyph_cols_banner)
    next
      case (Ret v')
      obtain es3 r3 where
        c: "draw_cores (arithmetic h) cfg (current_row v') (max_freq_file h) (cpuinfo_file h) =
          (es3, r3)"
        by (cases "draw_cores (arithmetic h) cfg (current_row v') (max_freq_file h)
                     (cpuinfo_file h)") auto
      have "glyph_cols g es3 = []"
        using e3 [of "current_row v'" "max_freq_file h" "cpuinfo_file h"] c by simp
      with p d \<open>r1 = Ret v\<close> l Ret c e0 e1 show ?thesis
        by (cases r3) (simp_all add: main_def glyph_cols_append glyph_cols_banner)
    qed
  qed
qed

lemma draw_cores_returns:
  "fr \<noteq> FreqScanFailed \<Longrightarrow> \<exists>es pos. draw_cores fp cfg r0 fr ci = (es, Ret pos)"
  by (cases fr) (simp_all add: draw_cores_def calculate_max_frequency_def case_prod_beta)

lemma main_returns:
  assumes p: "processCommandLineArguments (length args) (initializeArgument (length args) args) =
      (es0, rc, cfg)"
    and "rc \<noteq> - 1"
    and "graph_sysinfo h \<noteq> None"
    and "\<forall>i < nat (samples cfg).
           \<not> (memory_flag cfg \<and> used_sysinfo (tick h i) \<noteq> None \<and> total_sysinfo (tick h i) = None)"
    and "max_freq_file h \<noteq> FreqScanFailed"
  shows "snd (main args h) = Ret 0"
proof -
  from assms(3) obtain info where "graph_sysinfo h = Some info" by auto
  with draw_panels_returns [of "arithmetic h" cfg info "first_stat h"]
  obtain es1 v where d: "draw_panels (arithmetic h) cfg (graph_sysinfo h) (first_stat h) = (es1, Ret v)"
    by auto
  have "\<forall>rd \<in> set (map (tick h) [0..<nat (samples cfg)]).
      \<not> (memory_flag cfg \<and> used_sysinfo rd \<noteq> None \<and> total_sysinfo rd = None)"
    using assms(4) by auto
  from sampling_loop_returns [OF this, of "arithmetic h" v] obtain es2 v' where
    l: "sampling_loop (arithmetic h) cfg v (map (tick h) [0..<nat (samples cfg)]) = (es2, Ret v')" by blast
  obtain es3 pos where c: "draw_cores (arithmetic h) cfg (current_row v') (max_freq_file h) (cpuinfo_file h) =
      (es3, Ret pos)"
    using draw_cores_returns [OF assms(5), of "arithmetic h" cfg "current_row v'" "cpuinfo_file h"]
    by blast
  from p assms(2) d l c show ?thesis by (simp add: main_def)
qed

lemma main_Ret_stages:
  assumes p: "processCommandLineArguments (length args) (initializeArgument (length args) args) =
      (es0, rc, cfg)"
    and r: "snd (main args h) = Ret x"
  shows "rc \<noteq> - 1 \<and> (\<exists>es1 v es2 v'.
           draw_panels (arithmetic h) cfg (graph_sysinfo h) (first_stat h) = (es1, Ret v)
           \<and> sampling_loop (arithmetic h) cfg v (map (tick h) [0..<nat (samples cfg)]) = (es2, Ret v'))"
  using r unfolding main_def p
  by (auto split: if_splits prod.splits outcome.splits)

lemma main_columns:
  assumes p: "processCommandLineArguments (length args) (initializeArgument (length args) args) =
      (es0, rc, cfg)"
  shows "glyph_cols ''#'' (fst (main args h)) =
           map (\<lambda>k. 10 + int k) [0..<length (glyph_cols ''#'' (fst (main args h)))]
         \<and> glyph_cols '':'' (fst (main args h)) =
           map (\<lambda>k. 10 + int k) [0..<length (glyph_cols '':'' (fst (main args h)))]
         \<and> (snd (main args h) = Ret 0 \<longrightarrow>
              (memory_flag cfg \<longrightarrow>
                 length (glyph_cols ''#'' (fst (main args h))) = nat (samples cfg))
              \<and> (cpu_flag cfg \<longrightarrow>
                 length (glyph_cols '':'' (fst (main args h))) = nat (samples cfg)))"
proof -
  note gm = main_glyphs [OF _ p, of "''#''" h, simplified]
  note gc = main_glyphs [OF _ p, of "'':''" h, simplified]
  obtain es1 r1 where d: "draw_panels (arithmetic h) cfg (graph_sysinfo h) (first_stat h) = (es1, r1)"
    by (cases "draw_panels (arithmetic h) cfg (graph_sysinfo h) (first_stat h)") auto
  show ?thesis
  proof (cases "rc = - 1 \<or> (\<exists>code. r1 = Exit code)")
    case True
    then have "glyph_cols ''#'' (fst (main args h)) = []" "glyph_cols '':'' (fst (main args h)) = []"
      using gm gc d by auto
    moreover have "snd (main args h) \<noteq> Ret 0"
      using True main_Ret_stages [OF p, of h 0] d by auto
    ultimately show ?thesis by simp
  next
    case False
    then obtain v where v: "r1 = Ret v" and rc: "rc \<noteq> - 1"
      using d draw_panels_defined [of "arithmetic h" cfg "graph_sysinfo h" "first_stat h"]
      by (cases r1) auto
    let ?rds = "map (tick h) [0..<nat (samples cfg)]"
    have m: "glyph_cols ''#'' (fst (main args h)) = glyph_cols ''#'' (fst (sampling_loop (arithmetic h) cfg v ?rds))"
      and c: "glyph_cols '':'' (fst (main args h)) = glyph_cols '':'' (fst (sampling_loop (arithmetic h) cfg v ?rds))"
      using gm gc d v rc by simp_all
    from sampling_loop_glyphs [of ?rds "arithmetic h" cfg v] obtain n where
      lm: "glyph_cols ''#'' (fst (sampling_loop (arithmetic h) cfg v ?rds)) =
         (if memory_flag cfg then map (\<lambda>k. col (memory v) + int k) [0..<n] else [])"
      and lc: "glyph_cols '':'' (fst (sampling_loop (arithmetic h) cfg v ?rds)) =
         (if cpu_flag cfg then map (\<lambda>k. col (cpu v) + int k) [0..<n] else [])"
      and full: "\<forall>v'. snd (sampling_loop (arithmetic h) cfg v ?rds) = Ret v' \<longrightarrow> n = length ?rds"
      by blast
    note cols = draw_panels_columns [OF d [unfolded v]]
    have "n = nat (samples cfg)" if "snd (main args h) = Ret 0"
      using main_Ret_stages [OF p that] d v full by auto
    then show ?thesis unfolding m c lm lc using cols by simp
  qed
qed

lemma parse_two:
  "processCommandLineArguments 2 (initializeArgument 2 [''prog'', ''2'']) =
     ([], 0,
      \<lparr>memory_flag = True, cpu_flag = True, cores_flag = True, samples = 2,
       tdelay = 500000, updated_sample = True, updated_tdelay = False, argc = 2,
       argv = [''prog'', ''2'']\<rparr>)"
  by (simp add: arg_defs)

text \<open>
  C8. In the output of the loop, the columns of the \<open>#\<close> glyphs of the memory panel, in
  the order written, are the panel's column at the start of the loop, that column plus
  1, plus 2 and so on, and likewise the columns of the \<open>:\<close> glyphs of the CPU panel;
  when the loop runs to its end there is one glyph per iteration. In the output of a
  whole run, whatever the arguments and the host, the columns of each kind of glyph are
  10, 11, 12 and so on, and a run that returns has written one glyph per sample for each
  enabled panel. The columns are taken to stay in the range of \<open>int\<close>.
\<close>

theorem write_column_advances_by_one:
  assumes "col (memory v) + int (length rds) \<le> INT_MAX"
    and "col (cpu v) + int (length rds) \<le> INT_MAX"
    and "processCommandLineArguments (length args) (initializeArgument (length args) args) =
      (es0, rc, cfg')"
    and "10 + samples cfg' \<le> INT_MAX"
  shows "(memory_flag cfg \<longrightarrow>
            glyph_cols ''#'' (fst (sampling_loop fp cfg v rds)) =
              map (\<lambda>k. col (memory v) + int k)
                [0..<length (glyph_cols ''#'' (fst (sampling_loop fp cfg v rds)))])
         \<and> (cpu_flag cfg \<longrightarrow>
            glyph_cols '':'' (fst (sampling_loop fp cfg v rds)) =
              map (\<lambda>k. col (cpu v) + int k)
                [0..<length (glyph_cols '':'' (fst (sampling_loop fp cfg v rds)))])
         \<and> (\<forall>v'. snd (sampling_loop fp cfg v rds) = Ret v' \<longrightarrow>
              (memory_flag cfg \<longrightarrow>
                 length (glyph_cols ''#'' (fst (sampling_loop fp cfg v rds))) = length rds)
              \<and> (cpu_flag cfg \<longrightarrow>
                 length (glyph_cols '':'' (fst (sampling_loop fp cfg v rds))) = length rds))
         \<and> glyph_cols ''#'' (fst (main args h)) =
             map (\<lambda>k. 10 + int k) [0..<length (glyph_cols ''#'' (fst (main args h)))]
         \<and> glyph_cols '':'' (fst (main args h)) =
             map (\<lambda>k. 10 + int k) [0..<length (glyph_cols '':'' (fst (main args h)))]
         \<and> (snd (main args h) = Ret 0 \<longrightarrow>
              (memory_flag cfg' \<longrightarrow>
                 length (glyph_cols ''#'' (fst (main args h))) = nat (samples cfg'))
              \<and> (cpu_flag cfg' \<longrightarrow>
                 length (glyph_cols '':'' (fst (main args h))) = nat (samples cfg')))"
proof -
  from sampling_loop_glyphs [of rds fp cfg v] obtain n where
    gm: "glyph_cols ''#'' (fst (sampling_loop fp cfg v rds)) =
       (if memory_flag cfg then map (\<lambda>k. col (memory v) + int k) [0..<n] else [])"
    and gc: "glyph_cols '':'' (fst (sampling_loop fp cfg v rds)) =
       (if cpu_flag cfg then map (\<lambda>k. col (cpu v) + int k) [0..<n] else [])"
    and full: "\<forall>v'. snd (sampling_loop fp cfg v rds) = Ret v' \<longrightarrow> n = length rds"
    by blast
  have loop: "(memory_flag cfg \<longrightarrow>
            glyph_cols ''#'' (fst (sampling_loop fp cfg v rds)) =
              map (\<lambda>k. col (memory v) + int k)
                [0..<length (glyph_cols ''#'' (fst (sampling_loop fp cfg v rds)))])
         \<and> (cpu_flag cfg \<longrightarrow>
            glyph_cols '':'' (fst (sampling_loop fp cfg v rds)) =
              map (\<lambda>k. col (cpu v) + int k)
                [0..<length (glyph_cols '':'' (fst (sampling_loop fp cfg v rds)))])
         \<and> (\<forall>v'. snd (sampling_loop fp cfg v rds) = Ret v' \<longrightarrow>
              (memory_flag cfg \<longrightarrow>
                 length (glyph_cols ''#'' (fst (sampling_loop fp cfg v rds))) = length rds)
              \<and> (cpu_flag cfg \<longrightarrow>
                 length (glyph_cols '':'' (fst (sampling_loop fp cfg v rds))) = length rds))"
    unfolding gm gc using full by simp
  from loop main_columns [OF assms(3), of h] show ?thesis by blast
qed

theorem write_column_advances_by_one_witness:
  "col (memory vars_ex) + int (length [tick_ok, tick_no_reads, tick_ok]) \<le> INT_MAX
   \<and> col (cpu vars_ex) + int (length [tick_ok, tick_no_reads, tick_ok]) \<le> INT_MAX
   \<and> memory_flag cfg_all \<and> cpu_flag cfg_all
   \<and> glyph_cols ''#'' (fst (sampling_loop exact_arith cfg_all vars_ex [tick_ok, tick_no_reads, tick_ok])) =
       [10, 11, 12]
   \<and> glyph_cols '':'' (fst (sampling_loop exact_arith cfg_all vars_ex [tick_ok, tick_no_reads, tick_ok])) =
       [10, 11, 12]
   \<and> snd (main [''prog'', ''2''] host_ok) = Ret 0
   \<and> glyph_cols ''#'' (fst (main [''prog'', ''2''] host_ok)) = [10, 11]
   \<and> glyph_cols '':'' (fst (main [''prog'', ''2''] host_ok)) = [10, 11]"
proof -
  let ?cfg = "\<lparr>memory_flag = True, cpu_flag = True, cores_flag = True, samples = 2,
       tdelay = 500000, updated_sample = True, updated_tdelay = False, argc = 2,
       argv = [''prog'', ''2'']\<rparr>"
  have r: "col (memory vars_ex) + int (length [tick_ok, tick_no_reads, tick_ok]) \<le> INT_MAX"
    "col (cpu vars_ex) + int (length [tick_ok, tick_no_reads, tick_ok]) \<le> INT_MAX"
    by (simp_all add: vars_ex_def INT_MAX_def)
  have f: "memory_flag cfg_all" "cpu_flag cfg_all" by (simp_all add: ex_defs)
  have ret: "\<exists>v'. snd (sampling_loop exact_arith cfg_all vars_ex [tick_ok, tick_no_reads, tick_ok]) = Ret v'"
    by (simp add: ex_defs tick_defs)
  have p: "processCommandLineArguments (length [''prog'', ''2''])
      (initializeArgument (length [''prog'', ''2'']) [''prog'', ''2'']) = ([], 0, ?cfg)"
    using parse_two by (simp add: numeral_2_eq_2)
  have s: "10 + samples ?cfg \<le> INT_MAX" by (simp add: INT_MAX_def)
  have m0: "snd (main [''prog'', ''2''] host_ok) = Ret 0"
    by (rule main_returns [OF p]) (simp_all add: host_ok_def tick_ok_def)
  define es where "es = fst (sampling_loop exact_arith cfg_all vars_ex [tick_ok, tick_no_reads, tick_ok])"
  define ms where "ms = fst (main [''prog'', ''2''] host_ok)"
  note t = write_column_advances_by_one
    [OF r p s, of cfg_all exact_arith host_ok, folded es_def ms_def]
  from t f have m: "glyph_cols ''#'' es =
      map (\<lambda>k. col (memory vars_ex) + int k) [0..<length (glyph_cols ''#'' es)]"
    and c: "glyph_cols '':'' es =
      map (\<lambda>k. col (cpu vars_ex) + int k) [0..<length (glyph_cols '':'' es)]"
    by blast+
  from t f ret have "length (glyph_cols ''#'' es) = length [tick_ok, tick_no_reads, tick_ok]"
    and "length (glyph_cols '':'' es) = length [tick_ok, tick_no_reads, tick_ok]"
    by blast+
  then have lm: "length (glyph_cols ''#'' es) = 3" and lc: "length (glyph_cols '':'' es) = 3"
    by simp_all
  from t have mm: "glyph_cols ''#'' ms = map (\<lambda>k. 10 + int k) [0..<length (glyph_cols ''#'' ms)]"
    and mc: "glyph_cols '':'' ms = map (\<lambda>k. 10 + int k) [0..<length (glyph_cols '':'' ms)]"
    by blast+
  from t m0 have "length (glyph_cols ''#'' ms) = nat (samples ?cfg)"
    and "length (glyph_cols '':'' ms) = nat (samples ?cfg)"
    by simp_all
  then have lmm: "length (glyph_cols ''#'' ms) = 2" and lmc: "length (glyph_cols '':'' ms) = 2"
    by simp_all
  have up: "[0..<3] = [0, 1, 2]" "[0..<2] = [0, 1]" by (simp_all add: upt_rec)
  have "glyph_cols ''#'' es = [10, 11, 12]"
    by (subst m, subst lm, subst up) (simp add: vars_ex_def)
  moreover have "glyph_cols '':'' es = [10, 11, 12]"
    by (subst c, subst lc, subst up) (simp add: vars_ex_def)
  moreover have "glyph_cols ''#'' ms = [10, 11]"
    by (subst mm, subst lmm, subst up) simp
  moreover have "glyph_cols '':'' ms = [10, 11]"
    by (subst mc, subst lmc, subst up) simp
  ultimately show ?thesis using r f m0 unfolding es_def ms_def by simp
qed

lemma sample_tick_read_failures:
  "(snd (sample_tick fp cfg v rd) = Exit 1) =
     (memory_flag cfg \<and> used_sysinfo rd \<noteq> None \<and> total_sysinfo rd = None)
   \<and> (\<not> (memory_flag cfg \<and> used_sysinfo rd \<noteq> None \<and> total_sysinfo rd = None) \<longrightarrow>
        (\<exists>es v'. sample_tick fp cfg v rd = (es, Ret v')))
   \<and> (memory_flag cfg \<and> used_sysinfo rd = None \<and> scaling_factor v \<noteq> 0 \<longrightarrow>
        At (row (memory v) - 1) (col (memory v)) [Str ''#''] \<in> set (fst (sample_tick fp cfg v rd))
        \<and> (\<exists>v'. snd (sample_tick fp cfg v rd) = Ret v' \<and> col (memory v') = col (memory v) + 1))
   \<and> (cpu_flag cfg \<and> stat rd = OpenFailed
        \<and> \<not> (memory_flag cfg \<and> used_sysinfo rd \<noteq> None \<and> total_sysinfo rd = None) \<longrightarrow>
        At (row (cpu v) - 1) (col (cpu v)) [Str '':''] \<in> set (fst (sample_tick fp cfg v rd))
        \<and> (\<exists>v'. snd (sample_tick fp cfg v rd) = Ret v' \<and> col (cpu v') = col (cpu v) + 1))
   \<and> ((\<forall>rd \<in> set rds.
          \<not> (memory_flag cfg \<and> used_sysinfo rd \<noteq> None \<and> total_sysinfo rd = None)) \<longrightarrow>
        (\<exists>es v'. sampling_loop fp cfg v rds = (es, Ret v')))"
proof -
  let ?bad = "memory_flag cfg \<and> used_sysinfo rd \<noteq> None \<and> total_sysinfo rd = None"
  have a: "(snd (sample_tick fp cfg v rd) = Exit 1) = ?bad"
    using sample_tick_Exit [of fp cfg v rd 1] by simp
  have b: "\<exists>es v'. sample_tick fp cfg v rd = (es, Ret v')" if "\<not> ?bad"
    using that a sample_tick_total [of fp cfg v rd] by auto
  have c: "At (row (memory v) - 1) (col (memory v)) [Str ''#''] \<in> set (fst (sample_tick fp cfg v rd))
        \<and> (\<exists>v'. snd (sample_tick fp cfg v rd) = Ret v' \<and> col (memory v') = col (memory v) + 1)"
    if h: "memory_flag cfg" "used_sysinfo rd = None"
  proof -
    from h b obtain es v' where t: "sample_tick fp cfg v rd = (es, Ret v')" by auto
    have m: "memory_tick fp v rd = (fst (memory_tick fp v rd),
               Ret (v\<lparr>memory := (memory v)\<lparr>col := col (memory v) + 1\<rparr>\<rparr>))"
      using memory_tick_cases(1) [OF h(2), of fp v] by simp
    have "At (row (memory v) - 1) (col (memory v)) [Str ''#''] \<in> set (fst (memory_tick fp v rd))"
      using memory_tick_cases(1) [OF h(2), of fp v] by simp
    then have "At (row (memory v) - 1) (col (memory v)) [Str ''#''] \<in> set es"
      using sample_tick_memory_events [OF h(1) m] t by auto
    moreover have "col (memory v') = col (memory v) + 1"
      using sample_tick_glyphs_Ret [OF t] h(1) by simp
    ultimately show ?thesis using t by simp
  qed
  have d: "At (row (cpu v) - 1) (col (cpu v)) [Str '':''] \<in> set (fst (sample_tick fp cfg v rd))
        \<and> (\<exists>v'. snd (sample_tick fp cfg v rd) = Ret v' \<and> col (cpu v') = col (cpu v) + 1)"
    if h: "cpu_flag cfg" "stat rd = OpenFailed" "\<not> ?bad"
  proof -
    from h b obtain es v' where t: "sample_tick fp cfg v rd = (es, Ret v')" by auto
    have "fst (snd (calculate_cpu_utilization fp (tracker v) (stat rd))) = Finite 0"
      using h(2) by (simp add: calculate_cpu_utilization_def)
    from sample_tick_cpu_events [OF h(1) t this]
    have "At (row (cpu v) - 1) (col (cpu v)) [Str '':''] \<in> set es"
      by (simp add: int_of_real_def)
    moreover have "col (cpu v') = col (cpu v) + 1"
      using sample_tick_glyphs_Ret [OF t] h(1) by simp
    ultimately show ?thesis using t by simp
  qed
  note e = sampling_loop_returns [of rds cfg fp v]
  from a b c d e show ?thesis by blast
qed

lemma sampling_loop_exits:
  "\<exists>rd \<in> set rds. memory_flag cfg \<and> used_sysinfo rd \<noteq> None \<and> total_sysinfo rd = None
   \<Longrightarrow> \<exists>es. sampling_loop fp cfg v rds = (es, Exit 1)"
proof (induction rds arbitrary: v)
  case Nil
  then show ?case by simp
next
  case (Cons rd rds)
  from sample_tick_total [of fp cfg v rd] show ?case
  proof
    assume "\<exists>es v1. sample_tick fp cfg v rd = (es, Ret v1)"
    then obtain es v1 where t: "sample_tick fp cfg v rd = (es, Ret v1)" by blast
    then have "\<not> (memory_flag cfg \<and> used_sysinfo rd \<noteq> None \<and> total_sysinfo rd = None)"
      using sample_tick_Exit [of fp cfg v rd 1] by auto
    with Cons.prems have
      "\<exists>rd \<in> set rds. memory_flag cfg \<and> used_sysinfo rd \<noteq> None \<and> total_sysinfo rd = None"
      by auto
    from Cons.IH [OF this, of v1] obtain es' where "sampling_loop fp cfg v1 rds = (es', Exit 1)"
      by blast
    with t show ?thesis by simp
  next
    assume "\<exists>es. sample_tick fp cfg v rd = (es, Exit 1)"
    then show ?thesis by auto
  qed
qed

lemma main_exits_in_bad_tick:
  assumes p: "processCommandLineArguments (length args) (initializeArgument (length args) args) =
      (es0, rc, cfg)"
    and "rc \<noteq> - 1"
    and "graph_sysinfo h \<noteq> None"
    and "\<exists>i < nat (samples cfg).
           memory_flag cfg \<and> used_sysinfo (tick h i) \<noteq> None \<and> total_sysinfo (tick h i) = None"
  shows "snd (main args h) = Exit 1"
proof -
  from assms(3) obtain info where "graph_sysinfo h = Some info" by auto
  with draw_panels_returns [of "arithmetic h" cfg info "first_stat h"]
  obtain es1 v where d: "draw_panels (arithmetic h) cfg (graph_sysinfo h) (first_stat h) = (es1, Ret v)"
    by auto
  have "\<exists>rd \<in> set (map (tick h) [0..<nat (samples cfg)]).
      memory_flag cfg \<and> used_sysinfo rd \<noteq> None \<and> total_sysinfo rd = None"
    using assms(4) by auto
  from sampling_loop_exits [OF this, of "arithmetic h" v] obtain es2 where
    l: "sampling_loop (arithmetic h) cfg v (map (tick h) [0..<nat (samples cfg)]) = (es2, Exit 1)" by blast
  from p assms(2) d l show ?thesis by (simp add: main_def)
qed

lemma main_exits_on_scan_failure:
  assumes p: "processCommandLineArguments (length args) (initializeArgument (length args) args) =
      (es0, rc, cfg)"
    and "rc \<noteq> - 1"
    and "graph_sysinfo h \<noteq> None"
    and "\<forall>i < nat (samples cfg).
           \<not> (memory_flag cfg \<and> used_sysinfo (tick h i) \<noteq> None \<and> total_sysinfo (tick h i) = None)"
    and "cores_flag cfg" and "max_freq_file h = FreqScanFailed"
  shows "snd (main args h) = Exit 1"
proof -
  from assms(3) obtain info where "graph_sysinfo h = Some info" by auto
  with draw_panels_returns [of "arithmetic h" cfg info "first_stat h"]
  obtain es1 v where d: "draw_panels (arithmetic h) cfg (graph_sysinfo h) (first_stat h) = (es1, Ret v)"
    by auto
  have "\<forall>rd \<in> set (map (tick h) [0..<nat (samples cfg)]).
      \<not> (memory_flag cfg \<and> used_sysinfo rd \<noteq> None \<and> total_sysinfo rd = None)"
    using assms(4) by auto
  from sampling_loop_returns [OF this, of "arithmetic h" v] obtain es2 v' where
    l: "sampling_loop (arithmetic h) cfg v (map (tick h) [0..<nat (samples cfg)]) = (es2, Ret v')" by blast
  have c: "draw_cores (arithmetic h) cfg (current_row v') (max_freq_file h) (cpuinfo_file h) =
      ([Err (''Error: failed to calculate max frequency'' @ nl)], Exit 1)"
    using assms(5,6) by (simp add: draw_cores_def calculate_max_frequency_def)
  from p assms(2) d l c show ?thesis by (simp add: main_def)
qed

lemma parse_two_length:
  "processCommandLineArguments (length [''prog'', ''2''])
      (initializeArgument (length [''prog'', ''2'']) [''prog'', ''2'']) =
     ([], 0,
      \<lparr>memory_flag = True, cpu_flag = True, cores_flag = True, samples = 2,
       tdelay = 500000, updated_sample = True, updated_tdelay = False, argc = 2,
       argv = [''prog'', ''2'']\<rparr>)"
  using parse_two by (simp add: numeral_2_eq_2)

text \<open>
  C4, as the code has it. An iteration ends the program, with exit status 1, exactly
  when the memory panel is enabled and the \<open>sysinfo\<close> call inside
  \<open>get_total_memory\<close> fails after the call of \<open>calculate_memory_used\<close> itself
  succeeded. In every other case the iteration completes, and a loop without such a
  failure runs to its end. When the \<open>sysinfo\<close> call of \<open>calculate_memory_used\<close> fails,
  the memory panel still writes its glyph, for the value 0, and advances its column; when
  \<open>/proc/stat\<close> cannot be opened, the CPU panel does the same. For a whole run whose
  arguments are accepted, whose first \<open>sysinfo\<close> call succeeds and whose frequency file
  can be scanned or cannot be opened: the program ends with exit status 1 when one of its
  iterations has that failure, and returns 0 otherwise.
\<close>

theorem read_failures_in_a_tick:
  "(snd (sample_tick fp cfg v rd) = Exit 1) =
     (memory_flag cfg \<and> used_sysinfo rd \<noteq> None \<and> total_sysinfo rd = None)
   \<and> (\<not> (memory_flag cfg \<and> used_sysinfo rd \<noteq> None \<and> total_sysinfo rd = None) \<longrightarrow>
        (\<exists>es v'. sample_tick fp cfg v rd = (es, Ret v')))
   \<and> (memory_flag cfg \<and> used_sysinfo rd = None \<and> scaling_factor v \<noteq> 0 \<longrightarrow>
        At (row (memory v) - 1) (col (memory v)) [Str ''#'']
          \<in> set (fst (sample_tick fp cfg v rd))
        \<and> (\<exists>v'. snd (sample_tick fp cfg v rd) = Ret v'
                  \<and> col (memory v') = col (memory v) + 1))
   \<and> (cpu_flag cfg \<and> stat rd = OpenFailed
        \<and> \<not> (memory_flag cfg \<and> used_sysinfo rd \<noteq> None \<and> total_sysinfo rd = None) \<longrightarrow>
        At (row (cpu v) - 1) (col (cpu v)) [Str '':''] \<in> set (fst (sample_tick fp cfg v rd))
        \<and> (\<exists>v'. snd (sample_tick fp cfg v rd) = Ret v' \<and> col (cpu v') = col (cpu v) + 1))
   \<and> ((\<forall>rd \<in> set rds.
          \<not> (memory_flag cfg \<and> used_sysinfo rd \<noteq> None \<and> total_sysinfo rd = None)) \<longrightarrow>
        (\<exists>es v'. sampling_loop fp cfg v rds = (es, Ret v')))
   \<and> (processCommandLineArguments (length args) (initializeArgument (length args) args) =
         (es0, rc, cfg')
        \<and> rc \<noteq> - 1 \<and> graph_sysinfo h \<noteq> None \<and> max_freq_file h \<noteq> FreqScanFailed \<longrightarrow>
        snd (main args h) =
          (if \<exists>i < nat (samples cfg').
                memory_flag cfg' \<and> used_sysinfo (tick h i) \<noteq> None
                \<and> total_sysinfo (tick h i) = None
           then Exit 1 else Ret 0))"
proof -
  have "snd (main args h) =
          (if \<exists>i < nat (samples cfg').
                memory_flag cfg' \<and> used_sysinfo (tick h i) \<noteq> None
                \<and> total_sysinfo (tick h i) = None
           then Exit 1 else Ret 0)"
    if p: "processCommandLineArguments (length args) (initializeArgument (length args) args) =
         (es0, rc, cfg')"
      and q: "rc \<noteq> - 1" "graph_sysinfo h \<noteq> None" "max_freq_file h \<noteq> FreqScanFailed"
  proof (cases "\<exists>i < nat (samples cfg').
                memory_flag cfg' \<and> used_sysinfo (tick h i) \<noteq> None
                \<and> total_sysinfo (tick h i) = None")
    case True
    then show ?thesis using main_exits_in_bad_tick [OF p q(1,2)] by simp
  next
    case False
    then show ?thesis using main_returns [OF p q(1,2) _ q(3)] by simp
  qed
  with sample_tick_read_failures [of fp cfg v rd rds] show ?thesis by blast
qed

theorem read_failures_in_a_tick_witness:
  "memory_flag cfg_all \<and> cpu_flag cfg_all
   \<and> used_sysinfo tick_no_reads = None \<and> stat tick_no_reads = OpenFailed
   \<and> scaling_factor vars_ex \<noteq> 0
   \<and> snd (sample_tick exact_arith cfg_all vars_ex tick_no_reads) \<noteq> Exit 1
   \<and> At 12 10 [Str ''#''] \<in> set (fst (sample_tick exact_arith cfg_all vars_ex tick_no_reads))
   \<and> At 27 10 [Str '':''] \<in> set (fst (sample_tick exact_arith cfg_all vars_ex tick_no_reads))
   \<and> (\<exists>es v'. sampling_loop exact_arith cfg_all vars_ex [tick_no_reads, tick_ok] = (es, Ret v'))
   \<and> graph_sysinfo (host_ok\<lparr>tick := (\<lambda>i. tick_no_reads)\<rparr>) \<noteq> None
   \<and> max_freq_file (host_ok\<lparr>tick := (\<lambda>i. tick_no_reads)\<rparr>) \<noteq> FreqScanFailed
   \<and> snd (main [''prog'', ''2''] (host_ok\<lparr>tick := (\<lambda>i. tick_no_reads)\<rparr>)) = Ret 0"
proof -
  let ?h = "host_ok\<lparr>tick := (\<lambda>i. tick_no_reads)\<rparr>"
  have h: "memory_flag cfg_all" "cpu_flag cfg_all" "used_sysinfo tick_no_reads = None"
    "stat tick_no_reads = OpenFailed" "scaling_factor vars_ex \<noteq> 0"
    by (simp_all add: ex_defs)
  have l: "\<forall>rd \<in> set [tick_no_reads, tick_ok].
          \<not> (memory_flag cfg_all \<and> used_sysinfo rd \<noteq> None \<and> total_sysinfo rd = None)"
    by (simp add: ex_defs)
  have p: "row (memory vars_ex) - 1 = 12" "col (memory vars_ex) = 10"
    "row (cpu vars_ex) - 1 = 27" "col (cpu vars_ex) = 10"
    by (simp_all add: vars_ex_def)
  have g: "graph_sysinfo ?h \<noteq> None" "max_freq_file ?h \<noteq> FreqScanFailed"
    by (simp_all add: host_ok_def)
  note t = read_failures_in_a_tick
      [of exact_arith cfg_all vars_ex tick_no_reads "[tick_no_reads, tick_ok]"
        "[''prog'', ''2'']" "[]" 0 _ ?h]
  from t h have a: "snd (sample_tick exact_arith cfg_all vars_ex tick_no_reads) \<noteq> Exit 1" by blast
  from t h have "At (row (memory vars_ex) - 1) (col (memory vars_ex)) [Str ''#'']
      \<in> set (fst (sample_tick exact_arith cfg_all vars_ex tick_no_reads))" by blast
  then have b: "At 12 10 [Str ''#''] \<in> set (fst (sample_tick exact_arith cfg_all vars_ex tick_no_reads))"
    unfolding p .
  from t h have "At (row (cpu vars_ex) - 1) (col (cpu vars_ex)) [Str '':'']
      \<in> set (fst (sample_tick exact_arith cfg_all vars_ex tick_no_reads))" by blast
  then have c: "At 27 10 [Str '':''] \<in> set (fst (sample_tick exact_arith cfg_all vars_ex tick_no_reads))"
    unfolding p .
  from t l have d: "\<exists>es v'. sampling_loop exact_arith cfg_all vars_ex [tick_no_reads, tick_ok] = (es, Ret v')"
    by blast
  from t parse_two_length g have "snd (main [''prog'', ''2''] ?h) =
      (if \<exists>i < nat 2. used_sysinfo (tick ?h i) \<noteq> None \<and> total_sysinfo (tick ?h i) = None
       then Exit 1 else Ret 0)"
    by simp
  then have e: "snd (main [''prog'', ''2''] ?h) = Ret 0"
    by (simp add: tick_no_reads_def)
  from h a b c d g e show ?thesis by blast
qed

text \<open>
  C4 as stated fails: in a run of two samples of the memory panel, a failure of the
  \<open>sysinfo\<close> call inside \<open>get_total_memory\<close> during the second sample ends the
  program with exit status 1.
\<close>

theorem read_failures_in_a_tick_counterexample:
  "snd (main [''prog'', ''2'', ''--memory''] host_no_total) = Exit 1"
proof -
  let ?cfg = "\<lparr>memory_flag = True, cpu_flag = False, cores_flag = False, samples = 2,
       tdelay = 500000, updated_sample = True, updated_tdelay = False, argc = 3,
       argv = [''prog'', ''2'', ''--memory'']\<rparr>"
  let ?h = "host_ok\<lparr>tick := (\<lambda>i. if i = 0 then tick_ok else tick_no_total)\<rparr>"
  obtain es1 v where p: "draw_panels (arithmetic ?h) ?cfg (graph_sysinfo ?h) (first_stat ?h) = (es1, Ret v)"
    using draw_panels_returns [of "arithmetic ?h" ?cfg sysinfo_8G "first_stat ?h"]
    by (auto simp add: host_ok_def)
  have ticks: "map (tick ?h) [0..<nat (samples ?cfg)] = [tick_ok, tick_no_total]"
    by (simp add: upt_rec)
  have "\<not> (memory_flag ?cfg \<and> used_sysinfo tick_ok \<noteq> None \<and> total_sysinfo tick_ok = None)"
    by (simp add: tick_ok_def)
  then obtain es v1 where t1: "sample_tick (arithmetic ?h) ?cfg v tick_ok = (es, Ret v1)"
    using sample_tick_total [of "arithmetic ?h" ?cfg v tick_ok]
      sample_tick_Exit [of "arithmetic ?h" ?cfg v tick_ok 1] by auto
  have "snd (sample_tick (arithmetic ?h) ?cfg v1 tick_no_total) = Exit 1"
    using sample_tick_Exit [of "arithmetic ?h" ?cfg v1 tick_no_total 1]
    by (simp add: tick_no_total_def)
  then obtain es' where t2: "sample_tick (arithmetic ?h) ?cfg v1 tick_no_total = (es', Exit 1)"
    by (cases "sample_tick (arithmetic ?h) ?cfg v1 tick_no_total") auto
  have l: "sampling_loop (arithmetic ?h) ?cfg v (map (tick ?h) [0..<nat (samples ?cfg)]) = (es @ es', Exit 1)"
    unfolding ticks using t1 t2 by simp
  show ?thesis
    unfolding host_no_total_def
    by (subst main_exits_in_loop [OF _ parse_two_memory p l]) simp_all
qed

text \<open>
  The run \<open>prog 1 --cpu\<close> in the x87 arithmetic. Between \<open>stat_a\<close> and \<open>stat_f\<close> the
  busy time grows by 21 and the total by 10. The quotient 21 / 10 is no value of the
  format and is rounded down; its product with 100 is rounded to the value just below
  210, and the tenth of that to a value just below 21: the glyph is written at offset 20,
  in row -6, where the numbers 210 and 21 would put it at offset 21.
\<close>

lemma parse_one_cpu:
  "processCommandLineArguments 3 (initializeArgument 3 [''prog'', ''1'', ''--cpu'']) =
     ([], 0, cfg_cpu)"
  by (simp add: arg_defs cfg_cpu_def)

lemma draw_panels_vars_cpu:
  "snd (draw_panels x87_arith cfg_cpu (Some sysinfo_8G) (Scanned stat_a True)) = Ret vars_cpu"
  by (simp add: draw_panels_def cfg_cpu_def initializeArgument_def draw_cpu_graph_def
      draw_graph_def Let_def vars0_def save_position_def vars_cpu_def
      calculate_cpu_utilization_def tracker0_def x87_snapshots
      split: prod.splits)

lemma x87_ratio: "fdiv x87_arith 21 10 = Finite (4842270319348757299 / 2305843009213693952)"
proof -
  have "round_to 64 (21 / 10) = 4842270319348757299 / 2305843009213693952"
    by (subst round_to_eval [where e = 1]) (simp_all add: round_even_def powr_minus)
  then show ?thesis by (simp add: fdiv_def rounded_def)
qed

lemma x87_percent:
  "fmul x87_arith (4842270319348757299 / 2305843009213693952) 100
     = 15132094747964866559 / 72057594037927936"
proof -
  have "round_to 64 (4842270319348757299 / 2305843009213693952 * 100)
          = 15132094747964866559 / 72057594037927936"
    by (subst round_to_eval [where e = 7]) (simp_all add: round_even_def powr_minus)
  then show ?thesis by (simp add: fmul_def rounded_def)
qed

lemma x87_tenth:
  "rounded (ld x87_arith) (15132094747964866559 / 72057594037927936 / 10)
     = 12105675798371893247 / 576460752303423488"
proof -
  have "round_to 64 (15132094747964866559 / 72057594037927936 / 10)
          = 12105675798371893247 / 576460752303423488"
    by (subst round_to_eval [where e = 4]) (simp_all add: round_even_def powr_minus)
  then show ?thesis by (simp add: rounded_def)
qed

lemma x87_below:
  "(15132094747964866559 / 72057594037927936 :: real) < 210"
  "210 - 1 / 2 ^ 56 = (15132094747964866559 / 72057594037927936 :: real)"
  "(12105675798371893247 / 576460752303423488 :: real) < 21"
  "int_of_real (12105675798371893247 / 576460752303423488) = 20"
  by (simp_all add: int_of_real_def)

lemma stat_f_utilization:
  "calculate_cpu_utilization x87_arith (tracker vars_cpu) (Scanned stat_f True) =
     ([], Finite (15132094747964866559 / 72057594037927936),
      \<lparr>preTotalCPU = 1010, preIdleCPU = 789, finalTotalCPU = 1010, finalIdleCPU = 789\<rparr>)"
  by (simp add: calculate_cpu_utilization_def Let_def vars_cpu_def tracker0_def x87_snapshots
      fsub_def round_to_numeral x87_ratio x87_percent)

lemma tick_f_events:
  "sample_tick x87_arith cfg_cpu vars_cpu tick_f =
     ([At 3 8 [Str '' '', Num 2 (15132094747964866559 / 72057594037927936),
               Str '' %          ''],
       At (- 6) 10 [Str '':''],
       Sleep 500000],
      Ret (vars_cpu\<lparr>tracker := \<lparr>preTotalCPU = 1010, preIdleCPU = 789,
                                 finalTotalCPU = 1010, finalIdleCPU = 789\<rparr>,
                    cpu := \<lparr>row = 15, col = 11\<rparr>\<rparr>))"
proof -
  have s: "stat tick_f = Scanned stat_f True" by (simp add: tick_f_def)
  have c: "cpu_tick x87_arith vars_cpu tick_f =
     ([At 3 8 [Str '' '', Num 2 (15132094747964866559 / 72057594037927936),
               Str '' %          ''],
       At (- 6) 10 [Str '':'']],
      Ret (vars_cpu\<lparr>tracker := \<lparr>preTotalCPU = 1010, preIdleCPU = 789,
                                 finalTotalCPU = 1010, finalIdleCPU = 789\<rparr>,
                    cpu := \<lparr>row = 15, col = 11\<rparr>\<rparr>))"
    using cpu_tick_Ret [of x87_arith vars_cpu tick_f, unfolded s, OF stat_f_utilization]
    unfolding x87_tenth
    by (simp add: vars_cpu_def vars0_def save_position_def int_of_real_def)
  show ?thesis
    by (simp add: sample_tick_def c cfg_cpu_def initializeArgument_def)
qed

lemma main_x87_glyph:
  "At (- 6) 10 [Str '':''] \<in> set (fst (main [''prog'', ''1'', ''--cpu''] host_x87))
   \<and> glyph_cols '':'' (fst (main [''prog'', ''1'', ''--cpu''] host_x87)) = [10]
   \<and> snd (main [''prog'', ''1'', ''--cpu''] host_x87) = Ret 0"
proof -
  let ?h = host_x87
  have h: "arithmetic ?h = x87_arith" "graph_sysinfo ?h = Some sysinfo_8G"
    "first_stat ?h = Scanned stat_a True" "tick ?h = (\<lambda>i. tick_f)"
    by (simp_all add: host_x87_def host_ok_def)
  have p: "processCommandLineArguments (length [''prog'', ''1'', ''--cpu''])
      (initializeArgument (length [''prog'', ''1'', ''--cpu'']) [''prog'', ''1'', ''--cpu'']) =
        ([], 0, cfg_cpu)"
    using parse_one_cpu by (simp add: numeral_3_eq_3)
  obtain es1 where d: "draw_panels x87_arith cfg_cpu (Some sysinfo_8G) (Scanned stat_a True) =
      (es1, Ret vars_cpu)"
    using draw_panels_vars_cpu
    by (cases "draw_panels x87_arith cfg_cpu (Some sysinfo_8G) (Scanned stat_a True)") auto
  have n: "map (\<lambda>i. tick_f) [0..<nat (samples cfg_cpu)] = [tick_f]"
    by (simp add: cfg_cpu_def)
  have c: "draw_cores x87_arith cfg_cpu r0 fr ci = ([], Ret (save_position r0 1))" for r0 fr ci
    by (simp add: draw_cores_def cfg_cpu_def initializeArgument_def)
  define v2 where "v2 = vars_cpu\<lparr>tracker := \<lparr>preTotalCPU = 1010, preIdleCPU = 789,
                                             finalTotalCPU = 1010, finalIdleCPU = 789\<rparr>,
                                cpu := \<lparr>row = 15, col = 11\<rparr>\<rparr>"
  define es2 where "es2 = fst (sample_tick x87_arith cfg_cpu vars_cpu tick_f)"
  have t: "sample_tick x87_arith cfg_cpu vars_cpu tick_f = (es2, Ret v2)"
    by (simp add: tick_f_events v2_def es2_def)
  have r: "current_row v2 = 16" by (simp add: v2_def vars_cpu_def)
  have m: "main [''prog'', ''1'', ''--cpu''] ?h =
     (banner x87_arith cfg_cpu @ es1 @ es2 @ [At 16 1 []], Ret 0)"
    unfolding main_def p h
    by (simp add: d c t r n save_position_def)
  have g: "glyph_cols '':'' (banner x87_arith cfg_cpu @ es1) = []"
    using draw_panels_no_glyphs [of "'':''" x87_arith cfg_cpu "Some sysinfo_8G"
        "Scanned stat_a True"] d
    by (simp add: glyph_cols_append glyph_cols_banner)
  show ?thesis
    unfolding m using g by (simp add: es2_def tick_f_events glyph_cols_append)
qed

text \<open>
  The iteration of both panels in the x87 arithmetic. The total memory 8, the free memory
  5 / 2 and the used memory 11 / 2 are values of the formats; the scale factor is the
  \<open>long double\<close> nearest to 8 / 10, and the quotient of 11 / 2 by it is rounded to 55 / 8.
  The utilization is 78 and its tenth is rounded to a value between 7 and 8. The events
  are those of the arithmetic that does not round.
\<close>

lemma x87_memory:
  "bytes_to_GiB x87_arith 8589934592 = 8"
  "bytes_to_GiB x87_arith 2684354560 = 5 / 2"
  "fsub x87_arith 8 (5 / 2) = 11 / 2"
  "rounded (ld x87_arith) (8 / 10) = 14757395258967641293 / 18446744073709551616"
  "rounded (ld x87_arith) (11 / 2 / (14757395258967641293 / 18446744073709551616)) = 55 / 8"
proof -
  have "round_to 53 (5 / 2) = 5 / 2"
    by (subst round_to_eval [where e = 1]) (simp_all add: round_even_def powr_minus)
  then have a: "rounded (round_to 53) (5 / 2) = 5 / 2" by (simp add: rounded_def)
  show "bytes_to_GiB x87_arith 8589934592 = 8"
    by (simp add: bytes_to_GiB_def GiB_def round_to_numeral)
  show "bytes_to_GiB x87_arith 2684354560 = 5 / 2"
    by (simp add: bytes_to_GiB_def GiB_def round_to_numeral a)
  have "round_to 64 (8 - 5 / 2) = 11 / 2"
    by (subst round_to_eval [where e = 2]) (simp_all add: round_even_def powr_minus)
  then show "fsub x87_arith 8 (5 / 2) = 11 / 2" by (simp add: fsub_def rounded_def)
  have "round_to 64 (8 / 10) = 14757395258967641293 / 18446744073709551616"
    by (subst round_to_eval [where e = "- 1"]) (simp_all add: round_even_def powr_minus)
  then show "rounded (ld x87_arith) (8 / 10) = 14757395258967641293 / 18446744073709551616"
    by (simp add: rounded_def)
  have "round_to 64 (11 / 2 / (14757395258967641293 / 18446744073709551616)) = 55 / 8"
    by (subst round_to_eval [where e = 2]) (simp_all add: round_even_def powr_minus)
  then show "rounded (ld x87_arith) (11 / 2 / (14757395258967641293 / 18446744073709551616))
               = 55 / 8"
    by (simp add: rounded_def)
qed

lemma x87_78:
  "fdiv x87_arith 78 100 = Finite (3597115094373362565 / 4611686018427387904)"
  "fmul x87_arith (3597115094373362565 / 4611686018427387904) 100 = 78"
  "rounded (ld x87_arith) (78 / 10) = 8992787735933406413 / 1152921504606846976"
proof -
  have "round_to 64 (78 / 100) = 3597115094373362565 / 4611686018427387904"
    by (subst round_to_eval [where e = "- 1"]) (simp_all add: round_even_def powr_minus)
  then show "fdiv x87_arith 78 100 = Finite (3597115094373362565 / 4611686018427387904)"
    by (simp add: fdiv_def rounded_def)
  have "round_to 64 (3597115094373362565 / 4611686018427387904 * 100) = 78"
    by (subst round_to_eval [where e = 6]) (simp_all add: round_even_def powr_minus)
  then show "fmul x87_arith (3597115094373362565 / 4611686018427387904) 100 = 78"
    by (simp add: fmul_def rounded_def)
  have "round_to 64 (78 / 10) = 8992787735933406413 / 1152921504606846976"
    by (subst round_to_eval [where e = 2]) (simp_all add: round_even_def powr_minus)
  then show "rounded (ld x87_arith) (78 / 10) = 8992787735933406413 / 1152921504606846976"
    by (simp add: rounded_def)
qed

lemma draw_panels_vars_x87:
  "snd (draw_panels x87_arith cfg_all (Some sysinfo_8G) (Scanned stat_a True)) = Ret vars_x87"
proof -
  have t: "get_total_memory x87_arith (Some sysinfo_8G) = ([], Ret 8)"
    by (simp add: get_total_memory_cases sysinfo_8G_def x87_memory(1))
  show ?thesis
    unfolding draw_panels_def draw_memory_graph_def t
    using x87_memory(4)
    by (simp add: cfg_all_def initializeArgument_def draw_cpu_graph_def draw_graph_def Let_def
      vars0_def save_position_def vars_ex_def vars_x87_def calculate_cpu_utilization_def
      tracker0_def x87_snapshots split: prod.splits)
qed

lemma tick_ok_events_x87:
  "sample_tick x87_arith cfg_all vars_x87 tick_ok =
     ([At 2 11 [Str ''       ''],
       At 2 11 [Str '' '', Num 2 (11 / 2), Str '' '', Str ''GB''],
       At 6 10 [Str ''#''],
       At 16 8 [Str '' '', Num 2 78, Str '' %          ''],
       At 20 10 [Str '':''],
       Sleep 500000],
      Ret (vars_x87\<lparr>memory := \<lparr>row = 13, col = 11\<rparr>, cpu := \<lparr>row = 28, col = 11\<rparr>,
                    tracker := \<lparr>preTotalCPU = 1100, preIdleCPU = 822,
                                finalTotalCPU = 1100, finalIdleCPU = 822\<rparr>\<rparr>))"
proof -
  have u: "calculate_memory_used x87_arith (used_sysinfo tick_ok) (total_sysinfo tick_ok)
             = ([], Ret (11 / 2))"
    by (simp add: tick_ok_def sysinfo_8G_def calculate_memory_used_cases x87_memory(1,2,3))
  have sf: "scaling_factor vars_x87 = 14757395258967641293 / 18446744073709551616"
    by (simp add: vars_x87_def)
  have m: "memory_tick x87_arith vars_x87 tick_ok =
     ([At 2 11 [Str ''       ''],
       At 2 11 [Str '' '', Num 2 (11 / 2), Str '' '', Str ''GB''],
       At 6 10 [Str ''#'']],
      Ret (vars_x87\<lparr>memory := \<lparr>row = 13, col = 11\<rparr>\<rparr>))"
    using memory_tick_Ret [OF u, of vars_x87] unfolding sf x87_memory(5)
    by (simp add: vars_x87_def vars_ex_def int_of_real_def)
  have s: "currentTotalCPU x87_arith stat_d = 1100" "currentIdleCPU x87_arith stat_d = 822"
    by (simp_all add: stat_d_def currentTotalCPU_def currentIdleCPU_def fadd_def
        round_to_numeral)
  have k: "calculate_cpu_utilization x87_arith
             (tracker (vars_x87\<lparr>memory := \<lparr>row = 13, col = 11\<rparr>\<rparr>)) (Scanned stat_d True) =
     ([], Finite 78,
      \<lparr>preTotalCPU = 1100, preIdleCPU = 822, finalTotalCPU = 1100, finalIdleCPU = 822\<rparr>)"
    by (simp add: calculate_cpu_utilization_def Let_def vars_x87_def vars_ex_def tracker0_def s
        fsub_def round_to_numeral x87_78(1,2))
  have st: "stat tick_ok = Scanned stat_d True" by (simp add: tick_ok_def)
  have c: "cpu_tick x87_arith (vars_x87\<lparr>memory := \<lparr>row = 13, col = 11\<rparr>\<rparr>) tick_ok =
     ([At 16 8 [Str '' '', Num 2 78, Str '' %          ''],
       At 20 10 [Str '':'']],
      Ret (vars_x87\<lparr>memory := \<lparr>row = 13, col = 11\<rparr>, cpu := \<lparr>row = 28, col = 11\<rparr>,
                    tracker := \<lparr>preTotalCPU = 1100, preIdleCPU = 822,
                                finalTotalCPU = 1100, finalIdleCPU = 822\<rparr>\<rparr>))"
    using cpu_tick_Ret [of x87_arith "vars_x87\<lparr>memory := \<lparr>row = 13, col = 11\<rparr>\<rparr>" tick_ok,
        unfolded st, OF k]
    unfolding x87_78(3)
    by (simp add: vars_x87_def vars_ex_def int_of_real_def)
  show ?thesis
    by (simp add: sample_tick_def m c cfg_all_def initializeArgument_def)
qed

text \<open>
  C6, as the code has it. In an iteration that completes, the memory panel writes
  \<open>#\<close> at row \<open>memory.row - k - 1\<close> in its current column, where \<open>k\<close> is the used
  memory divided by the scale factor, in \<open>long double\<close>, and converted to \<open>int\<close>, that
  is truncated; and the CPU panel writes \<open>:\<close> at row \<open>cpu.row - k - 1\<close> in its current
  column, where \<open>k\<close> is the utilization divided by 10, in \<open>long double\<close>, and truncated.
  The utilization is always a number. Each panel writes that glyph alone and then advances
  its column by 1. For a quotient that is not negative the truncated value is its integer
  part. The scale factor is the total memory divided by 10, in \<open>long double\<close>. All of
  that holds in every arithmetic.
\<close>

theorem glyph_row_is_truncated_quotient:
  assumes "sample_tick fp cfg v rd = (es, Ret v')"
  shows "(memory_flag cfg
            \<and> calculate_memory_used fp (used_sysinfo rd) (total_sysinfo rd) = (esm, Ret u)
            \<and> scaling_factor v \<noteq> 0
            \<and> castable (rounded (ld fp) (u / scaling_factor v))
            \<and> col (memory v) < INT_MAX \<longrightarrow>
            At (row (memory v) - int_of_real (rounded (ld fp) (u / scaling_factor v)) - 1)
              (col (memory v)) [Str ''#''] \<in> set es
            \<and> glyph_cols ''#'' es = [col (memory v)]
            \<and> col (memory v') = col (memory v) + 1)
         \<and> (\<exists>w. fst (snd (calculate_cpu_utilization fp (tracker v) (stat rd))) = Finite w)
         \<and> (cpu_flag cfg
            \<and> fst (snd (calculate_cpu_utilization fp (tracker v) (stat rd))) = Finite w
            \<and> castable (rounded (ld fp) (w / 10))
            \<and> col (cpu v) < INT_MAX \<longrightarrow>
            At (row (cpu v) - int_of_real (rounded (ld fp) (w / 10)) - 1)
              (col (cpu v)) [Str '':''] \<in> set es
            \<and> glyph_cols '':'' es = [col (cpu v)]
            \<and> col (cpu v') = col (cpu v) + 1)
         \<and> (0 \<le> x \<longrightarrow>
              real_of_int (int_of_real x) \<le> x \<and> x < real_of_int (int_of_real x) + 1)
         \<and> (draw_memory_graph fp r c n si = (esd, Ret (pos, r', c', sf)) \<longrightarrow>
              (\<exists>est m. get_total_memory fp si = (est, Ret m)
                       \<and> sf = rounded (ld fp) (m / 10)))"
  using sample_tick_memory_glyph [OF assms, of esm u]
    sample_tick_cpu_events [OF _ assms, of w]
    calculate_cpu_utilization_number [of fp "tracker v" "stat rd"]
    sample_tick_glyphs_Ret [OF assms] int_of_real_truncates [of x]
    draw_memory_graph_scale [of fp r c n si esd pos r' c' sf]
  by simp

text \<open>
  An iteration of both panels in the arithmetic that does not round, the iteration of the
  run above in the x87 arithmetic, and the iteration of both panels in the x87 arithmetic.
\<close>

theorem glyph_row_is_truncated_quotient_witness:
  "memory_flag cfg_all \<and> cpu_flag cfg_all
   \<and> calculate_memory_used exact_arith (used_sysinfo tick_ok) (total_sysinfo tick_ok)
       = ([], Ret (11 / 2))
   \<and> scaling_factor vars_ex \<noteq> 0
   \<and> castable (rounded (ld exact_arith) ((11 / 2) / scaling_factor vars_ex))
   \<and> col (memory vars_ex) < INT_MAX
   \<and> fst (snd (calculate_cpu_utilization exact_arith (tracker vars_ex) (stat tick_ok)))
       = Finite 78
   \<and> castable (rounded (ld exact_arith) (78 / 10))
   \<and> col (cpu vars_ex) < INT_MAX
   \<and> At 6 10 [Str ''#''] \<in> set (fst (sample_tick exact_arith cfg_all vars_ex tick_ok))
   \<and> At 20 10 [Str '':''] \<in> set (fst (sample_tick exact_arith cfg_all vars_ex tick_ok))
   \<and> (0::real) \<le> 55 / 8 \<and> int_of_real (55 / 8) = 6
   \<and> snd (draw_memory_graph exact_arith 2 1 20 (Some sysinfo_8G)) =
       Ret (\<lparr>row = 2, col = 11\<rparr>, 14, 9, 8 / 10)
   \<and> snd (get_total_memory exact_arith (Some sysinfo_8G)) = Ret 8
   \<and> cpu_flag cfg_cpu
   \<and> fst (snd (calculate_cpu_utilization x87_arith (tracker vars_cpu) (stat tick_f)))
       = Finite (15132094747964866559 / 72057594037927936)
   \<and> castable (rounded (ld x87_arith) (15132094747964866559 / 72057594037927936 / 10))
   \<and> col (cpu vars_cpu) < INT_MAX
   \<and> At (- 6) 10 [Str '':''] \<in> set (fst (sample_tick x87_arith cfg_cpu vars_cpu tick_f))
   \<and> calculate_memory_used x87_arith (used_sysinfo tick_ok) (total_sysinfo tick_ok)
       = ([], Ret (11 / 2))
   \<and> scaling_factor vars_x87 \<noteq> 0
   \<and> castable (rounded (ld x87_arith) ((11 / 2) / scaling_factor vars_x87))
   \<and> col (memory vars_x87) < INT_MAX
   \<and> fst (snd (calculate_cpu_utilization x87_arith (tracker vars_x87) (stat tick_ok)))
       = Finite 78
   \<and> castable (rounded (ld x87_arith) (78 / 10))
   \<and> col (cpu vars_x87) < INT_MAX
   \<and> At 6 10 [Str ''#''] \<in> set (fst (sample_tick x87_arith cfg_all vars_x87 tick_ok))
   \<and> At 20 10 [Str '':''] \<in> set (fst (sample_tick x87_arith cfg_all vars_x87 tick_ok))"
proof -
  have f: "memory_flag cfg_all" "cpu_flag cfg_all" by (simp_all add: ex_defs)
  have m: "calculate_memory_used exact_arith (used_sysinfo tick_ok) (total_sysinfo tick_ok)
             = ([], Ret (11 / 2))"
    by (simp add: ex_defs calculate_memory_used_exact GiB_def)
  have u: "fst (snd (calculate_cpu_utilization exact_arith (tracker vars_ex) (stat tick_ok)))
             = Finite 78"
    by (simp add: ex_defs calculate_cpu_utilization_def Let_def fdiv_exact)
  have rm: "scaling_factor vars_ex \<noteq> 0"
    "castable (rounded (ld exact_arith) ((11 / 2) / scaling_factor vars_ex))"
    "col (memory vars_ex) < INT_MAX"
    by (simp_all add: vars_ex_def castable_def INT_MAX_def)
  have rc: "castable (rounded (ld exact_arith) (78 / 10))" "col (cpu vars_ex) < INT_MAX"
    by (simp_all add: vars_ex_def castable_def INT_MAX_def)
  have g: "draw_memory_graph exact_arith 2 1 20 (Some sysinfo_8G) =
      (fst (draw_memory_graph exact_arith 2 1 20 (Some sysinfo_8G)),
       Ret (\<lparr>row = 2, col = 11\<rparr>, 14, 9, 8 / 10))"
    using draw_memory_graph_8G
    by (cases "draw_memory_graph exact_arith 2 1 20 (Some sysinfo_8G)") simp
  have e: "fst (sample_tick exact_arith cfg_all vars_ex tick_ok) =
     [At 2 11 [Str ''       ''],
       At 2 11 [Str '' '', Num 2 (11 / 2), Str '' '', Str ''GB''],
       At 6 10 [Str ''#''],
       At 16 8 [Str '' '', Num 2 78, Str '' %          ''],
       At 20 10 [Str '':''],
       Sleep 500000]"
    by (simp add: tick_ok_events)
  note t = glyph_row_is_truncated_quotient [OF tick_ok_events,
      where esm = "[]" and u = "11 / 2" and w = 78 and x = "55 / 8" and r = 2 and c = 1
        and n = 20 and si = "Some sysinfo_8G"
        and esd = "fst (draw_memory_graph exact_arith 2 1 20 (Some sysinfo_8G))"
        and pos = "\<lparr>row = 2, col = 11\<rparr>" and r' = 14 and c' = 9 and sf = "8 / 10",
      folded e]
  from t f m rm have
    "At (row (memory vars_ex)
           - int_of_real (rounded (ld exact_arith) ((11 / 2) / scaling_factor vars_ex)) - 1)
      (col (memory vars_ex)) [Str ''#'']
       \<in> set (fst (sample_tick exact_arith cfg_all vars_ex tick_ok))"
    by blast
  then have a: "At 6 10 [Str ''#''] \<in> set (fst (sample_tick exact_arith cfg_all vars_ex tick_ok))"
    by (simp add: vars_ex_def int_of_real_def)
  from t f u rc have
    "At (row (cpu vars_ex) - int_of_real (rounded (ld exact_arith) (78 / 10)) - 1)
      (col (cpu vars_ex)) [Str '':'']
       \<in> set (fst (sample_tick exact_arith cfg_all vars_ex tick_ok))"
    by blast
  then have b: "At 20 10 [Str '':''] \<in> set (fst (sample_tick exact_arith cfg_all vars_ex tick_ok))"
    by (simp add: vars_ex_def int_of_real_def)
  have x: "(0::real) \<le> 55 / 8" by simp
  from t x have "real_of_int (int_of_real (55 / 8)) \<le> 55 / 8
      \<and> 55 / 8 < real_of_int (int_of_real (55 / 8)) + 1" by blast
  then have c: "int_of_real (55 / 8) = 6" by (simp add: int_of_real_def)
  from t g obtain est m' where "get_total_memory exact_arith (Some sysinfo_8G) = (est, Ret m')"
    and "(8 / 10 :: real) = rounded (ld exact_arith) (m' / 10)" by blast
  then have d: "snd (get_total_memory exact_arith (Some sysinfo_8G)) = Ret 8" by simp
  have fx: "cpu_flag cfg_cpu" by (simp add: cfg_cpu_def initializeArgument_def)
  have ux: "fst (snd (calculate_cpu_utilization x87_arith (tracker vars_cpu) (stat tick_f)))
              = Finite (15132094747964866559 / 72057594037927936)"
    using stat_f_utilization by (simp add: tick_f_def)
  have rx: "castable (rounded (ld x87_arith) (15132094747964866559 / 72057594037927936 / 10))"
    "col (cpu vars_cpu) < INT_MAX"
    unfolding x87_tenth by (simp_all add: castable_def vars_cpu_def INT_MAX_def)
  define ex where "ex = fst (sample_tick x87_arith cfg_cpu vars_cpu tick_f)"
  have ex: "sample_tick x87_arith cfg_cpu vars_cpu tick_f =
      (ex, Ret (vars_cpu\<lparr>tracker := \<lparr>preTotalCPU = 1010, preIdleCPU = 789,
                                       finalTotalCPU = 1010, finalIdleCPU = 789\<rparr>,
                          cpu := \<lparr>row = 15, col = 11\<rparr>\<rparr>))"
    by (simp add: ex_def tick_f_events)
  note tx = glyph_row_is_truncated_quotient [OF ex,
      where w = "15132094747964866559 / 72057594037927936"]
  from tx fx ux rx have
    "At (row (cpu vars_cpu)
           - int_of_real (rounded (ld x87_arith)
                            (15132094747964866559 / 72057594037927936 / 10)) - 1)
      (col (cpu vars_cpu)) [Str '':''] \<in> set ex"
    by blast
  then have y: "At (- 6) 10 [Str '':''] \<in> set (fst (sample_tick x87_arith cfg_cpu vars_cpu tick_f))"
    unfolding x87_tenth ex_def by (simp add: vars_cpu_def int_of_real_def)
  have sf: "scaling_factor vars_x87 = 14757395258967641293 / 18446744073709551616"
    by (simp add: vars_x87_def)
  have mz: "calculate_memory_used x87_arith (used_sysinfo tick_ok) (total_sysinfo tick_ok)
              = ([], Ret (11 / 2))"
    by (simp add: tick_ok_def sysinfo_8G_def calculate_memory_used_cases x87_memory(1,2,3))
  have rmz: "scaling_factor vars_x87 \<noteq> 0"
    "castable (rounded (ld x87_arith) ((11 / 2) / scaling_factor vars_x87))"
    "col (memory vars_x87) < INT_MAX"
    unfolding sf x87_memory(5)
    by (simp_all add: castable_def vars_x87_def vars_ex_def INT_MAX_def)
  have sz: "currentTotalCPU x87_arith stat_d = 1100" "currentIdleCPU x87_arith stat_d = 822"
    by (simp_all add: stat_d_def currentTotalCPU_def currentIdleCPU_def fadd_def
        round_to_numeral)
  have uz: "fst (snd (calculate_cpu_utilization x87_arith (tracker vars_x87) (stat tick_ok)))
              = Finite 78"
    by (simp add: tick_ok_def calculate_cpu_utilization_def Let_def vars_x87_def vars_ex_def
        tracker0_def sz fsub_def round_to_numeral x87_78(1,2))
  have rcz: "castable (rounded (ld x87_arith) (78 / 10))" "col (cpu vars_x87) < INT_MAX"
    unfolding x87_78(3) by (simp_all add: castable_def vars_x87_def vars_ex_def INT_MAX_def)
  define ez where "ez = fst (sample_tick x87_arith cfg_all vars_x87 tick_ok)"
  have ez: "sample_tick x87_arith cfg_all vars_x87 tick_ok =
      (ez, Ret (vars_x87\<lparr>memory := \<lparr>row = 13, col = 11\<rparr>, cpu := \<lparr>row = 28, col = 11\<rparr>,
                         tracker := \<lparr>preTotalCPU = 1100, preIdleCPU = 822,
                                     finalTotalCPU = 1100, finalIdleCPU = 822\<rparr>\<rparr>))"
    by (simp add: ez_def tick_ok_events_x87)
  note tz = glyph_row_is_truncated_quotient [OF ez,
      where esm = "[]" and u = "11 / 2" and w = 78]
  from tz f mz rmz have
    "At (row (memory vars_x87)
           - int_of_real (rounded (ld x87_arith) ((11 / 2) / scaling_factor vars_x87)) - 1)
      (col (memory vars_x87)) [Str ''#''] \<in> set ez"
    by blast
  then have az: "At 6 10 [Str ''#''] \<in> set (fst (sample_tick x87_arith cfg_all vars_x87 tick_ok))"
    unfolding sf x87_memory(5) ez_def by (simp add: vars_x87_def vars_ex_def int_of_real_def)
  from tz f uz rcz have
    "At (row (cpu vars_x87) - int_of_real (rounded (ld x87_arith) (78 / 10)) - 1)
      (col (cpu vars_x87)) [Str '':''] \<in> set ez"
    by blast
  then have bz: "At 20 10 [Str '':''] \<in> set (fst (sample_tick x87_arith cfg_all vars_x87 tick_ok))"
    unfolding x87_78(3) ez_def by (simp add: vars_x87_def vars_ex_def int_of_real_def)
  from f m rm u rc a b x c draw_memory_graph_8G d fx ux rx y mz rmz uz rcz az bz
  show ?thesis by blast
qed

text \<open>
  C6 as stated fails: with 5.5 GiB used of 8 GiB the quotient is 6.875 and the glyph
  is written at offset 6 (row 6), where rounding gives offset 7 (row 5); with a
  utilization of 78 the glyph is written at offset 7 (row 20), where rounding gives
  offset 8 (row 19). In the x87 arithmetic, in the run above, the quotient is just below
  21 and the glyph is written at offset 20 (row -6), where rounding gives offset 21
  (row -7); and in the iteration of both panels the quotients are 6.875 and the
  \<open>long double\<close> nearest to 7.8, and the glyphs are written in rows 6 and 20, where rounding gives rows 5 and 19.
\<close>

theorem glyph_row_is_truncated_quotient_counterexample:
  "fst (sample_tick exact_arith cfg_all vars_ex tick_ok) =
     [At 2 11 [Str ''       ''],
      At 2 11 [Str '' '', Num 2 (11 / 2), Str '' '', Str ''GB''],
      At 6 10 [Str ''#''],
      At 16 8 [Str '' '', Num 2 78, Str '' %          ''],
      At 20 10 [Str '':''],
      Sleep 500000]
   \<and> row (memory vars_ex) - round ((11 / 2) / scaling_factor vars_ex) - 1 = 5
   \<and> row (cpu vars_ex) - round (78 / 10 :: real) - 1 = 19
   \<and> fst (sample_tick x87_arith cfg_cpu vars_cpu tick_f) =
       [At 3 8 [Str '' '', Num 2 (15132094747964866559 / 72057594037927936),
                Str '' %          ''],
        At (- 6) 10 [Str '':''],
        Sleep 500000]
   \<and> rounded (ld x87_arith) (15132094747964866559 / 72057594037927936 / 10)
       = 12105675798371893247 / 576460752303423488
   \<and> row (cpu vars_cpu) - round (12105675798371893247 / 576460752303423488 :: real) - 1 = - 7
   \<and> fst (sample_tick x87_arith cfg_all vars_x87 tick_ok) =
       [At 2 11 [Str ''       ''],
        At 2 11 [Str '' '', Num 2 (11 / 2), Str '' '', Str ''GB''],
        At 6 10 [Str ''#''],
        At 16 8 [Str '' '', Num 2 78, Str '' %          ''],
        At 20 10 [Str '':''],
        Sleep 500000]
   \<and> rounded (ld x87_arith) (11 / 2 / (14757395258967641293 / 18446744073709551616)) = 55 / 8
   \<and> row (memory vars_x87) - round (55 / 8 :: real) - 1 = 5
   \<and> rounded (ld x87_arith) (78 / 10) = 8992787735933406413 / 1152921504606846976
   \<and> row (cpu vars_x87) - round (8992787735933406413 / 1152921504606846976 :: real) - 1 = 19"
  unfolding x87_tenth x87_memory(5) x87_78(3)
  by (simp add: tick_ok_events tick_f_events tick_ok_events_x87)
    (simp add: vars_ex_def vars_cpu_def vars_x87_def round_def)

subsection \<open>The cores panel\<close>

lemma draw_cores_cases:
  "cores_flag cfg \<Longrightarrow>
   draw_cores fp cfg r FreqScanFailed ci =
     ([Err (''Error: failed to calculate max frequency'' @ nl)], Exit 1)"
  "cores_flag cfg \<Longrightarrow>
   draw_cores fp cfg r FreqOpenFailed ci =
     (Err (''Error reading the file'' @ nl) # fst (calculate_cores ci)
        @ fst (coresGraph (snd (calculate_cores ci)) 1 (r + 1) 0),
      Ret (fst (snd (coresGraph (snd (calculate_cores ci)) 1 (r + 1) 0))))"
  "\<not> cores_flag cfg \<Longrightarrow> draw_cores fp cfg r fr ci = ([], Ret (save_position r 1))"
  by (simp_all add: draw_cores_def calculate_max_frequency_def split: prod.splits)

lemma coresGraph_heading:
  "At (r + 2) c [Str ''v Number of Cores: '', IntNum n, Str '' @ '', Num 2 f, Str ('' GHz'' @ nl)]
     \<in> set (fst (coresGraph n c r f))"
  by (simp add: coresGraph_def Let_def split: prod.splits)

lemma draw_cores_frequency_failures:
  assumes "cores_flag cfg"
  shows "draw_cores fp cfg r FreqScanFailed ci =
           ([Err (''Error: failed to calculate max frequency'' @ nl)], Exit 1)
         \<and> (\<exists>es pos. draw_cores fp cfg r FreqOpenFailed ci =
               (Err (''Error reading the file'' @ nl) # es, Ret pos)
             \<and> At (r + 3) 1
                 [Str ''v Number of Cores: '', IntNum (snd (calculate_cores ci)), Str '' @ '',
                  Num 2 0, Str ('' GHz'' @ nl)] \<in> set es)"
proof -
  have e: "r + 1 + 2 = r + 3" by simp
  have h: "At (r + 3) 1
          [Str ''v Number of Cores: '', IntNum (snd (calculate_cores ci)), Str '' @ '',
           Num 2 0, Str ('' GHz'' @ nl)]
        \<in> set (fst (coresGraph (snd (calculate_cores ci)) 1 (r + 1) 0))"
    using coresGraph_heading [of "r + 1" 1 "snd (calculate_cores ci)" 0] unfolding e .
  show ?thesis
  proof (intro conjI exI)
    show "draw_cores fp cfg r FreqScanFailed ci =
           ([Err (''Error: failed to calculate max frequency'' @ nl)], Exit 1)"
      by (rule draw_cores_cases(1) [OF assms])
    show "draw_cores fp cfg r FreqOpenFailed ci =
        (Err (''Error reading the file'' @ nl)
           # (fst (calculate_cores ci) @ fst (coresGraph (snd (calculate_cores ci)) 1 (r + 1) 0)),
         Ret (fst (snd (coresGraph (snd (calculate_cores ci)) 1 (r + 1) 0))))"
      by (rule draw_cores_cases(2) [OF assms])
    show "At (r + 3) 1
          [Str ''v Number of Cores: '', IntNum (snd (calculate_cores ci)), Str '' @ '',
           Num 2 0, Str ('' GHz'' @ nl)]
        \<in> set (fst (calculate_cores ci) @ fst (coresGraph (snd (calculate_cores ci)) 1 (r + 1) 0))"
      using h by simp
  qed
qed

text \<open>
  C5, as the code has it. With the cores panel enabled: when the content of the
  maximum-frequency file cannot be scanned as a number, the program ends with exit status
  1; when the file cannot be opened, the frequency is taken as 0 and the cores panel is
  drawn all the same, its heading showing that frequency. For a whole run that reaches
  the cores panel, the first case ends the program with exit status 1 and the second
  lets it return 0.
\<close>

theorem max_frequency_failures:
  assumes "cores_flag cfg"
  shows "draw_cores fp cfg r FreqScanFailed ci =
           ([Err (''Error: failed to calculate max frequency'' @ nl)], Exit 1)
         \<and> (\<exists>es pos. draw_cores fp cfg r FreqOpenFailed ci =
               (Err (''Error reading the file'' @ nl) # es, Ret pos)
             \<and> At (r + 3) 1
                 [Str ''v Number of Cores: '', IntNum (snd (calculate_cores ci)), Str '' @ '',
                  Num 2 0, Str ('' GHz'' @ nl)] \<in> set es)
         \<and> (processCommandLineArguments (length args) (initializeArgument (length args) args) =
               (es0, rc, cfg)
             \<and> rc \<noteq> - 1 \<and> graph_sysinfo h \<noteq> None
             \<and> (\<forall>i < nat (samples cfg).
                  \<not> (memory_flag cfg \<and> used_sysinfo (tick h i) \<noteq> None
                     \<and> total_sysinfo (tick h i) = None)) \<longrightarrow>
             (max_freq_file h = FreqOpenFailed \<longrightarrow> snd (main args h) = Ret 0)
             \<and> (max_freq_file h = FreqScanFailed \<longrightarrow> snd (main args h) = Exit 1))"
proof -
  have "(max_freq_file h = FreqOpenFailed \<longrightarrow> snd (main args h) = Ret 0)
             \<and> (max_freq_file h = FreqScanFailed \<longrightarrow> snd (main args h) = Exit 1)"
    if p: "processCommandLineArguments (length args) (initializeArgument (length args) args) =
               (es0, rc, cfg)"
      and q: "rc \<noteq> - 1" "graph_sysinfo h \<noteq> None"
        "\<forall>i < nat (samples cfg).
                  \<not> (memory_flag cfg \<and> used_sysinfo (tick h i) \<noteq> None
                     \<and> total_sysinfo (tick h i) = None)"
    using main_returns [OF p q] main_exits_on_scan_failure [OF p q assms] by simp
  with draw_cores_frequency_failures [OF assms, of fp r ci] show ?thesis by blast
qed

theorem max_frequency_failures_witness:
  "cores_flag cfg_all
   \<and> draw_cores exact_arith cfg_all 29 FreqScanFailed (cpuinfo_file host_ok) =
       ([Err (''Error: failed to calculate max frequency'' @ nl)], Exit 1)
   \<and> At 32 1 [Str ''v Number of Cores: '', IntNum 1, Str '' @ '', Num 2 0, Str ('' GHz'' @ nl)]
       \<in> set (fst (draw_cores exact_arith cfg_all 29 FreqOpenFailed (cpuinfo_file host_ok)))
   \<and> (\<exists>pos. snd (draw_cores exact_arith cfg_all 29 FreqOpenFailed (cpuinfo_file host_ok)) = Ret pos)
   \<and> snd (main [''prog'', ''2''] (host_ok\<lparr>max_freq_file := FreqOpenFailed\<rparr>)) = Ret 0
   \<and> snd (main [''prog'', ''2''] (host_ok\<lparr>max_freq_file := FreqScanFailed\<rparr>)) = Exit 1"
proof -
  let ?cfg = "\<lparr>memory_flag = True, cpu_flag = True, cores_flag = True, samples = 2,
       tdelay = 500000, updated_sample = True, updated_tdelay = False, argc = 2,
       argv = [''prog'', ''2'']\<rparr>"
  have f: "cores_flag cfg_all" by (simp add: ex_defs)
  have f': "cores_flag ?cfg" by simp
  have n: "snd (calculate_cores (cpuinfo_file host_ok)) = 1"
    by (simp add: host_ok_def calculate_cores_def)
  note t = max_frequency_failures
      [OF f, of exact_arith 29 "cpuinfo_file host_ok" "[]" "[]" 0 host_ok, unfolded n]
  from t have a1: "draw_cores exact_arith cfg_all 29 FreqScanFailed (cpuinfo_file host_ok) =
       ([Err (''Error: failed to calculate max frequency'' @ nl)], Exit 1)"
    by blast
  from t obtain es pos where
    o: "draw_cores exact_arith cfg_all 29 FreqOpenFailed (cpuinfo_file host_ok) =
         (Err (''Error reading the file'' @ nl) # es, Ret pos)"
    and i: "At (29 + 3) 1
         [Str ''v Number of Cores: '', IntNum 1, Str '' @ '', Num 2 0, Str ('' GHz'' @ nl)]
         \<in> set es"
    by blast
  have a2: "At 32 1
      [Str ''v Number of Cores: '', IntNum 1, Str '' @ '', Num 2 0, Str ('' GHz'' @ nl)]
       \<in> set (fst (draw_cores exact_arith cfg_all 29 FreqOpenFailed (cpuinfo_file host_ok)))"
    using i unfolding o by simp
  have a3: "\<exists>pos. snd (draw_cores exact_arith cfg_all 29 FreqOpenFailed (cpuinfo_file host_ok)) = Ret pos"
    unfolding o by simp
  note a = a1 a2 a3
  have b: "snd (main [''prog'', ''2''] (host_ok\<lparr>max_freq_file := FreqOpenFailed\<rparr>)) = Ret 0"
    using max_frequency_failures [OF f', of _ _ _ "[''prog'', ''2'']" "[]" 0
        "host_ok\<lparr>max_freq_file := FreqOpenFailed\<rparr>"] parse_two_length
    by (simp add: host_ok_def tick_ok_def)
  have c: "snd (main [''prog'', ''2''] (host_ok\<lparr>max_freq_file := FreqScanFailed\<rparr>)) = Exit 1"
    using max_frequency_failures [OF f', of _ _ _ "[''prog'', ''2'']" "[]" 0
        "host_ok\<lparr>max_freq_file := FreqScanFailed\<rparr>"] parse_two_length
    by (simp add: host_ok_def tick_ok_def)
  from f a b c show ?thesis by blast
qed

text \<open>
  C5 as stated fails: in a run of the cores panel where the file is opened and holds no
  number, the program ends with exit status 1.
\<close>

theorem max_frequency_failures_counterexample:
  "snd (main [''prog'', ''1'', ''--cores''] host_no_freq) = Exit 1"
proof -
  let ?cfg = "\<lparr>memory_flag = False, cpu_flag = False, cores_flag = True, samples = 1,
       tdelay = 500000, updated_sample = True, updated_tdelay = False, argc = 3,
       argv = [''prog'', ''1'', ''--cores'']\<rparr>"
  let ?h = "host_ok\<lparr>max_freq_file := FreqScanFailed\<rparr>"
  let ?v = "vars0\<lparr>tracker := snd (snd (calculate_cpu_utilization (arithmetic ?h) tracker0 (first_stat ?h)))\<rparr>"
  have p: "draw_panels (arithmetic ?h) ?cfg (graph_sysinfo ?h) (first_stat ?h) =
      (fst (calculate_cpu_utilization (arithmetic ?h) tracker0 (first_stat ?h)), Ret ?v)"
    by (rule draw_panels_no_graph) simp_all
  have l: "sampling_loop (arithmetic ?h) ?cfg ?v (map (tick ?h) [0..<nat (samples ?cfg)]) =
      ([Sleep (tdelay ?cfg mod 2 ^ 32)], Ret ?v)"
    by (simp add: sample_tick_no_graph)
  have c: "draw_cores (arithmetic ?h) ?cfg (current_row ?v) (max_freq_file ?h) (cpuinfo_file ?h) =
      ([Err (''Error: failed to calculate max frequency'' @ nl)], Exit 1)"
    by (simp add: draw_cores_cases(1))
  show ?thesis
    unfolding host_no_freq_def
    by (subst main_exits_in_cores [OF _ main_one_sample_cores p l c]) simp_all
qed

end
